theory Spec2Isabelle
  imports Complex_Main
begin

section \<open>Python values and built-ins used by \<open>skeLCS/eLCS.py\<close>\<close>

text \<open>
  A Python float is either a finite value, read as the rational number it denotes, or one
  of the three special values. Python integers are unbounded.
\<close>

datatype pyfloat = Fin rat | PosInf | NegInf | NaN

datatype pyval = PInt int | PFloat pyfloat | PBool bool | PStr string | PNone

text \<open>The argument of \<open>specifiedAttributes\<close>: a numpy array of values, or anything else.\<close>

datatype pyobj = Scalar pyval | NdArray "pyval list"

datatype exn =
  Exception string | TypeError | ValueError | OverflowError | ZeroDivisionError
  | AttributeError | IndexError | FileNotFoundError | NotModelled

text \<open>
  \<open>NotModelled\<close> is no exception of Python: it marks the one branch of \<open>fit\<close> that the
  program cannot reach and for which the model has no value (see \<open>while_entry\<close>).
\<close>

text \<open>
  What \<open>float(s)\<close> and \<open>int(s)\<close> make of a string is Python's business; the two parsers
  are taken as given (\<open>None\<close> is \<open>ValueError\<close>).
\<close>

record builtins =
  float_of_str :: "string \<Rightarrow> pyfloat option"
  int_of_str :: "string \<Rightarrow> int option"

text \<open>
  \<open>float(n)\<close> of an integer raises \<open>OverflowError\<close> once \<open>n\<close> rounds to \<open>2 ^ 1024\<close>,
  that is from \<open>2 ^ 1024 - 2 ^ 970\<close> on.
\<close>

definition float_max_int :: int where
  "float_max_int = 2 ^ 1024 - 2 ^ 970"

fun py_float :: "builtins \<Rightarrow> pyval \<Rightarrow> exn + pyfloat" where
  "py_float B (PInt n) =
     (if \<bar>n\<bar> < float_max_int then Inr (Fin (of_int n)) else Inl OverflowError)"
| "py_float B (PFloat f) = Inr f"
| "py_float B (PBool b) = Inr (Fin (if b then 1 else 0))"
| "py_float B (PStr s) =
     (case float_of_str B s of None \<Rightarrow> Inl ValueError | Some f \<Rightarrow> Inr f)"
| "py_float B PNone = Inl TypeError"

text \<open>\<open>int(x)\<close> truncates a float towards zero.\<close>

definition trunc :: "rat \<Rightarrow> int" where
  "trunc r = (if 0 \<le> r then \<lfloor>r\<rfloor> else \<lceil>r\<rceil>)"

fun py_int :: "builtins \<Rightarrow> pyval \<Rightarrow> exn + int" where
  "py_int B (PInt n) = Inr n"
| "py_int B (PFloat (Fin r)) = Inr (trunc r)"
| "py_int B (PFloat NaN) = Inl ValueError"
| "py_int B (PFloat PosInf) = Inl OverflowError"
| "py_int B (PFloat NegInf) = Inl OverflowError"
| "py_int B (PBool b) = Inr (if b then 1 else 0)"
| "py_int B (PStr s) =
     (case int_of_str B s of None \<Rightarrow> Inl ValueError | Some n \<Rightarrow> Inr n)"
| "py_int B PNone = Inl TypeError"

text \<open>The number a value stands for in arithmetic and comparisons, if it is one.\<close>

fun py_num :: "pyval \<Rightarrow> pyfloat option" where
  "py_num (PInt n) = Some (Fin (of_int n))"
| "py_num (PFloat f) = Some f"
| "py_num (PBool b) = Some (Fin (if b then 1 else 0))"
| "py_num (PStr s) = None"
| "py_num PNone = None"

fun fl_lt :: "pyfloat \<Rightarrow> pyfloat \<Rightarrow> bool" where
  "fl_lt NaN _ = False"
| "fl_lt _ NaN = False"
| "fl_lt (Fin a) (Fin b) = (a < b)"
| "fl_lt NegInf NegInf = False"
| "fl_lt NegInf _ = True"
| "fl_lt _ NegInf = False"
| "fl_lt PosInf _ = False"
| "fl_lt _ PosInf = True"

text \<open>\<open>x < k\<close> and \<open>x > k\<close> for an integer literal \<open>k\<close>; \<open>TypeError\<close> on a non-number.\<close>

definition py_lt :: "pyval \<Rightarrow> int \<Rightarrow> exn + bool" where
  "py_lt v k = (case py_num v of None \<Rightarrow> Inl TypeError
                | Some f \<Rightarrow> Inr (fl_lt f (Fin (of_int k))))"

definition py_gt :: "pyval \<Rightarrow> int \<Rightarrow> exn + bool" where
  "py_gt v k = (case py_num v of None \<Rightarrow> Inl TypeError
                | Some f \<Rightarrow> Inr (fl_lt (Fin (of_int k)) f))"

text \<open>\<open>x - k == 0\<close> for an integer \<open>k\<close>; the subtraction raises on a non-number.\<close>

fun py_sub_is_zero :: "pyval \<Rightarrow> int \<Rightarrow> exn + bool" where
  "py_sub_is_zero (PInt n) k = Inr (n - k = 0)"
| "py_sub_is_zero (PBool b) k = Inr ((if b then 1 else 0) - k = 0)"
| "py_sub_is_zero (PFloat (Fin r)) k = Inr (r - of_int k = 0)"
| "py_sub_is_zero (PFloat PosInf) k = Inr False"
| "py_sub_is_zero (PFloat NegInf) k = Inr False"
| "py_sub_is_zero (PFloat NaN) k = Inr False"
| "py_sub_is_zero (PStr s) k = Inl TypeError"
| "py_sub_is_zero PNone k = Inl TypeError"

section \<open>The parameter checks\<close>

text \<open>
  \<open>checkIsInt\<close>: every exception of the body is caught and gives \<open>False\<close>.
\<close>

definition checkIsInt :: "builtins \<Rightarrow> pyval \<Rightarrow> bool" where
  "checkIsInt B num =
     (case py_float B num of Inl _ \<Rightarrow> False
      | Inr n \<Rightarrow>
        (case py_int B num of Inl _ \<Rightarrow> False
         | Inr k \<Rightarrow>
           (case py_sub_is_zero num k of Inl _ \<Rightarrow> False
            | Inr z \<Rightarrow> z)))"

definition checkIsFloat :: "builtins \<Rightarrow> pyval \<Rightarrow> bool" where
  "checkIsFloat B num = (case py_float B num of Inl _ \<Rightarrow> False | Inr n \<Rightarrow> True)"

definition raise_unless :: "bool \<Rightarrow> string \<Rightarrow> exn + unit" where
  "raise_unless ok msg = (if ok then Inr () else Inl (Exception msg))"

text \<open>\<open>if not self.checkIsInt(v): raise ...\<close> followed by \<open>if v < 0: raise ...\<close>.\<close>

definition chk_nonneg_int :: "builtins \<Rightarrow> pyval \<Rightarrow> string \<Rightarrow> exn + unit" where
  "chk_nonneg_int B v msg =
     (if \<not> checkIsInt B v then Inl (Exception msg)
      else case py_lt v 0 of Inl e \<Rightarrow> Inl e
           | Inr b \<Rightarrow> raise_unless (\<not> b) msg)"

text \<open>\<open>if not self.checkIsFloat(v): raise ...\<close> only.\<close>

definition chk_float :: "builtins \<Rightarrow> pyval \<Rightarrow> string \<Rightarrow> exn + unit" where
  "chk_float B v msg = raise_unless (checkIsFloat B v) msg"

text \<open>\<open>checkIsFloat\<close> followed by \<open>if v < 0: raise ...\<close>.\<close>

definition chk_nonneg_float :: "builtins \<Rightarrow> pyval \<Rightarrow> string \<Rightarrow> exn + unit" where
  "chk_nonneg_float B v msg =
     (if \<not> checkIsFloat B v then Inl (Exception msg)
      else case py_lt v 0 of Inl e \<Rightarrow> Inl e
           | Inr b \<Rightarrow> raise_unless (\<not> b) msg)"

text \<open>\<open>checkIsFloat\<close> followed by \<open>if v < 0 or v > 1: raise ...\<close>.\<close>

definition chk_unit_float :: "builtins \<Rightarrow> pyval \<Rightarrow> string \<Rightarrow> exn + unit" where
  "chk_unit_float B v msg =
     (if \<not> checkIsFloat B v then Inl (Exception msg)
      else case py_lt v 0 of Inl e \<Rightarrow> Inl e
           | Inr True \<Rightarrow> Inl (Exception msg)
           | Inr False \<Rightarrow>
             (case py_gt v 1 of Inl e \<Rightarrow> Inl e
              | Inr b \<Rightarrow> raise_unless (\<not> b) msg))"

text \<open>\<open>if not isinstance(v, bool): raise ...\<close>.\<close>

fun is_bool :: "pyval \<Rightarrow> bool" where
  "is_bool (PBool b) = True"
| "is_bool _ = False"

definition chk_bool :: "pyval \<Rightarrow> string \<Rightarrow> exn + unit" where
  "chk_bool v msg = raise_unless (is_bool v) msg"

text \<open>
  \<open>discreteAttributeLimit\<close>: the \<open>try\<close> block turns every failure, also that of
  \<open>int(...)\<close>, into the one exception. (The messages are written here without their
  inner quotation marks.)
\<close>

definition chk_discreteAttributeLimit :: "builtins \<Rightarrow> pyval \<Rightarrow> exn + unit" where
  "chk_discreteAttributeLimit B v =
     (let msg = ''discreteAttributeLimit param must be nonnegative integer or c or d'' in
      if v \<noteq> PStr ''c'' \<and> v \<noteq> PStr ''d'' then
        (case py_int B v of Inl _ \<Rightarrow> Inl (Exception msg)
         | Inr dpl \<Rightarrow>
           if \<not> checkIsInt B v then Inl (Exception msg)
           else raise_unless (\<not> dpl < 0) msg)
      else Inr ())"

fun chk_spAttrs :: "builtins \<Rightarrow> pyval list \<Rightarrow> exn + unit" where
  "chk_spAttrs B [] = Inr ()"
| "chk_spAttrs B (spAttr # rest) =
     (let msg = ''All specifiedAttributes elements param must be nonnegative integers'' in
      if \<not> checkIsInt B spAttr then Inl (Exception msg)
      else case py_int B spAttr of Inl e \<Rightarrow> Inl e
           | Inr k \<Rightarrow> if k < 0 then Inl (Exception msg) else chk_spAttrs B rest)"

fun chk_specifiedAttributes :: "builtins \<Rightarrow> pyobj \<Rightarrow> exn + unit" where
  "chk_specifiedAttributes B (Scalar v) =
     Inl (Exception ''specifiedAttributes param must be ndarray'')"
| "chk_specifiedAttributes B (NdArray xs) = chk_spAttrs B xs"

definition chk_selectionMethod :: "pyval \<Rightarrow> exn + unit" where
  "chk_selectionMethod v =
     raise_unless (\<not> (v \<noteq> PStr ''tournament'' \<and> v \<noteq> PStr ''roulette''))
       ''selectionMethod param must be tournament or roulette''"

fun chk_rebootFilename :: "pyval \<Rightarrow> exn + unit" where
  "chk_rebootFilename PNone = Inr ()"
| "chk_rebootFilename (PStr s) = Inr ()"
| "chk_rebootFilename _ = Inl (Exception ''rebootFilename param must be None or String from pickle'')"

section \<open>The global random number generators\<close>

text \<open>
  The state of a generator is identified by where it started and how many draws were
  made since. \<open>random.seed(k)\<close> and \<open>np.random.seed(k)\<close> start it from \<open>k\<close>.
\<close>

datatype rng_origin = FromSeed int | FromEntropy nat

datatype rng = Rng rng_origin nat

record rngs =
  py_random :: rng
  np_random :: rng

text \<open>
  The \<open>randomSeed\<close> block. \<open>np.random.seed\<close> accepts only \<open>0 \<le> k < 2 ^ 32\<close> and raises
  \<open>ValueError\<close> otherwise, after \<open>random.seed\<close> has already run.
\<close>

definition seed_randomSeed :: "builtins \<Rightarrow> pyval \<Rightarrow> rngs \<Rightarrow> (exn + unit) \<times> rngs" where
  "seed_randomSeed B v g =
     (let msg = ''randomSeed param must be integer or none'' in
      if v \<noteq> PStr ''none'' then
        if \<not> checkIsInt B v then (Inl (Exception msg), g)
        else case py_int B v of Inl _ \<Rightarrow> (Inl (Exception msg), g)
             | Inr k \<Rightarrow>
               (let g1 = g\<lparr>py_random := Rng (FromSeed k) 0\<rparr> in
                if 0 \<le> k \<and> k < 2 ^ 32
                then (Inr (), g1\<lparr>np_random := Rng (FromSeed k) 0\<rparr>)
                else (Inl (Exception msg), g1))
      else (Inr (), g))"

section \<open>The estimator and its collaborators' data\<close>

record config =
  learningIterations :: pyval
  trackAccuracyWhileFit :: pyval
  N :: pyval
  p_spec :: pyval
  discreteAttributeLimit :: pyval
  specifiedAttributes :: pyobj
  nu :: pyval
  chi :: pyval
  upsilon :: pyval
  theta_GA :: pyval
  theta_del :: pyval
  theta_sub :: pyval
  acc_sub :: pyval
  beta :: pyval
  delta :: pyval
  init_fit :: pyval
  fitnessReduction :: pyval
  doCorrectSetSubsumption :: pyval
  doGASubsumption :: pyval
  selectionMethod :: pyval
  theta_sel :: pyval
  randomSeed :: pyval
  matchForMissingness :: pyval
  rebootFilename :: pyval

text \<open>The defaults of the constructor's signature.\<close>

definition default_config :: config where
  "default_config =
     \<lparr> learningIterations = PInt 10000, trackAccuracyWhileFit = PBool False, N = PInt 1000,
       p_spec = PFloat (Fin (1 / 2)), discreteAttributeLimit = PInt 10,
       specifiedAttributes = NdArray [], nu = PInt 5, chi = PFloat (Fin (4 / 5)),
       upsilon = PFloat (Fin (1 / 25)), theta_GA = PInt 25, theta_del = PInt 20,
       theta_sub = PInt 20, acc_sub = PFloat (Fin (99 / 100)), beta = PFloat (Fin (1 / 5)),
       delta = PFloat (Fin (1 / 10)), init_fit = PFloat (Fin (1 / 100)),
       fitnessReduction = PFloat (Fin (1 / 10)), doCorrectSetSubsumption = PBool False,
       doGASubsumption = PBool True, selectionMethod = PStr ''tournament'',
       theta_sel = PFloat (Fin (1 / 2)), randomSeed = PStr ''none'',
       matchForMissingness = PBool False, rebootFilename = PNone \<rparr>"

text \<open>\<open>tempTrackingObj\<close>; its \<open>microPopSize\<close> is named \<open>microPopSizeT\<close> here.\<close>

record tempTrackingObj =
  macroPopSize :: int
  microPopSizeT :: int
  matchSetSize :: int
  correctSetSize :: int
  avgIterAge :: rat
  subsumptionCount :: int
  crossOverCount :: int
  mutationCount :: int
  coveringCount :: int
  deletionCount :: int

definition resetAll :: tempTrackingObj where
  "resetAll =
     \<lparr> macroPopSize = 0, microPopSizeT = 0, matchSetSize = 0, correctSetSize = 0,
       avgIterAge = 0, subsumptionCount = 0, crossOverCount = 0, mutationCount = 0,
       coveringCount = 0, deletionCount = 0 \<rparr>"

text \<open>
  Modelled from the spec: the classes \<open>Classifier\<close>, \<open>ClassifierSet\<close> and \<open>Timer\<close> are not
  part of the source file. Of a classifier the estimator reads \<open>numerosity\<close>; the rest of
  the rule is \<open>rule\<close>. Of the set it reads and writes \<open>popSet\<close>, \<open>microPopSize\<close>, \<open>matchSet\<close>
  and \<open>correctSet\<close> (section 3 of the spec). Of the timer it reads and writes the global
  counters; \<open>stamps\<close> is whatever else a timer holds.
\<close>

record 'x Classifier =
  numerosity :: int
  rule :: 'x

record 'x ClassifierSet =
  popSet :: "'x Classifier list"
  microPopSize :: int
  matchSet :: "nat list"
  correctSet :: "nat list"

record 'tp Timer =
  globalTime :: rat
  globalMatching :: rat
  globalDeletion :: rat
  globalSubsumption :: rat
  globalSelection :: rat
  globalEvaluation :: rat
  globalAdd :: "rat option"
  globalGA :: "rat option"
  stamps :: 'tp

text \<open>The list \<open>self.finalMetrics\<close>, entries 0 to 7.\<close>

record 'x finalMetrics =
  fm_learningIterations :: pyval
  fm_globalTime :: rat
  fm_globalMatching :: rat
  fm_globalDeletion :: rat
  fm_globalSubsumption :: rat
  fm_globalSelection :: rat
  fm_globalEvaluation :: rat
  fm_popSet :: "'x Classifier list"

text \<open>
  The estimator object. The attributes that only \<open>fit\<close> creates are optional: reading one
  that is not there is an \<open>AttributeError\<close>.
\<close>

record ('x, 'e, 'tp, 'ir) elcs =
  params :: config
  trackingObj :: tempTrackingObj
  record_obj :: 'ir
  hasTrained :: bool
  env :: "'e option"
  explorIter :: "pyval option"
  trackingAccuracy :: "pyfloat list option"
  movingAvgCount :: "int option"
  timer :: "'tp Timer option"
  population :: "'x ClassifierSet option"
  finalMetrics :: "'x finalMetrics option"

section \<open>The constructor\<close>

fun run_checks :: "(exn + unit) list \<Rightarrow> exn + unit" where
  "run_checks [] = Inr ()"
| "run_checks (c # cs) = (case c of Inl e \<Rightarrow> Inl e | Inr _ \<Rightarrow> run_checks cs)"

text \<open>The checks before the \<open>randomSeed\<close> block, in the order of the source.\<close>

definition checks_before_seed :: "builtins \<Rightarrow> config \<Rightarrow> (exn + unit) list" where
  "checks_before_seed B c =
     [ chk_nonneg_int B (learningIterations c) ''learningIterations param must be nonnegative integer'',
       chk_bool (trackAccuracyWhileFit c) ''trackAccuracyWhileFit param must be boolean'',
       chk_nonneg_int B (N c) ''N param must be nonnegative integer'',
       chk_unit_float B (p_spec c) ''p_spec param must be float from 0 - 1'',
       chk_discreteAttributeLimit B (discreteAttributeLimit c),
       chk_specifiedAttributes B (specifiedAttributes c),
       chk_float B (nu c) ''nu param must be float'',
       chk_unit_float B (chi c) ''chi param must be float from 0 - 1'',
       chk_unit_float B (upsilon c) ''upsilon param must be float from 0 - 1'',
       chk_nonneg_float B (theta_GA c) ''theta_GA param must be nonnegative float'',
       chk_nonneg_int B (theta_del c) ''theta_del param must be nonnegative integer'',
       chk_nonneg_int B (theta_sub c) ''theta_sub param must be nonnegative integer'',
       chk_unit_float B (acc_sub c) ''acc_sub param must be float from 0 - 1'',
       chk_float B (beta c) ''beta param must be float'',
       chk_float B (delta c) ''delta param must be float'',
       chk_float B (init_fit c) ''init_fit param must be float'',
       chk_float B (fitnessReduction c) ''fitnessReduction param must be float'',
       chk_bool (doCorrectSetSubsumption c) ''doCorrectSetSubsumption param must be boolean'',
       chk_bool (doGASubsumption c) ''doGASubsumption param must be boolean'',
       chk_selectionMethod (selectionMethod c),
       chk_unit_float B (theta_sel c) ''theta_sel param must be float from 0 - 1'' ]"

definition checks_after_seed :: "config \<Rightarrow> (exn + unit) list" where
  "checks_after_seed c =
     [ chk_bool (matchForMissingness c) ''matchForMissingness param must be boolean'',
       chk_rebootFilename (rebootFilename c) ]"

text \<open>
  \<open>__init__\<close>. \<open>ir0\<close> is the fresh \<open>IterationRecord()\<close>. The result is the exception or the
  new object, together with the generators as the call leaves them.
\<close>

definition init ::
  "builtins \<Rightarrow> 'ir \<Rightarrow> config \<Rightarrow> rngs \<Rightarrow> (exn + ('x, 'e, 'tp, 'ir) elcs) \<times> rngs" where
  "init B ir0 c g =
     (case run_checks (checks_before_seed B c) of
        Inl e \<Rightarrow> (Inl e, g)
      | Inr _ \<Rightarrow>
        (case seed_randomSeed B (randomSeed c) g of
           (Inl e, g') \<Rightarrow> (Inl e, g')
         | (Inr _, g') \<Rightarrow>
           (case run_checks (checks_after_seed c) of
              Inl e \<Rightarrow> (Inl e, g')
            | Inr _ \<Rightarrow>
              (Inr \<lparr> params = c, trackingObj = resetAll, record_obj = ir0,
                     hasTrained = False, env = None, explorIter = None,
                     trackingAccuracy = None, movingAvgCount = None, timer = None,
                     population = None, finalMetrics = None \<rparr>, g'))))"

section \<open>Vocabulary for the constructor's contract\<close>

text \<open>Whether the constructor raises, whatever the exception.\<close>

definition init_raises :: "builtins \<Rightarrow> config \<Rightarrow> rngs \<Rightarrow> bool" where
  "init_raises B c g =
     isl (fst (init B () c g :: (exn + (unit, unit, unit, unit) elcs) \<times> rngs))"

definition below_zero :: "pyval \<Rightarrow> bool" where
  "below_zero v = (case py_num v of None \<Rightarrow> False | Some f \<Rightarrow> fl_lt f (Fin 0))"

definition above_one :: "pyval \<Rightarrow> bool" where
  "above_one v = (case py_num v of None \<Rightarrow> False | Some f \<Rightarrow> fl_lt (Fin 1) f)"

fun finite_num :: "pyval \<Rightarrow> rat option" where
  "finite_num (PInt n) = (if \<bar>n\<bar> < float_max_int then Some (of_int n) else None)"
| "finite_num (PFloat (Fin r)) = Some r"
| "finite_num _ = None"

fun nonneg_int :: "pyval \<Rightarrow> bool" where
  "nonneg_int (PInt n) = (0 \<le> n \<and> n < float_max_int)"
| "nonneg_int _ = False"

definition in_unit :: "pyval \<Rightarrow> bool" where
  "in_unit v = (case finite_num v of None \<Rightarrow> False | Some r \<Rightarrow> 0 \<le> r \<and> r \<le> 1)"

fun seed_ok :: "pyval \<Rightarrow> bool" where
  "seed_ok (PInt k) = (0 \<le> k \<and> k < 2 ^ 32)"
| "seed_ok v = (v = PStr ''none'')"

fun spAttrs_ok :: "pyobj \<Rightarrow> bool" where
  "spAttrs_ok (NdArray xs) = list_all nonneg_int xs"
| "spAttrs_ok (Scalar v) = False"

definition in_range :: "config \<Rightarrow> bool" where
  "in_range c \<longleftrightarrow>
     nonneg_int (learningIterations c) \<and> is_bool (trackAccuracyWhileFit c)
   \<and> nonneg_int (N c) \<and> in_unit (p_spec c)
   \<and> (discreteAttributeLimit c = PStr ''c'' \<or> discreteAttributeLimit c = PStr ''d''
        \<or> nonneg_int (discreteAttributeLimit c))
   \<and> spAttrs_ok (specifiedAttributes c)
   \<and> finite_num (nu c) \<noteq> None \<and> in_unit (chi c) \<and> in_unit (upsilon c)
   \<and> (case finite_num (theta_GA c) of None \<Rightarrow> False | Some r \<Rightarrow> 0 \<le> r)
   \<and> nonneg_int (theta_del c) \<and> nonneg_int (theta_sub c) \<and> in_unit (acc_sub c)
   \<and> finite_num (beta c) \<noteq> None \<and> finite_num (delta c) \<noteq> None
   \<and> finite_num (init_fit c) \<noteq> None \<and> finite_num (fitnessReduction c) \<noteq> None
   \<and> is_bool (doCorrectSetSubsumption c) \<and> is_bool (doGASubsumption c)
   \<and> (selectionMethod c = PStr ''tournament'' \<or> selectionMethod c = PStr ''roulette'')
   \<and> in_unit (theta_sel c) \<and> seed_ok (randomSeed c)
   \<and> is_bool (matchForMissingness c)
   \<and> (rebootFilename c = PNone \<or> (\<exists>s. rebootFilename c = PStr s))"

text \<open>A parser that accepts no string, and generators that were never seeded.\<close>

definition no_parse :: builtins where
  "no_parse = \<lparr> float_of_str = (\<lambda>s. None), int_of_str = (\<lambda>s. None) \<rparr>"

definition unseeded :: rngs where
  "unseeded = \<lparr> py_random = Rng (FromEntropy 0) 0, np_random = Rng (FromEntropy 1) 0 \<rparr>"

section \<open>More of Python's arithmetic\<close>

text \<open>
  Float arithmetic on the special values follows IEEE 754; on finite values it is exact
  here (rounding and overflow of a finite result are not modelled).
\<close>

fun fl_neg :: "pyfloat \<Rightarrow> pyfloat" where
  "fl_neg (Fin a) = Fin (- a)"
| "fl_neg PosInf = NegInf"
| "fl_neg NegInf = PosInf"
| "fl_neg NaN = NaN"

fun fl_add :: "pyfloat \<Rightarrow> pyfloat \<Rightarrow> pyfloat" where
  "fl_add NaN _ = NaN"
| "fl_add _ NaN = NaN"
| "fl_add (Fin a) (Fin b) = Fin (a + b)"
| "fl_add PosInf NegInf = NaN"
| "fl_add NegInf PosInf = NaN"
| "fl_add PosInf _ = PosInf"
| "fl_add _ PosInf = PosInf"
| "fl_add NegInf _ = NegInf"
| "fl_add _ NegInf = NegInf"

definition fl_sub :: "pyfloat \<Rightarrow> pyfloat \<Rightarrow> pyfloat" where
  "fl_sub a b = fl_add a (fl_neg b)"

fun fl_abs :: "pyfloat \<Rightarrow> pyfloat" where
  "fl_abs (Fin a) = Fin \<bar>a\<bar>"
| "fl_abs PosInf = PosInf"
| "fl_abs NegInf = PosInf"
| "fl_abs NaN = NaN"

text \<open>Float division raises on a zero divisor, whatever the dividend.\<close>

fun fl_div :: "pyfloat \<Rightarrow> pyfloat \<Rightarrow> exn + pyfloat" where
  "fl_div a (Fin b) =
     (if b = 0 then Inl ZeroDivisionError
      else Inr (case a of Fin x \<Rightarrow> Fin (x / b) | NaN \<Rightarrow> NaN
                | PosInf \<Rightarrow> (if 0 < b then PosInf else NegInf)
                | NegInf \<Rightarrow> (if 0 < b then NegInf else PosInf)))"
| "fl_div (Fin x) NaN = Inr NaN"
| "fl_div (Fin x) _ = Inr (Fin 0)"
| "fl_div _ _ = Inr NaN"

text \<open>A number as an operand of float arithmetic.\<close>

fun as_float :: "pyval \<Rightarrow> exn + pyfloat" where
  "as_float (PInt n) =
     (if \<bar>n\<bar> < float_max_int then Inr (Fin (of_int n)) else Inl OverflowError)"
| "as_float (PFloat f) = Inr f"
| "as_float (PBool b) = Inr (Fin (if b then 1 else 0))"
| "as_float (PStr s) = Inl TypeError"
| "as_float PNone = Inl TypeError"

text \<open>\<open>a - b\<close>: an integer for two integers (or booleans), a float otherwise.\<close>

fun as_int :: "pyval \<Rightarrow> int option" where
  "as_int (PInt n) = Some n"
| "as_int (PBool b) = Some (if b then 1 else 0)"
| "as_int _ = None"

definition py_sub :: "pyval \<Rightarrow> pyval \<Rightarrow> exn + pyval" where
  "py_sub a b =
     (case (as_int a, as_int b) of
        (Some m, Some n) \<Rightarrow> Inr (PInt (m - n))
      | _ \<Rightarrow>
        (case (py_num a, py_num b) of
           (Some _, Some _) \<Rightarrow>
             (case as_float a of Inl e \<Rightarrow> Inl e
              | Inr x \<Rightarrow>
                (case as_float b of Inl e \<Rightarrow> Inl e
                 | Inr y \<Rightarrow> Inr (PFloat (fl_sub x y))))
         | _ \<Rightarrow> Inl TypeError))"

text \<open>\<open>a == b\<close>: numbers by value (a NaN equals nothing), other values by identity of kind.\<close>

definition py_eq :: "pyval \<Rightarrow> pyval \<Rightarrow> bool" where
  "py_eq a b =
     (case (py_num a, py_num b) of
        (Some x, Some y) \<Rightarrow> x = y \<and> x \<noteq> NaN
      | (None, None) \<Rightarrow> a = b
      | _ \<Rightarrow> False)"

text \<open>The truth value of an object in an \<open>if\<close>.\<close>

fun py_truth :: "pyval \<Rightarrow> bool" where
  "py_truth (PBool b) = b"
| "py_truth (PInt n) = (n \<noteq> 0)"
| "py_truth (PFloat f) = (f \<noteq> Fin 0)"
| "py_truth (PStr s) = (s \<noteq> [])"
| "py_truth PNone = False"

text \<open>
  \<open>np.isnan\<close> on a scalar: an integer must fit a 64-bit numpy integer; a string or \<open>None\<close>
  is a \<open>TypeError\<close>.
\<close>

fun np_isnan :: "pyval \<Rightarrow> exn + bool" where
  "np_isnan (PFloat f) = Inr (f = NaN)"
| "np_isnan (PInt n) = (if - (2 ^ 63) \<le> n \<and> n < 2 ^ 64 then Inr False else Inl TypeError)"
| "np_isnan (PBool b) = Inr False"
| "np_isnan (PStr s) = Inl TypeError"
| "np_isnan PNone = Inl TypeError"

text \<open>
  \<open>a + b\<close>, as in \<open>self.learningIterations += rawData[0]\<close>: an integer for two integers
  (or booleans), a float as soon as one operand is a float, the concatenation for two
  strings, \<open>TypeError\<close> otherwise. An integer too large for a float raises
  \<open>OverflowError\<close> when it meets a float.
\<close>

definition py_add :: "pyval \<Rightarrow> pyval \<Rightarrow> exn + pyval" where
  "py_add a b =
     (case (as_int a, as_int b) of
        (Some m, Some n) \<Rightarrow> Inr (PInt (m + n))
      | _ \<Rightarrow>
        (case (py_num a, py_num b) of
           (Some _, Some _) \<Rightarrow>
             (case as_float a of Inl e \<Rightarrow> Inl e
              | Inr x \<Rightarrow>
                (case as_float b of Inl e \<Rightarrow> Inl e
                 | Inr y \<Rightarrow> Inr (PFloat (fl_add x y))))
         | _ \<Rightarrow>
           (case (a, b) of
              (PStr s, PStr t) \<Rightarrow> Inr (PStr (s @ t))
            | _ \<Rightarrow> Inl TypeError)))"

text \<open>
  \<open>int(self.learningIterations / 20) + 1\<close>. The true division of an integer gives the
  nearest float and raises \<open>OverflowError\<close> once the quotient rounds to \<open>2 ^ 1024\<close>; a
  non-number is a \<open>TypeError\<close>; \<open>int\<close> raises on NaN and on the infinities.
\<close>

fun div_by_20 :: "pyval \<Rightarrow> exn + pyfloat" where
  "div_by_20 (PInt n) =
     (if \<bar>n\<bar> < 20 * float_max_int then Inr (Fin (of_int n / 20)) else Inl OverflowError)"
| "div_by_20 (PBool b) = Inr (Fin ((if b then 1 else 0) / 20))"
| "div_by_20 (PFloat f) = fl_div f (Fin 20)"
| "div_by_20 (PStr s) = Inl TypeError"
| "div_by_20 PNone = Inl TypeError"

definition int_div_20_plus_1 :: "builtins \<Rightarrow> pyval \<Rightarrow> exn + int" where
  "int_div_20_plus_1 B v =
     (case div_by_20 v of Inl e \<Rightarrow> Inl e
      | Inr q \<Rightarrow> (case py_int B (PFloat q) of Inl e \<Rightarrow> Inl e | Inr k \<Rightarrow> Inr (k + 1)))"

text \<open>
  The loop counter \<open>self.explorIter\<close> while the loop of \<open>fit\<close> runs: an integer, or a
  finite float (after a reboot from a snapshot whose iteration count is a float).
\<close>

datatype counter = IntC int | FloatC rat

fun counter_value :: "counter \<Rightarrow> rat" where
  "counter_value (IntC n) = of_int n"
| "counter_value (FloatC r) = r"

text \<open>The object that the attribute holds.\<close>

fun counter_obj :: "counter \<Rightarrow> pyval" where
  "counter_obj (IntC n) = PInt n"
| "counter_obj (FloatC r) = PFloat (Fin r)"

text \<open>\<open>self.explorIter += 1\<close>.\<close>

fun counter_next :: "counter \<Rightarrow> counter" where
  "counter_next (IntC n) = IntC (n + 1)"
| "counter_next (FloatC r) = FloatC (r + 1)"

fun counter_of :: "pyval \<Rightarrow> counter option" where
  "counter_of (PInt n) = Some (IntC n)"
| "counter_of (PFloat (Fin r)) = Some (FloatC r)"
| "counter_of _ = None"

text \<open>
  \<open>self.explorIter % aveGeneralityFreq == aveGeneralityFreq - 1\<close> for a divisor that is not
  zero: the remainder has the sign of the divisor.
\<close>

definition counter_hit :: "counter \<Rightarrow> int \<Rightarrow> bool" where
  "counter_hit e f \<longleftrightarrow>
     counter_value e - of_int f * of_int \<lfloor>counter_value e / of_int f\<rfloor> = of_int (f - 1)"

text \<open>
  How the loop \<open>while self.explorIter < self.learningIterations\<close> is entered, from the two
  attributes: the comparison raises \<open>TypeError\<close> between a number and a non-number, the
  loop is skipped when the comparison is false, and it is entered with a counter and a
  bound when both are finite numbers. \<open>Beyond\<close> stands for the attribute values that
  \<open>fit\<close> never has at this point (\<open>explorIter\<close> not a number, or a comparison that holds
  with an infinite operand): \<open>fit\<close> has divided \<open>learningIterations\<close> by 20 and converted
  the quotient to an integer before, \<open>explorIter\<close> is 0, and a reboot adds the same count
  to both (lemma \<open>fit_modelled\<close>).
\<close>

datatype entry = Raises exn | Skips | Enters counter rat | Beyond

definition while_entry :: "pyval \<Rightarrow> pyval \<Rightarrow> entry" where
  "while_entry e li =
     (case py_num e of
        None \<Rightarrow> Beyond
      | Some x \<Rightarrow>
        (case py_num li of
           None \<Rightarrow> Raises TypeError
         | Some y \<Rightarrow>
             if fl_lt x y then
               (case (counter_of e, y) of
                  (Some c, Fin b) \<Rightarrow> Enters c b
                | _ \<Rightarrow> Beyond)
             else Skips))"

section \<open>The input checks of \<open>fit\<close> and \<open>predict\<close>\<close>

fun check_row :: "builtins \<Rightarrow> pyval list \<Rightarrow> exn + unit" where
  "check_row B [] = Inr ()"
| "check_row B (value # rest) =
     (case np_isnan value of Inl e \<Rightarrow> Inl e
      | Inr True \<Rightarrow> check_row B rest
      | Inr False \<Rightarrow>
        (case py_float B value of Inl e \<Rightarrow> Inl e | Inr _ \<Rightarrow> check_row B rest))"

fun check_rows :: "builtins \<Rightarrow> pyval list list \<Rightarrow> exn + unit" where
  "check_rows B [] = Inr ()"
| "check_rows B (instance # rest) =
     (case check_row B instance of Inl e \<Rightarrow> Inl e | Inr _ \<Rightarrow> check_rows B rest)"

fun check_values :: "builtins \<Rightarrow> pyval list \<Rightarrow> exn + unit" where
  "check_values B [] = Inr ()"
| "check_values B (value # rest) =
     (case py_float B value of Inl e \<Rightarrow> Inl e | Inr _ \<Rightarrow> check_values B rest)"

text \<open>The \<open>try\<close> block at the head of \<open>fit\<close>.\<close>

definition check_X_y :: "builtins \<Rightarrow> pyval list list \<Rightarrow> pyval list \<Rightarrow> exn + unit" where
  "check_X_y B X y =
     (case check_rows B X of
        Inl _ \<Rightarrow> Inl (Exception ''X and y must be fully numeric'')
      | Inr _ \<Rightarrow>
        (case check_values B y of
           Inl _ \<Rightarrow> Inl (Exception ''X and y must be fully numeric'')
         | Inr _ \<Rightarrow> Inr ()))"

text \<open>The \<open>try\<close> block at the head of \<open>predict\<close> and \<open>predict_proba\<close>.\<close>

definition check_X :: "builtins \<Rightarrow> pyval list list \<Rightarrow> exn + unit" where
  "check_X B X =
     (case check_rows B X of
        Inl _ \<Rightarrow> Inl (Exception ''X must be fully numeric'')
      | Inr _ \<Rightarrow> Inr ())"

section \<open>The collaborators\<close>

text \<open>
  The methods of \<open>ClassifierSet\<close> and of the environment that the estimator calls, with
  their arguments apart from \<open>self\<close>. The iteration number is passed as the object
  \<open>self.explorIter\<close> holds.
\<close>

datatype call =
  MakeMatchSet "pyval list \<times> pyval" pyval
  | MakeCorrectSet pyval
  | UpdateSets pyval
  | DoCorrectSetSubsumption
  | RunGA pyval "pyval list" pyval
  | Deletion pyval
  | ClearSets
  | MakeEvalMatchSet "pyval list"
  | GetTrainInstance
  | NewInstance
  | NewPrediction
  | GetAveGenerality

datatype tcall =
  StartTimeEvaluation | StopTimeEvaluation | UpdateGlobalTime
  | StartTimeSubsumption | StopTimeSubsumption | StartTimeDeletion | StopTimeDeletion

text \<open>
  What a method of the learning machinery can read and change: the population, the
  environment, the tracking counters of the estimator and the two global generators.
\<close>

record ('x, 'e) core =
  c_population :: "'x ClassifierSet"
  c_env :: 'e
  c_trackingObj :: tempTrackingObj
  c_rngs :: rngs

text \<open>
  Modelled from the spec: \<open>OfflineEnvironment\<close>, \<open>ClassifierSet\<close>, \<open>Classifier\<close>,
  \<open>Prediction\<close>, \<open>Timer\<close> and \<open>IterationRecord\<close> are other files of the repository. Their
  methods are taken as given, as total functions. By sections 1 and 5 of the spec the
  learning machinery draws its randomness from the seeded generators and keeps time and
  tracking apart as out-of-scope collaborators: a method of the machinery (\<open>perform\<close>)
  works on the \<open>core\<close>, and what it does to the timer and to the world outside the
  process (the clock, the files) is a separate function (\<open>timing\<close>) that the core never
  reads back.
\<close>

record ('x, 'e, 'tp, 'ir, 'w, 'pr) collab =
  newEnv :: "pyval list list \<Rightarrow> pyval list \<Rightarrow> config \<Rightarrow> rngs \<Rightarrow> 'e \<times> rngs"
  numTrainInstances :: "'e \<Rightarrow> int"
  discretePhenotype :: "'e \<Rightarrow> bool"
  phenotypeList :: "'e \<Rightarrow> pyval list"
  savedRawTrainingData :: "'e \<Rightarrow> pyval list list \<times> pyval list"
  getTrainInstance :: "'e \<Rightarrow> pyval list \<times> pyval"
  perform :: "config \<Rightarrow> call \<Rightarrow> ('x, 'e) core \<Rightarrow> ('x, 'e) core"
  timing :: "config \<Rightarrow> call \<Rightarrow> ('x, 'e) core \<Rightarrow> 'tp Timer \<times> 'w \<Rightarrow> 'tp Timer \<times> 'w"
  getAveGenerality :: "config \<Rightarrow> ('x, 'e) core \<Rightarrow> rat"
  getInitStampAverage :: "'x ClassifierSet \<Rightarrow> rat"
  newPrediction :: "config \<Rightarrow> ('x, 'e) core \<Rightarrow> 'pr \<times> ('x, 'e) core"
  getDecision :: "'pr \<Rightarrow> pyval"
  getProbabilities :: "'pr \<Rightarrow> pyval list"
  hasMatch :: "'pr \<Rightarrow> bool"
  newTimer :: "'w \<Rightarrow> 'tp Timer \<times> 'w"
  timerCall :: "tcall \<Rightarrow> 'tp Timer \<times> 'w \<Rightarrow> 'tp Timer \<times> 'w"
  addToTracking ::
    "pyval \<Rightarrow> pyfloat \<Rightarrow> rat \<Rightarrow> tempTrackingObj \<Rightarrow> rat list \<Rightarrow> 'ir \<Rightarrow> 'ir"
  exportTrackingToCSV :: "string \<Rightarrow> 'ir \<Rightarrow> 'w \<Rightarrow> 'w"
  exportPopDCAL ::
    "config \<Rightarrow> ('x, 'e) core \<Rightarrow> pyval list \<Rightarrow> string \<Rightarrow> string \<Rightarrow> 'ir \<Rightarrow> 'w \<Rightarrow> 'w"
  exportPop ::
    "config \<Rightarrow> ('x, 'e) core \<Rightarrow> pyval list \<Rightarrow> string \<Rightarrow> string \<Rightarrow> 'ir \<Rightarrow> 'w \<Rightarrow> 'w"

text \<open>\<open>ClassifierSet()\<close>.\<close>

definition newClassifierSet :: "'x ClassifierSet" where
  "newClassifierSet = \<lparr> popSet = [], microPopSize = 0, matchSet = [], correctSet = [] \<rparr>"

section \<open>The state of a fitted estimator at work\<close>

text \<open>
  Everything \<open>runIteration\<close> and \<open>predict\<close> touch, once \<open>env\<close>, \<open>timer\<close> and \<open>population\<close>
  exist. \<open>l_calls\<close> is not part of the program: it records, in order, the calls made to
  the learning machinery, so that their order can be stated.
\<close>

record ('x, 'e, 'tp, 'w) live =
  l_core :: "('x, 'e) core"
  l_clock :: "'tp Timer \<times> 'w"
  l_trackingAccuracy :: "pyfloat list"
  l_movingAvgCount :: int
  l_calls :: "call list"

definition do_call ::
  "('x, 'e, 'tp, 'ir, 'w, 'pr) collab \<Rightarrow> config \<Rightarrow> call
   \<Rightarrow> ('x, 'e, 'tp, 'w) live \<Rightarrow> ('x, 'e, 'tp, 'w) live" where
  "do_call C cfg c l =
     l\<lparr> l_core := perform C cfg c (l_core l),
        l_clock := timing C cfg c (l_core l) (l_clock l),
        l_calls := l_calls l @ [c] \<rparr>"

definition do_timer ::
  "('x, 'e, 'tp, 'ir, 'w, 'pr) collab \<Rightarrow> tcall
   \<Rightarrow> ('x, 'e, 'tp, 'w) live \<Rightarrow> ('x, 'e, 'tp, 'w) live" where
  "do_timer C t l = l\<lparr> l_clock := timerCall C t (l_clock l) \<rparr>"

text \<open>\<open>Prediction(self, self.population)\<close>.\<close>

definition do_prediction ::
  "('x, 'e, 'tp, 'ir, 'w, 'pr) collab \<Rightarrow> config
   \<Rightarrow> ('x, 'e, 'tp, 'w) live \<Rightarrow> 'pr \<times> ('x, 'e, 'tp, 'w) live" where
  "do_prediction C cfg l =
     (case newPrediction C cfg (l_core l) of
        (pr, c') \<Rightarrow>
          (pr, l\<lparr> l_core := c',
                  l_clock := timing C cfg NewPrediction (l_core l) (l_clock l),
                  l_calls := l_calls l @ [NewPrediction] \<rparr>))"

section \<open>\<open>runIteration\<close>\<close>

text \<open>
  The moving window: \<open>del self.trackingAccuracy[0]\<close> once the list has \<open>movingAvgCount\<close>
  entries (\<open>mov\<close>), then \<open>append\<close>.
\<close>

definition window_push :: "pyfloat \<Rightarrow> int \<Rightarrow> pyfloat list \<Rightarrow> exn + pyfloat list" where
  "window_push v mov acc =
     (if int (length acc) = mov then
        (case acc of
           [] \<Rightarrow> Inl IndexError
         | _ # rest \<Rightarrow> Inr (rest @ [v]))
      else Inr (acc @ [v]))"

definition push_accuracy ::
  "pyfloat \<Rightarrow> ('x, 'e, 'tp, 'w) live \<Rightarrow> exn + ('x, 'e, 'tp, 'w) live" where
  "push_accuracy v l =
     (case window_push v (l_movingAvgCount l) (l_trackingAccuracy l) of
        Inl e \<Rightarrow> Inl e
      | Inr acc \<Rightarrow> Inr (l\<lparr> l_trackingAccuracy := acc \<rparr>))"

definition index :: "'a list \<Rightarrow> nat \<Rightarrow> exn + 'a" where
  "index xs i = (if i < length xs then Inr (xs ! i) else Inl IndexError)"

text \<open>
  The accuracy estimate of the continuous branch:
  \<open>1.0 - (fabs(prediction - float(y)) / float(phenotypeList[1] - phenotypeList[0]))\<close>.
\<close>

definition accuracyEstimate ::
  "builtins \<Rightarrow> pyval \<Rightarrow> pyval \<Rightarrow> pyval list \<Rightarrow> exn + pyfloat" where
  "accuracyEstimate B phenotypePrediction y phenList =
     (case py_float B y of Inl e \<Rightarrow> Inl e
      | Inr fy \<Rightarrow>
        (case as_float phenotypePrediction of Inl e \<Rightarrow> Inl e
         | Inr fp \<Rightarrow>
           (let predictionError = fl_abs (fl_sub fp fy) in
            case index phenList 1 of Inl e \<Rightarrow> Inl e
            | Inr hi \<Rightarrow>
              (case index phenList 0 of Inl e \<Rightarrow> Inl e
               | Inr lo \<Rightarrow>
                 (case py_sub hi lo of Inl e \<Rightarrow> Inl e
                  | Inr phenotypeRange \<Rightarrow>
                    (case py_float B phenotypeRange of Inl e \<Rightarrow> Inl e
                     | Inr fr \<Rightarrow>
                       (case fl_div predictionError fr of Inl e \<Rightarrow> Inl e
                        | Inr q \<Rightarrow> Inr (fl_sub (Fin 1) q))))))))"

text \<open>
  The value that the accuracy block appends: 1 or 0 for a discrete phenotype, the
  accuracy estimate for a continuous one.
\<close>

definition accuracy_sample ::
  "('x, 'e, 'tp, 'ir, 'w, 'pr) collab \<Rightarrow> builtins \<Rightarrow> pyval \<Rightarrow> 'pr \<Rightarrow> ('x, 'e) core
   \<Rightarrow> exn + pyfloat" where
  "accuracy_sample C B y prediction c =
     (let phenotypePrediction = getDecision C prediction in
      if discretePhenotype C (c_env c)
      then Inr (Fin (if py_eq phenotypePrediction y then 1 else 0))
      else accuracyEstimate B phenotypePrediction y (phenotypeList C (c_env c)))"

text \<open>
  The block under \<open>if self.trackAccuracyWhileFit\<close>. An exception leaves the state as it
  is at the raise.
\<close>

definition track_accuracy ::
  "('x, 'e, 'tp, 'ir, 'w, 'pr) collab \<Rightarrow> builtins \<Rightarrow> config \<Rightarrow> pyval
   \<Rightarrow> ('x, 'e, 'tp, 'w) live \<Rightarrow> exn option \<times> ('x, 'e, 'tp, 'w) live" where
  "track_accuracy C B cfg y l =
     (let l1 = do_timer C StartTimeEvaluation l in
      case do_prediction C cfg l1 of
        (prediction, l2) \<Rightarrow>
          (case accuracy_sample C B y prediction (l_core l2) of
             Inl e \<Rightarrow> (Some e, l2)
           | Inr v \<Rightarrow>
               (case push_accuracy v l2 of
                  Inl e \<Rightarrow> (Some e, l2)
                | Inr l3 \<Rightarrow> (None, do_timer C StopTimeEvaluation l3))))"

text \<open>The statements of \<open>runIteration\<close> after the accuracy block.\<close>

definition subsumption_step ::
  "('x, 'e, 'tp, 'ir, 'w, 'pr) collab \<Rightarrow> config
   \<Rightarrow> ('x, 'e, 'tp, 'w) live \<Rightarrow> ('x, 'e, 'tp, 'w) live" where
  "subsumption_step C cfg l =
     (if py_truth (doCorrectSetSubsumption cfg)
      then do_timer C StopTimeSubsumption
             (do_call C cfg DoCorrectSetSubsumption (do_timer C StartTimeSubsumption l))
      else l)"

text \<open>The five assignments to \<open>self.trackingObj\<close> before \<open>clearSets\<close>.\<close>

definition with_sizes ::
  "('x, 'e, 'tp, 'ir, 'w, 'pr) collab \<Rightarrow> ('x, 'e) core \<Rightarrow> ('x, 'e) core" where
  "with_sizes C c =
     (let p = c_population c in
      c\<lparr> c_trackingObj := (c_trackingObj c)
           \<lparr> macroPopSize := int (length (popSet p)),
             microPopSizeT := microPopSize p,
             matchSetSize := int (length (matchSet p)),
             correctSetSize := int (length (correctSet p)),
             avgIterAge := getInitStampAverage C p \<rparr> \<rparr>)"

definition record_sizes ::
  "('x, 'e, 'tp, 'ir, 'w, 'pr) collab \<Rightarrow> ('x, 'e, 'tp, 'w) live \<Rightarrow> ('x, 'e, 'tp, 'w) live" where
  "record_sizes C l = l\<lparr> l_core := with_sizes C (l_core l) \<rparr>"

definition runIteration ::
  "('x, 'e, 'tp, 'ir, 'w, 'pr) collab \<Rightarrow> builtins \<Rightarrow> config \<Rightarrow> pyval list \<times> pyval \<Rightarrow> pyval
   \<Rightarrow> ('x, 'e, 'tp, 'w) live \<Rightarrow> exn option \<times> ('x, 'e, 'tp, 'w) live" where
  "runIteration C B cfg state_phenotype exploreIter l =
     (let l1 = l\<lparr> l_core := (l_core l)\<lparr> c_trackingObj := resetAll \<rparr> \<rparr>;
          l2 = do_call C cfg (MakeMatchSet state_phenotype exploreIter) l1
      in case (if py_truth (trackAccuracyWhileFit cfg)
               then track_accuracy C B cfg (snd state_phenotype) l2
               else (None, l2)) of
           (Some e, l3) \<Rightarrow> (Some e, l3)
         | (None, l3) \<Rightarrow>
             (let l4 = do_call C cfg (MakeCorrectSet (snd state_phenotype)) l3;
                  l5 = do_call C cfg (UpdateSets exploreIter) l4;
                  l6 = subsumption_step C cfg l5;
                  l7 = do_call C cfg
                         (RunGA exploreIter (fst state_phenotype) (snd state_phenotype)) l6;
                  l8 = do_timer C StopTimeDeletion
                         (do_call C cfg (Deletion exploreIter) (do_timer C StartTimeDeletion l7));
                  l9 = record_sizes C l8
              in (None, do_call C cfg ClearSets l9)))"

section \<open>The estimator in its world\<close>

text \<open>
  What lies outside the estimator object: the two global generators, the world outside
  the process, and the pickled snapshots by file name. \<open>g_calls\<close> is the record of calls
  (see \<open>l_calls\<close>).
\<close>

record ('x, 'w) world =
  g_rngs :: rngs
  g_outside :: 'w
  g_pickles :: "string \<Rightarrow> 'x finalMetrics option"
  g_calls :: "call list"

text \<open>Reading \<open>self.population\<close> and the other attributes that \<open>fit\<close> creates.\<close>

definition load ::
  "('x, 'e, 'tp, 'ir) elcs \<Rightarrow> ('x, 'w) world \<Rightarrow> ('x, 'e, 'tp, 'w) live option" where
  "load m g =
     (case (env m, trackingAccuracy m, movingAvgCount m, timer m, population m) of
        (Some e, Some acc, Some n, Some t, Some p) \<Rightarrow>
          Some \<lparr> l_core = \<lparr> c_population = p, c_env = e, c_trackingObj = trackingObj m,
                            c_rngs = g_rngs g \<rparr>,
                 l_clock = (t, g_outside g), l_trackingAccuracy = acc,
                 l_movingAvgCount = n, l_calls = g_calls g \<rparr>
      | _ \<Rightarrow> None)"

definition store ::
  "('x, 'e, 'tp, 'w) live \<Rightarrow> ('x, 'e, 'tp, 'ir) elcs \<times> ('x, 'w) world
   \<Rightarrow> ('x, 'e, 'tp, 'ir) elcs \<times> ('x, 'w) world" where
  "store l s =
     (case s of (m, g) \<Rightarrow>
        (m\<lparr> population := Some (c_population (l_core l)), env := Some (c_env (l_core l)),
            trackingObj := c_trackingObj (l_core l), timer := Some (fst (l_clock l)),
            trackingAccuracy := Some (l_trackingAccuracy l),
            movingAvgCount := Some (l_movingAvgCount l) \<rparr>,
         g\<lparr> g_rngs := c_rngs (l_core l), g_outside := snd (l_clock l),
            g_calls := l_calls l \<rparr>))"

section \<open>Snapshot and reboot\<close>

definition saveFinalMetrics ::
  "('x, 'e, 'tp, 'ir) elcs \<Rightarrow> exn option \<times> ('x, 'e, 'tp, 'ir) elcs" where
  "saveFinalMetrics m =
     (case (timer m, population m) of
        (Some t, Some p) \<Rightarrow>
          (None, m\<lparr> finalMetrics := Some
             \<lparr> fm_learningIterations = learningIterations (params m),
               fm_globalTime = globalTime t, fm_globalMatching = globalMatching t,
               fm_globalDeletion = globalDeletion t,
               fm_globalSubsumption = globalSubsumption t,
               fm_globalSelection = globalSelection t,
               fm_globalEvaluation = globalEvaluation t,
               fm_popSet = popSet p \<rparr> \<rparr>)
      | _ \<Rightarrow> (Some AttributeError, m))"

text \<open>
  \<open>rebootPopulation\<close>. The file either is not there or holds a snapshot. The loop over
  \<open>popSet\<close> adds up the numerosities. The two \<open>+=\<close> at the end are Python's addition on
  whatever the attributes and the snapshot hold; an exception leaves the assignments made
  before it.
\<close>

definition rebootPopulation ::
  "('x, 'e, 'tp, 'ir, 'w, 'pr) collab \<Rightarrow> ('x, 'e, 'tp, 'ir) elcs \<times> ('x, 'w) world
   \<Rightarrow> exn option \<times> ('x, 'e, 'tp, 'ir) elcs \<times> ('x, 'w) world" where
  "rebootPopulation C s =
     (case s of (m, g) \<Rightarrow>
        (case rebootFilename (params m) of
           PStr name \<Rightarrow>
             (case g_pickles g name of
                None \<Rightarrow> (Some FileNotFoundError, m, g)
              | Some rawData \<Rightarrow>
                  (let popSet' = fm_popSet rawData;
                       microPopSize' = foldl (\<lambda>n rule. n + numerosity rule) 0 popSet';
                       set = newClassifierSet\<lparr> popSet := popSet', microPopSize := microPopSize' \<rparr>;
                       tw = newTimer C (g_outside g);
                       t = (fst tw)
                             \<lparr> globalAdd := Some (fm_globalTime rawData),
                               globalMatching := fm_globalMatching rawData,
                               globalDeletion := fm_globalDeletion rawData,
                               globalSubsumption := fm_globalSubsumption rawData,
                               globalGA := Some (fm_globalSelection rawData),
                               globalEvaluation := fm_globalEvaluation rawData \<rparr>;
                       m1 = m\<lparr> population := Some set, timer := Some t \<rparr>;
                       g1 = g\<lparr> g_outside := snd tw \<rparr>
                   in case py_add (learningIterations (params m1))
                             (fm_learningIterations rawData) of
                        Inl ex \<Rightarrow> (Some ex, m1, g1)
                      | Inr li \<Rightarrow>
                          (let m2 = m1\<lparr> params := (params m1)\<lparr> learningIterations := li \<rparr> \<rparr>
                           in case explorIter m2 of
                                None \<Rightarrow> (Some AttributeError, m2, g1)
                              | Some e \<Rightarrow>
                                  (case py_add e (fm_learningIterations rawData) of
                                     Inl ex \<Rightarrow> (Some ex, m2, g1)
                                   | Inr e' \<Rightarrow> (None, m2\<lparr> explorIter := Some e' \<rparr>, g1)))))
         | _ \<Rightarrow> (Some TypeError, m, g)))"

section \<open>\<open>fit\<close>\<close>

text \<open>The local state of the training loop besides the estimator's own.\<close>

record ('x, 'e, 'tp, 'ir, 'w) run =
  r_live :: "('x, 'e, 'tp, 'w) live"
  r_record :: 'ir
  r_aveGenerality :: rat

text \<open>\<open>sum(self.trackingAccuracy) / len(self.trackingAccuracy)\<close>, or 0 for the empty list.\<close>

definition mean_accuracy :: "pyfloat list \<Rightarrow> exn + pyfloat" where
  "mean_accuracy acc =
     (if length acc \<noteq> 0
      then fl_div (foldl fl_add (Fin 0) acc) (Fin (of_nat (length acc)))
      else Inr (Fin 0))"

definition timer_globals :: "'tp Timer \<Rightarrow> rat list" where
  "timer_globals t =
     [globalTime t, globalMatching t, globalDeletion t, globalSubsumption t,
      globalSelection t, globalEvaluation t]"

text \<open>
  One pass through the body of the \<open>while\<close> loop, for the counter \<open>self.explorIter = e\<close>.
  The increment of \<open>explorIter\<close> is done by the loop below.
\<close>

definition fit_iteration ::
  "('x, 'e, 'tp, 'ir, 'w, 'pr) collab \<Rightarrow> builtins \<Rightarrow> config \<Rightarrow> int \<Rightarrow> counter
   \<Rightarrow> ('x, 'e, 'tp, 'ir, 'w) run \<Rightarrow> exn option \<times> ('x, 'e, 'tp, 'ir, 'w) run" where
  "fit_iteration C B cfg aveGeneralityFreq e r =
     (let l0 = (r_live r)\<lparr> l_calls := l_calls (r_live r) @ [GetTrainInstance] \<rparr>;
          state_phenotype = getTrainInstance C (c_env (l_core l0))
      in case runIteration C B cfg state_phenotype (counter_obj e) l0 of
           (Some ex, l1) \<Rightarrow> (Some ex, r\<lparr> r_live := l1 \<rparr>)
         | (None, l1) \<Rightarrow>
             (let l2 = do_timer C StartTimeEvaluation l1 in
              if aveGeneralityFreq = 0 then (Some ZeroDivisionError, r\<lparr> r_live := l2 \<rparr>)
              else
                (let hit = counter_hit e aveGeneralityFreq;
                     aveGenerality =
                       (if hit then getAveGenerality C cfg (l_core l2) else r_aveGenerality r);
                     l3 = (if hit then l2\<lparr> l_calls := l_calls l2 @ [GetAveGenerality] \<rparr> else l2);
                     r3 = r\<lparr> r_live := l3, r_aveGenerality := aveGenerality \<rparr>
                 in case mean_accuracy (l_trackingAccuracy l3) of
                      Inl ex \<Rightarrow> (Some ex, r3)
                    | Inr accuracy \<Rightarrow>
                        (let l4 = do_timer C UpdateGlobalTime l3;
                             rec = addToTracking C (counter_obj e) accuracy aveGenerality
                                     (c_trackingObj (l_core l4))
                                     (timer_globals (fst (l_clock l4))) (r_record r);
                             l5 = do_timer C StopTimeEvaluation l4;
                             l6 = do_call C cfg NewInstance l5
                         in (None, r3\<lparr> r_live := l6, r_record := rec \<rparr>)))))"

text \<open>
  \<open>while self.explorIter < self.learningIterations\<close>, for a counter \<open>e\<close> and a finite bound
  \<open>li\<close>; the result carries the final counter.
\<close>

function fit_loop ::
  "('x, 'e, 'tp, 'ir, 'w, 'pr) collab \<Rightarrow> builtins \<Rightarrow> config \<Rightarrow> int \<Rightarrow> rat \<Rightarrow> counter
   \<Rightarrow> ('x, 'e, 'tp, 'ir, 'w) run \<Rightarrow> exn option \<times> counter \<times> ('x, 'e, 'tp, 'ir, 'w) run" where
  "fit_loop C B cfg aveGeneralityFreq li e r =
     (if counter_value e < li then
        (case fit_iteration C B cfg aveGeneralityFreq e r of
           (Some ex, r') \<Rightarrow> (Some ex, e, r')
         | (None, r') \<Rightarrow> fit_loop C B cfg aveGeneralityFreq li (counter_next e) r')
      else (None, e, r))"
  by pat_completeness auto
termination
proof (relation "measure (\<lambda>(C, B, cfg, f, li, e, r). nat \<lceil>li - counter_value e\<rceil>)",
    goal_cases)
  case 1
  show ?case by simp
next
  have key: "\<lceil>li - counter_value (counter_next e)\<rceil> < \<lceil>li - counter_value e\<rceil>"
    for e :: counter and li :: rat
  proof -
    have v: "counter_value (counter_next e) = counter_value e + 1"
      by (cases e) simp_all
    have "li - (counter_value e + 1) = (li - counter_value e) - 1"
      by simp
    then have "\<lceil>li - (counter_value e + 1)\<rceil> = \<lceil>li - counter_value e\<rceil> - 1"
      by (simp only: ceiling_diff_one)
    then show ?thesis
      by (simp add: v)
  qed
  case 2
  then show ?case
    by (simp add: key)
qed

declare fit_loop.simps [simp del]

text \<open>
  \<open>fit\<close>, in the order of its statements. First the assignments up to
  \<open>aveGeneralityFreq\<close>: the state after them, and the local \<open>aveGeneralityFreq\<close> or the
  exception of its computation.
\<close>

definition fit_setup ::
  "('x, 'e, 'tp, 'ir, 'w, 'pr) collab \<Rightarrow> builtins \<Rightarrow> pyval list list \<Rightarrow> pyval list
   \<Rightarrow> ('x, 'e, 'tp, 'ir) elcs \<times> ('x, 'w) world
   \<Rightarrow> (exn + int) \<times> ('x, 'e, 'tp, 'ir) elcs \<times> ('x, 'w) world" where
  "fit_setup C B X y s =
     (case s of (m, g) \<Rightarrow>
        (let er = newEnv C X y (params m) (g_rngs g);
             m1 = m\<lparr> env := Some (fst er), explorIter := Some (PInt 0),
                     trackingAccuracy := Some [], movingAvgCount := Some 50 \<rparr>;
             g1 = g\<lparr> g_rngs := snd er \<rparr>
         in case int_div_20_plus_1 B (learningIterations (params m1)) of
              Inl ex \<Rightarrow> (Inl ex, m1, g1)
            | Inr k \<Rightarrow> (Inr (min (numTrainInstances C (fst er)) k), m1, g1)))"

text \<open>\<open>if self.rebootFilename == None: ... else: self.rebootPopulation()\<close>.\<close>

definition fit_population ::
  "('x, 'e, 'tp, 'ir, 'w, 'pr) collab \<Rightarrow> ('x, 'e, 'tp, 'ir) elcs \<times> ('x, 'w) world
   \<Rightarrow> exn option \<times> ('x, 'e, 'tp, 'ir) elcs \<times> ('x, 'w) world" where
  "fit_population C s =
     (case s of (m1, g1) \<Rightarrow>
        if rebootFilename (params m1) = PNone
        then (let tw = newTimer C (g_outside g1)
              in (None,
                  m1\<lparr> timer := Some (fst tw), population := Some newClassifierSet \<rparr>,
                  g1\<lparr> g_outside := snd tw \<rparr>))
        else rebootPopulation C (m1, g1))"

text \<open>After the loop: \<open>self.saveFinalMetrics()\<close>, \<open>self.hasTrained = True\<close>, \<open>return self\<close>.\<close>

definition fit_finish ::
  "('x, 'e, 'tp, 'ir) elcs \<times> ('x, 'w) world
   \<Rightarrow> (exn + unit) \<times> ('x, 'e, 'tp, 'ir) elcs \<times> ('x, 'w) world" where
  "fit_finish s =
     (case s of (m4, g3) \<Rightarrow>
        (case saveFinalMetrics m4 of
           (Some ex, m5) \<Rightarrow> (Inl ex, m5, g3)
         | (None, m5) \<Rightarrow> (Inr (), m5\<lparr> hasTrained := True \<rparr>, g3)))"

text \<open>
  The loop, on the attributes as they are after the set-up, and what follows it. The
  loop works on the attributes that \<open>fit\<close> has created; they are written back when it
  ends, normally or by an exception.
\<close>

definition fit_train ::
  "('x, 'e, 'tp, 'ir, 'w, 'pr) collab \<Rightarrow> builtins \<Rightarrow> int
   \<Rightarrow> ('x, 'e, 'tp, 'ir) elcs \<times> ('x, 'w) world
   \<Rightarrow> (exn + unit) \<times> ('x, 'e, 'tp, 'ir) elcs \<times> ('x, 'w) world" where
  "fit_train C B aveGeneralityFreq s =
     (case s of (m2, g2) \<Rightarrow>
        (case explorIter m2 of
           None \<Rightarrow> (Inl AttributeError, m2, g2)
         | Some e0 \<Rightarrow>
             (case while_entry e0 (learningIterations (params m2)) of
                Raises ex \<Rightarrow> (Inl ex, m2, g2)
              | Beyond \<Rightarrow> (Inl NotModelled, m2, g2)
              | Skips \<Rightarrow> fit_finish (m2, g2)
              | Enters c li \<Rightarrow>
                  (case load m2 g2 of
                     None \<Rightarrow> (Inl AttributeError, m2, g2)
                   | Some l \<Rightarrow>
                       (case fit_loop C B (params m2) aveGeneralityFreq li c
                               \<lparr> r_live = l, r_record = record_obj m2, r_aveGenerality = 0 \<rparr> of
                          (err, e, r) \<Rightarrow>
                            (case store (r_live r) (m2, g2) of
                               (m3, g3) \<Rightarrow>
                                 (let m4 = m3\<lparr> explorIter := Some (counter_obj e),
                                              record_obj := r_record r \<rparr>
                                  in case err of
                                       Some ex \<Rightarrow> (Inl ex, m4, g3)
                                     | None \<Rightarrow> fit_finish (m4, g3))))))))"

text \<open>\<open>fit\<close>. The result is the exception or a normal return (of \<open>self\<close>), and the state.\<close>

definition fit ::
  "('x, 'e, 'tp, 'ir, 'w, 'pr) collab \<Rightarrow> builtins \<Rightarrow> pyval list list \<Rightarrow> pyval list
   \<Rightarrow> ('x, 'e, 'tp, 'ir) elcs \<times> ('x, 'w) world
   \<Rightarrow> (exn + unit) \<times> ('x, 'e, 'tp, 'ir) elcs \<times> ('x, 'w) world" where
  "fit C B X y s =
     (case s of (m, g) \<Rightarrow>
        if hasTrained m then (Inl (Exception ''Cannot train already trained model again''), m, g)
        else
          (case check_X_y B X y of
             Inl ex \<Rightarrow> (Inl ex, m, g)
           | Inr _ \<Rightarrow>
               (case fit_setup C B X y (m, g) of
                  (Inl ex, m1, g1) \<Rightarrow> (Inl ex, m1, g1)
                | (Inr aveGeneralityFreq, m1, g1) \<Rightarrow>
                    (case fit_population C (m1, g1) of
                       (Some ex, m2, g2) \<Rightarrow> (Inl ex, m2, g2)
                     | (None, m2, g2) \<Rightarrow> fit_train C B aveGeneralityFreq (m2, g2)))))"

section \<open>\<open>predict\<close> and \<open>predict_proba\<close>\<close>

text \<open>The loop \<open>for inst in range(instances)\<close> of \<open>predict\<close>, over the rows from \<open>inst\<close> on.\<close>

fun predict_rows ::
  "('x, 'e, 'tp, 'ir, 'w, 'pr) collab \<Rightarrow> config \<Rightarrow> pyval list list
   \<Rightarrow> ('x, 'e, 'tp, 'w) live \<Rightarrow> pyval list \<times> ('x, 'e, 'tp, 'w) live" where
  "predict_rows C cfg [] l = ([], l)"
| "predict_rows C cfg (state # rest) l =
     (let l1 = do_call C cfg (MakeEvalMatchSet state) l in
      case do_prediction C cfg l1 of
        (prediction, l2) \<Rightarrow>
          (let phenotypeSelection = getDecision C prediction;
               l3 = do_call C cfg ClearSets l2
           in case predict_rows C cfg rest l3 of
                (predList, l4) \<Rightarrow> (phenotypeSelection # predList, l4)))"

fun predict_proba_rows ::
  "('x, 'e, 'tp, 'ir, 'w, 'pr) collab \<Rightarrow> config \<Rightarrow> pyval list list
   \<Rightarrow> ('x, 'e, 'tp, 'w) live \<Rightarrow> pyval list list \<times> ('x, 'e, 'tp, 'w) live" where
  "predict_proba_rows C cfg [] l = ([], l)"
| "predict_proba_rows C cfg (state # rest) l =
     (let l1 = do_call C cfg (MakeEvalMatchSet state) l in
      case do_prediction C cfg l1 of
        (prediction, l2) \<Rightarrow>
          (let probs = getProbabilities C prediction;
               l3 = do_call C cfg ClearSets l2
           in case predict_proba_rows C cfg rest l3 of
                (predList, l4) \<Rightarrow> (probs # predList, l4)))"

text \<open>
  \<open>predict\<close>: the check of \<open>X\<close>, then the loop. With no row the attributes of the estimator
  are not read; otherwise a missing one is an \<open>AttributeError\<close>.
\<close>

definition predict ::
  "('x, 'e, 'tp, 'ir, 'w, 'pr) collab \<Rightarrow> builtins \<Rightarrow> pyval list list
   \<Rightarrow> ('x, 'e, 'tp, 'ir) elcs \<times> ('x, 'w) world
   \<Rightarrow> (exn + pyval list) \<times> ('x, 'e, 'tp, 'ir) elcs \<times> ('x, 'w) world" where
  "predict C B X s =
     (case s of (m, g) \<Rightarrow>
        (case check_X B X of
           Inl ex \<Rightarrow> (Inl ex, m, g)
         | Inr _ \<Rightarrow>
             if X = [] then (Inr [], m, g)
             else
               (case load m g of
                  None \<Rightarrow> (Inl AttributeError, m, g)
                | Some l \<Rightarrow>
                    (case predict_rows C (params m) X l of
                       (predList, l') \<Rightarrow> (Inr predList, store l' (m, g))))))"

definition predict_proba ::
  "('x, 'e, 'tp, 'ir, 'w, 'pr) collab \<Rightarrow> builtins \<Rightarrow> pyval list list
   \<Rightarrow> ('x, 'e, 'tp, 'ir) elcs \<times> ('x, 'w) world
   \<Rightarrow> (exn + pyval list list) \<times> ('x, 'e, 'tp, 'ir) elcs \<times> ('x, 'w) world" where
  "predict_proba C B X s =
     (case s of (m, g) \<Rightarrow>
        (case check_X B X of
           Inl ex \<Rightarrow> (Inl ex, m, g)
         | Inr _ \<Rightarrow>
             if X = [] then (Inr [], m, g)
             else
               (case load m g of
                  None \<Rightarrow> (Inl AttributeError, m, g)
                | Some l \<Rightarrow>
                    (case predict_proba_rows C (params m) X l of
                       (predList, l') \<Rightarrow> (Inr predList, store l' (m, g))))))"

section \<open>\<open>score\<close>\<close>

text \<open>
  \<open>sklearn.metrics.balanced_accuracy_score(y_true, y_pred)\<close>, as the library computes it:
  the confusion matrix over the sorted labels of both vectors, per row the diagonal
  entry over the row sum, the rows with sum zero dropped, and the mean of what is left.
  Labels are integers here.
\<close>

definition confusion :: "int list \<Rightarrow> int list \<Rightarrow> int \<Rightarrow> int \<Rightarrow> nat" where
  "confusion y_true y_pred a b = length (filter (\<lambda>(t, p). t = a \<and> p = b) (zip y_true y_pred))"

definition row_sum :: "int list \<Rightarrow> int list \<Rightarrow> int list \<Rightarrow> int \<Rightarrow> nat" where
  "row_sum y_true y_pred labels a = sum_list (map (confusion y_true y_pred a) labels)"

definition balanced_accuracy_score :: "int list \<Rightarrow> int list \<Rightarrow> exn + rat" where
  "balanced_accuracy_score y_true y_pred =
     (if length y_true \<noteq> length y_pred \<or> y_true = [] then Inl ValueError
      else
        (let labels = sorted_list_of_set (set y_true \<union> set y_pred);
             kept = filter (\<lambda>a. row_sum y_true y_pred labels a \<noteq> 0) labels;
             per_class = map (\<lambda>a. of_nat (confusion y_true y_pred a a)
                                   / of_nat (row_sum y_true y_pred labels a)) kept
         in Inr (sum_list per_class / of_nat (length per_class))))"

text \<open>
  The label a value stands for: the library takes integers, booleans and floats without
  fractional part as class labels and refuses other targets.
\<close>

fun label :: "pyval \<Rightarrow> exn + int" where
  "label (PInt n) = Inr n"
| "label (PBool b) = Inr (if b then 1 else 0)"
| "label (PFloat (Fin r)) = (if r = of_int (trunc r) then Inr (trunc r) else Inl ValueError)"
| "label _ = Inl ValueError"

fun labels :: "pyval list \<Rightarrow> exn + int list" where
  "labels [] = Inr []"
| "labels (v # vs) =
     (case label v of Inl e \<Rightarrow> Inl e
      | Inr a \<Rightarrow> (case labels vs of Inl e \<Rightarrow> Inl e | Inr as \<Rightarrow> Inr (a # as)))"

definition py_balanced_accuracy_score :: "pyval list \<Rightarrow> pyval list \<Rightarrow> exn + rat" where
  "py_balanced_accuracy_score y_true y_pred =
     (case labels y_true of Inl e \<Rightarrow> Inl e
      | Inr ts \<Rightarrow>
        (case labels y_pred of Inl e \<Rightarrow> Inl e
         | Inr ps \<Rightarrow> balanced_accuracy_score ts ps))"

definition score ::
  "('x, 'e, 'tp, 'ir, 'w, 'pr) collab \<Rightarrow> builtins \<Rightarrow> pyval list list \<Rightarrow> pyval list
   \<Rightarrow> ('x, 'e, 'tp, 'ir) elcs \<times> ('x, 'w) world
   \<Rightarrow> (exn + rat) \<times> ('x, 'e, 'tp, 'ir) elcs \<times> ('x, 'w) world" where
  "score C B X y s =
     (case predict C B X s of
        (Inl ex, s') \<Rightarrow> (Inl ex, s')
      | (Inr predList, s') \<Rightarrow> (py_balanced_accuracy_score y predList, s'))"

text \<open>
  The two measures in the words of the claim: the recall of a class is the share of its
  samples that are predicted as that class; balanced accuracy is the mean of the recalls
  over the classes of \<open>y\<close>; plain accuracy is the share of correct predictions.
\<close>

definition recall :: "int list \<Rightarrow> int list \<Rightarrow> int \<Rightarrow> rat" where
  "recall y_true y_pred a =
     of_nat (length (filter (\<lambda>(t, p). t = a \<and> p = a) (zip y_true y_pred)))
     / of_nat (length (filter (\<lambda>t. t = a) y_true))"

definition macro_recall :: "int list \<Rightarrow> int list \<Rightarrow> rat" where
  "macro_recall y_true y_pred =
     (\<Sum>a \<in> set y_true. recall y_true y_pred a) / of_nat (card (set y_true))"

definition plain_accuracy :: "int list \<Rightarrow> int list \<Rightarrow> rat" where
  "plain_accuracy y_true y_pred =
     of_nat (length (filter (\<lambda>(t, p). t = p) (zip y_true y_pred))) / of_nat (length y_true)"

section \<open>The export and evaluation routines\<close>

definition exportIterationTrackingData ::
  "('x, 'e, 'tp, 'ir, 'w, 'pr) collab \<Rightarrow> string
   \<Rightarrow> ('x, 'e, 'tp, 'ir) elcs \<times> ('x, 'w) world
   \<Rightarrow> (exn + unit) \<times> ('x, 'e, 'tp, 'ir) elcs \<times> ('x, 'w) world" where
  "exportIterationTrackingData C filename s =
     (case s of (m, g) \<Rightarrow>
        if hasTrained m
        then (Inr (), m, g\<lparr> g_outside := exportTrackingToCSV C filename (record_obj m) (g_outside g) \<rparr>)
        else (Inl (Exception
          ''There is no tracking data to export, as the eLCS model has not been trained''), m, g))"

definition exportFinalRulePopulation ::
  "('x, 'e, 'tp, 'ir, 'w, 'pr) collab \<Rightarrow> pyval list \<Rightarrow> string \<Rightarrow> string \<Rightarrow> bool
   \<Rightarrow> ('x, 'e, 'tp, 'ir) elcs \<times> ('x, 'w) world
   \<Rightarrow> (exn + unit) \<times> ('x, 'e, 'tp, 'ir) elcs \<times> ('x, 'w) world" where
  "exportFinalRulePopulation C headerNames className filename DCAL s =
     (case s of (m, g) \<Rightarrow>
        if hasTrained m then
          (case load m g of
             None \<Rightarrow> (Inl AttributeError, m, g)
           | Some l \<Rightarrow>
               (Inr (), m,
                g\<lparr> g_outside :=
                     (if DCAL then exportPopDCAL C else exportPop C)
                       (params m) (l_core l) headerNames className filename
                       (record_obj m) (g_outside g) \<rparr>))
        else (Inl (Exception
          ''There is no rule population to export, as the eLCS model has not been trained''), m, g))"

definition getFinalAccuracy ::
  "('x, 'e, 'tp, 'ir, 'w, 'pr) collab \<Rightarrow> builtins
   \<Rightarrow> ('x, 'e, 'tp, 'ir) elcs \<times> ('x, 'w) world
   \<Rightarrow> (exn + rat) \<times> ('x, 'e, 'tp, 'ir) elcs \<times> ('x, 'w) world" where
  "getFinalAccuracy C B s =
     (case s of (m, g) \<Rightarrow>
        if hasTrained m then
          (case env m of
             None \<Rightarrow> (Inl AttributeError, m, g)
           | Some e \<Rightarrow>
               (let originalTrainingData = savedRawTrainingData C e
                in score C B (fst originalTrainingData) (snd originalTrainingData) (m, g)))
        else (Inl (Exception
          ''There is no final training accuracy to return, as the XCS model has not been trained''), m, g))"

text \<open>The loop of \<open>getFinalInstanceCoverage\<close>: the number of rows with a match.\<close>

fun coverage_rows ::
  "('x, 'e, 'tp, 'ir, 'w, 'pr) collab \<Rightarrow> config \<Rightarrow> pyval list list
   \<Rightarrow> ('x, 'e, 'tp, 'w) live \<Rightarrow> nat \<times> ('x, 'e, 'tp, 'w) live" where
  "coverage_rows C cfg [] l = (0, l)"
| "coverage_rows C cfg (state # rest) l =
     (let l1 = do_call C cfg (MakeEvalMatchSet state) l in
      case do_prediction C cfg l1 of
        (predictionArray, l2) \<Rightarrow>
          (let l3 = do_call C cfg ClearSets l2 in
           case coverage_rows C cfg rest l3 of
             (numCovered, l4) \<Rightarrow>
               ((if hasMatch C predictionArray then 1 else 0) + numCovered, l4)))"

definition getFinalInstanceCoverage ::
  "('x, 'e, 'tp, 'ir, 'w, 'pr) collab
   \<Rightarrow> ('x, 'e, 'tp, 'ir) elcs \<times> ('x, 'w) world
   \<Rightarrow> (exn + rat) \<times> ('x, 'e, 'tp, 'ir) elcs \<times> ('x, 'w) world" where
  "getFinalInstanceCoverage C s =
     (case s of (m, g) \<Rightarrow>
        if hasTrained m then
          (case load m g of
             None \<Rightarrow> (Inl AttributeError, m, g)
           | Some l \<Rightarrow>
               (let rows = fst (savedRawTrainingData C (c_env (l_core l))) in
                case coverage_rows C (params m) rows l of
                  (numCovered, l') \<Rightarrow>
                    (if rows = [] then Inl ZeroDivisionError
                     else Inr (of_nat numCovered / of_nat (length rows)),
                     store l' (m, g))))
        else (Inl (Exception
          ''There is no final instance coverage to return, as the eLCS model has not been trained''), m, g))"

section \<open>A small learning machinery, for concrete runs\<close>

text \<open>
  A stand-in for the collaborators, used where a statement is tried on a concrete run:
  the environment walks through the rows in order, a first classifier is made by
  covering, the genetic algorithm adds a copy of the first rule, and every call moves
  the clock on.
\<close>

fun draw :: "rng \<Rightarrow> rng" where
  "draw (Rng origin n) = Rng origin (Suc n)"

fun toy_perform ::
  "config \<Rightarrow> call \<Rightarrow> (unit, (pyval list \<times> pyval) list \<times> nat) core
   \<Rightarrow> (unit, (pyval list \<times> pyval) list \<times> nat) core" where
  "toy_perform cfg (MakeMatchSet sp it) c =
     (let p = c_population c;
          p1 = (if popSet p = []
                then p\<lparr> popSet := [\<lparr> numerosity = 1, rule = () \<rparr>],
                        microPopSize := microPopSize p + 1 \<rparr>
                else p);
          c1 = (if popSet p = []
                then c\<lparr> c_trackingObj := (c_trackingObj c)
                          \<lparr> coveringCount := coveringCount (c_trackingObj c) + 1 \<rparr>,
                        c_rngs := (c_rngs c)\<lparr> py_random := draw (py_random (c_rngs c)) \<rparr> \<rparr>
                else c)
      in c1\<lparr> c_population := p1\<lparr> matchSet := [0 ..< length (popSet p1)] \<rparr> \<rparr>)"
| "toy_perform cfg (MakeCorrectSet y) c =
     c\<lparr> c_population := (c_population c)\<lparr> correctSet := matchSet (c_population c) \<rparr> \<rparr>"
| "toy_perform cfg (RunGA it st y) c =
     (let p = c_population c in
      c\<lparr> c_population :=
            p\<lparr> popSet := (case popSet p of [] \<Rightarrow> []
                           | r # rs \<Rightarrow> r\<lparr> numerosity := numerosity r + 1 \<rparr> # rs),
               microPopSize := (case popSet p of [] \<Rightarrow> microPopSize p
                                | r # rs \<Rightarrow> microPopSize p + 1) \<rparr>,
         c_rngs := (c_rngs c)\<lparr> py_random := draw (py_random (c_rngs c)) \<rparr> \<rparr>)"
| "toy_perform cfg ClearSets c =
     c\<lparr> c_population := (c_population c)\<lparr> matchSet := [], correctSet := [] \<rparr> \<rparr>"
| "toy_perform cfg (MakeEvalMatchSet st) c =
     c\<lparr> c_population := (c_population c)
           \<lparr> matchSet := [0 ..< length (popSet (c_population c))] \<rparr> \<rparr>"
| "toy_perform cfg NewInstance c =
     c\<lparr> c_env := (fst (c_env c),
                   (if fst (c_env c) = [] then 0
                    else Suc (snd (c_env c)) mod length (fst (c_env c)))) \<rparr>"
| "toy_perform cfg _ c = c"

definition toy_timer :: "unit Timer" where
  "toy_timer =
     \<lparr> globalTime = 0, globalMatching = 0, globalDeletion = 0, globalSubsumption = 0,
       globalSelection = 0, globalEvaluation = 0, globalAdd = None, globalGA = None,
       stamps = () \<rparr>"

definition toy ::
  "(unit, (pyval list \<times> pyval) list \<times> nat, unit, nat, nat, bool) collab" where
  "toy =
     \<lparr> newEnv = (\<lambda>X y cfg r. ((zip X y, 0), r)),
       numTrainInstances = (\<lambda>e. int (length (fst e))),
       discretePhenotype = (\<lambda>e. True),
       phenotypeList = (\<lambda>e. [PInt 0, PInt 1]),
       savedRawTrainingData = (\<lambda>e. (map fst (fst e), map snd (fst e))),
       getTrainInstance =
         (\<lambda>e. if snd e < length (fst e) then fst e ! snd e else ([], PNone)),
       perform = toy_perform,
       timing = (\<lambda>cfg c co tw. (fst tw, Suc (snd tw))),
       getAveGenerality = (\<lambda>cfg c. 1),
       getInitStampAverage = (\<lambda>p. 0),
       newPrediction = (\<lambda>cfg c. (matchSet (c_population c) \<noteq> [], c)),
       getDecision = (\<lambda>b. if b then PInt 1 else PNone),
       getProbabilities = (\<lambda>b. if b then [PFloat (Fin 0), PFloat (Fin 1)] else []),
       hasMatch = (\<lambda>b. b),
       newTimer = (\<lambda>w. (toy_timer, Suc w)),
       timerCall = (\<lambda>t tw. ((fst tw)\<lparr> globalTime := of_nat (snd tw) \<rparr>, Suc (snd tw))),
       addToTracking = (\<lambda>e acc gen tr ts ir. Suc ir),
       exportTrackingToCSV = (\<lambda>f ir w. w),
       exportPopDCAL = (\<lambda>cfg c h cn f ir w. w),
       exportPop = (\<lambda>cfg c h cn f ir w. w) \<rparr>"

definition toy_world :: "(unit, nat) world" where
  "toy_world = \<lparr> g_rngs = unseeded, g_outside = 0, g_pickles = (\<lambda>f. None), g_calls = [] \<rparr>"

text \<open>The estimator the constructor builds from a configuration it accepts.\<close>

definition estimator ::
  "config \<Rightarrow> (unit, (pyval list \<times> pyval) list \<times> nat, unit, nat) elcs" where
  "estimator c =
     \<lparr> params = c, trackingObj = resetAll, record_obj = 0, hasTrained = False, env = None,
       explorIter = None, trackingAccuracy = None, movingAvgCount = None, timer = None,
       population = None, finalMetrics = None \<rparr>"

definition xor_X :: "pyval list list" where
  "xor_X = [[PInt 0, PInt 0], [PInt 0, PInt 1], [PInt 1, PInt 0], [PInt 1, PInt 1]]"

definition xor_y :: "pyval list" where
  "xor_y = [PInt 0, PInt 1, PInt 1, PInt 0]"

text \<open>An estimator as a run of \<open>fit\<close> leaves it, and a world that holds its snapshot.\<close>

definition fitted_estimator ::
  "(unit, (pyval list \<times> pyval) list \<times> nat, unit, nat) elcs" where
  "fitted_estimator =
     (estimator default_config)
       \<lparr> hasTrained := True, env := Some (zip xor_X xor_y, 0), explorIter := Some (PInt 2),
         trackingAccuracy := Some [], movingAvgCount := Some 50, timer := Some toy_timer,
         population := Some \<lparr> popSet = [\<lparr> numerosity = 3, rule = () \<rparr>], microPopSize = 3,
                                matchSet = [], correctSet = [] \<rparr> \<rparr>"

definition snapshot_world :: "(unit, nat) world" where
  "snapshot_world =
     toy_world\<lparr> g_pickles :=
       (\<lambda>f. if f = ''snap'' then finalMetrics (snd (saveFinalMetrics fitted_estimator))
            else None) \<rparr>"

text \<open>The state of \<open>fitted_estimator\<close> at work.\<close>

definition toy_live ::
  "(unit, (pyval list \<times> pyval) list \<times> nat, unit, nat) live" where
  "toy_live =
     \<lparr> l_core = \<lparr> c_population = \<lparr> popSet = [\<lparr> numerosity = 3, rule = () \<rparr>],
                                     microPopSize = 3, matchSet = [], correctSet = [] \<rparr>,
                  c_env = (zip xor_X xor_y, 0), c_trackingObj = resetAll,
                  c_rngs = unseeded \<rparr>,
       l_clock = (toy_timer, 0), l_trackingAccuracy = [], l_movingAvgCount = 50,
       l_calls = [] \<rparr>"

text \<open>A second world: other generator states, another clock, calls already on record.\<close>

definition other_world :: "(unit, nat) world" where
  "other_world =
     toy_world\<lparr> g_rngs := \<lparr> py_random = Rng (FromEntropy 5) 9, np_random = Rng (FromSeed 3) 2 \<rparr>,
                g_outside := 17, g_calls := [ClearSets] \<rparr>"

text \<open>
  An estimator whose population was saved with a \<open>microPopSize\<close> that is not the sum of
  the numerosities, a world that holds its snapshot, and an estimator about to reboot
  from it.
\<close>

definition odd_estimator ::
  "(unit, (pyval list \<times> pyval) list \<times> nat, unit, nat) elcs" where
  "odd_estimator =
     fitted_estimator
       \<lparr> population := Some \<lparr> popSet = [\<lparr> numerosity = 3, rule = () \<rparr>,
                                        \<lparr> numerosity = 4, rule = () \<rparr>],
                                microPopSize = 999, matchSet = [], correctSet = [] \<rparr> \<rparr>"

definition odd_world :: "(unit, nat) world" where
  "odd_world =
     toy_world\<lparr> g_pickles :=
       (\<lambda>f. if f = ''odd'' then finalMetrics (snd (saveFinalMetrics odd_estimator))
            else None) \<rparr>"

definition rebooting_estimator ::
  "string \<Rightarrow> (unit, (pyval list \<times> pyval) list \<times> nat, unit, nat) elcs" where
  "rebooting_estimator name =
     (estimator (default_config\<lparr> rebootFilename := PStr name \<rparr>))
       \<lparr> env := Some (zip xor_X xor_y, 0), explorIter := Some (PInt 0),
         trackingAccuracy := Some [], movingAvgCount := Some 50 \<rparr>"

text \<open>The snapshot that \<open>saveFinalMetrics\<close> makes of \<open>fitted_estimator\<close>.\<close>

definition toy_snapshot :: "unit finalMetrics" where
  "toy_snapshot =
     \<lparr> fm_learningIterations = PInt 10000, fm_globalTime = 0, fm_globalMatching = 0,
       fm_globalDeletion = 0, fm_globalSubsumption = 0, fm_globalSelection = 0,
       fm_globalEvaluation = 0, fm_popSet = [\<lparr> numerosity = 3, rule = () \<rparr>] \<rparr>"

text \<open>What one iteration of the small machinery does to the population.\<close>

definition toy_grow :: "unit ClassifierSet \<Rightarrow> unit ClassifierSet" where
  "toy_grow p =
     (case popSet p of
        [] \<Rightarrow> \<lparr> popSet = [\<lparr> numerosity = 2, rule = () \<rparr>], microPopSize = microPopSize p + 2,
                matchSet = [], correctSet = [] \<rparr>
      | r # rs \<Rightarrow> \<lparr> popSet = r\<lparr> numerosity := numerosity r + 1 \<rparr> # rs,
                    microPopSize = microPopSize p + 1, matchSet = [], correctSet = [] \<rparr>)"

section \<open>The iteration protocol and the training loop in the words of the spec\<close>

text \<open>
  The calls of one training iteration on the instance \<open>(state, phenotype)\<close> at iteration
  \<open>it\<close>, in order. The prediction is there only when accuracy is tracked, the correct-set
  subsumption only when it is switched on.
\<close>

definition protocol :: "config \<Rightarrow> pyval list \<times> pyval \<Rightarrow> pyval \<Rightarrow> call list" where
  "protocol cfg state_phenotype it =
     [MakeMatchSet state_phenotype it]
     @ (if py_truth (trackAccuracyWhileFit cfg) then [NewPrediction] else [])
     @ [MakeCorrectSet (snd state_phenotype), UpdateSets it]
     @ (if py_truth (doCorrectSetSubsumption cfg) then [DoCorrectSetSubsumption] else [])
     @ [RunGA it (fst state_phenotype) (snd state_phenotype), Deletion it, ClearSets]"

text \<open>
  What the protocol does to the population, the environment, the tracking counters and
  the generators, written with the methods of the collaborators themselves. First the
  match set, on counters that were reset.
\<close>

definition matched ::
  "('x, 'e, 'tp, 'ir, 'w, 'pr) collab \<Rightarrow> config \<Rightarrow> pyval list \<times> pyval \<Rightarrow> pyval
   \<Rightarrow> ('x, 'e) core \<Rightarrow> ('x, 'e) core" where
  "matched C cfg state_phenotype it c =
     perform C cfg (MakeMatchSet state_phenotype it) (c\<lparr> c_trackingObj := resetAll \<rparr>)"

text \<open>
  Then, from the correct set to the clearing of the sets: \<open>makeCorrectSet\<close>, \<open>updateSets\<close>,
  \<open>doCorrectSetSubsumption\<close> if and only if the parameter is true, \<open>runGA\<close>, \<open>deletion\<close>,
  the sizes written to the tracking counters, \<open>clearSets\<close>.
\<close>

definition after_protocol ::
  "('x, 'e, 'tp, 'ir, 'w, 'pr) collab \<Rightarrow> config \<Rightarrow> pyval list \<times> pyval \<Rightarrow> pyval
   \<Rightarrow> ('x, 'e) core \<Rightarrow> ('x, 'e) core" where
  "after_protocol C cfg state_phenotype it c =
     perform C cfg ClearSets
       (with_sizes C
         (perform C cfg (Deletion it)
           (perform C cfg (RunGA it (fst state_phenotype) (snd state_phenotype))
             ((if py_truth (doCorrectSetSubsumption cfg)
               then perform C cfg DoCorrectSetSubsumption else (\<lambda>c. c))
               (perform C cfg (UpdateSets it)
                 (perform C cfg (MakeCorrectSet (snd state_phenotype)) c))))))"

text \<open>
  One iteration on the learning state and the accuracy window (of size \<open>mov\<close>): the
  exception of the accuracy block, if it raises, and the two as the iteration leaves
  them. When the block raises, the iteration ends after the prediction.
\<close>

definition iteration ::
  "('x, 'e, 'tp, 'ir, 'w, 'pr) collab \<Rightarrow> builtins \<Rightarrow> config \<Rightarrow> int \<Rightarrow> pyval list \<times> pyval
   \<Rightarrow> pyval \<Rightarrow> ('x, 'e) core \<times> pyfloat list \<Rightarrow> exn option \<times> ('x, 'e) core \<times> pyfloat list" where
  "iteration C B cfg mov state_phenotype it s =
     (case s of (c, acc) \<Rightarrow>
        (let c1 = matched C cfg state_phenotype it c in
         if py_truth (trackAccuracyWhileFit cfg) then
           (case newPrediction C cfg c1 of
              (prediction, c2) \<Rightarrow>
                (case accuracy_sample C B (snd state_phenotype) prediction c2 of
                   Inl ex \<Rightarrow> (Some ex, c2, acc)
                 | Inr v \<Rightarrow>
                     (case window_push v mov acc of
                        Inl ex \<Rightarrow> (Some ex, c2, acc)
                      | Inr acc' \<Rightarrow>
                          (None, after_protocol C cfg state_phenotype it c2, acc'))))
         else (None, after_protocol C cfg state_phenotype it c1, acc)))"

text \<open>
  One exploration iteration of \<open>fit\<close>: the current training instance is fetched from the
  environment, the iteration runs on it, and the environment is advanced to the next
  instance.
\<close>

definition training_pass ::
  "('x, 'e, 'tp, 'ir, 'w, 'pr) collab \<Rightarrow> builtins \<Rightarrow> config \<Rightarrow> int \<Rightarrow> pyval
   \<Rightarrow> ('x, 'e) core \<times> pyfloat list \<Rightarrow> exn option \<times> ('x, 'e) core \<times> pyfloat list" where
  "training_pass C B cfg mov it s =
     (case iteration C B cfg mov (getTrainInstance C (c_env (fst s))) it s of
        (Some ex, s') \<Rightarrow> (Some ex, s')
      | (None, c', acc') \<Rightarrow> (None, perform C cfg NewInstance c', acc'))"

text \<open>\<open>n\<close> exploration iterations, numbered \<open>e\<close>, \<open>e + 1\<close>, ...; an exception ends the run.\<close>

fun training_passes ::
  "('x, 'e, 'tp, 'ir, 'w, 'pr) collab \<Rightarrow> builtins \<Rightarrow> config \<Rightarrow> int \<Rightarrow> nat \<Rightarrow> int
   \<Rightarrow> ('x, 'e) core \<times> pyfloat list \<Rightarrow> exn option \<times> ('x, 'e) core \<times> pyfloat list" where
  "training_passes C B cfg mov 0 e s = (None, s)"
| "training_passes C B cfg mov (Suc n) e s =
     (case training_pass C B cfg mov (PInt e) s of
        (Some ex, s') \<Rightarrow> (Some ex, s')
      | (None, s') \<Rightarrow> training_passes C B cfg mov n (e + 1) s')"

text \<open>
  Where training starts: at iteration 0 with an empty population, or, when a reboot file
  is named and holds a snapshot with an integer iteration count \<open>k\<close>, at iteration \<open>k\<close>
  with the population of the snapshot.
\<close>

definition training_start ::
  "config \<Rightarrow> (string \<Rightarrow> 'x finalMetrics option) \<Rightarrow> (int \<times> 'x ClassifierSet) option" where
  "training_start cfg files =
     (case rebootFilename cfg of
        PNone \<Rightarrow> Some (0, \<lparr> popSet = [], microPopSize = 0, matchSet = [], correctSet = [] \<rparr>)
      | PStr name \<Rightarrow>
          (case files name of
             None \<Rightarrow> None
           | Some snapshot \<Rightarrow>
               (case fm_learningIterations snapshot of
                  PInt k \<Rightarrow>
                    Some (k, \<lparr> popSet = fm_popSet snapshot,
                              microPopSize = sum_list (map numerosity (fm_popSet snapshot)),
                              matchSet = [], correctSet = [] \<rparr>)
                | _ \<Rightarrow> None))
      | _ \<Rightarrow> None)"

text \<open>
  The training run of \<open>fit\<close> on \<open>(X, y)\<close>: the environment is built from \<open>(X, y)\<close>, and
  \<open>n\<close> exploration iterations follow, numbered from \<open>k\<close> on, starting from the population
  \<open>p0\<close>, with an empty accuracy window of size 50.
\<close>

definition training_run ::
  "('x, 'e, 'tp, 'ir, 'w, 'pr) collab \<Rightarrow> builtins \<Rightarrow> pyval list list \<Rightarrow> pyval list
   \<Rightarrow> ('x, 'e, 'tp, 'ir) elcs \<Rightarrow> ('x, 'w) world \<Rightarrow> int \<Rightarrow> int \<Rightarrow> 'x ClassifierSet
   \<Rightarrow> exn option \<times> ('x, 'e) core \<times> pyfloat list" where
  "training_run C B X y m g n k p0 =
     (let er = newEnv C X y (params m) (g_rngs g)
      in training_passes C B ((params m)\<lparr> learningIterations := PInt (n + k) \<rparr>) 50 (nat n) k
           (\<lparr> c_population = p0, c_env = fst er, c_trackingObj = trackingObj m,
              c_rngs = snd er \<rparr>, []))"

section \<open>The evaluation pathway in the words of the spec\<close>

text \<open>
  Per row of \<open>X\<close> the evaluation match set for that row, the prediction from it, and the
  clearing of the sets.
\<close>

definition eval_protocol :: "pyval list list \<Rightarrow> call list" where
  "eval_protocol X = concat (map (\<lambda>state. [MakeEvalMatchSet state, NewPrediction, ClearSets]) X)"

text \<open>
  What one row yields on a learning state \<open>c\<close>: the prediction object built after the
  evaluation match set of that row, and the learning state once the sets are cleared.
\<close>

definition eval_row ::
  "('x, 'e, 'tp, 'ir, 'w, 'pr) collab \<Rightarrow> config \<Rightarrow> ('x, 'e) core \<Rightarrow> pyval list \<Rightarrow> 'pr" where
  "eval_row C cfg c state = fst (newPrediction C cfg (perform C cfg (MakeEvalMatchSet state) c))"

definition after_eval_row ::
  "('x, 'e, 'tp, 'ir, 'w, 'pr) collab \<Rightarrow> config \<Rightarrow> ('x, 'e) core \<Rightarrow> pyval list
   \<Rightarrow> ('x, 'e) core" where
  "after_eval_row C cfg c state =
     perform C cfg ClearSets
       (snd (newPrediction C cfg (perform C cfg (MakeEvalMatchSet state) c)))"

text \<open>
  Modelled from the spec: the evaluation pathway builds the match set without covering,
  the prediction reads it, and \<open>clearSets\<close> empties the transient sets; nothing else of the
  learning state is touched (spec, sections 4 and 5). For a learning state \<open>c\<close> whose
  transient sets are empty this says that a row leaves \<open>c\<close> as it found it. The code of
  \<open>makeEvalMatchSet\<close>, \<open>Prediction\<close> and \<open>clearSets\<close> is in other files of the repository.
\<close>

definition eval_restores ::
  "('x, 'e, 'tp, 'ir, 'w, 'pr) collab \<Rightarrow> config \<Rightarrow> ('x, 'e) core \<Rightarrow> bool" where
  "eval_restores C cfg c \<longleftrightarrow> (\<forall>state. after_eval_row C cfg c state = c)"

section \<open>Runs that differ in time only: vocabulary\<close>

text \<open>
  Two states at work agree when they differ at most in the timer, the world outside the
  process and the record of calls: they hold the same population, environment,
  tracking counters, generators and accuracy window.
\<close>

definition agree :: "('x, 'e, 'tp, 'w) live \<Rightarrow> ('x, 'e, 'tp, 'w) live \<Rightarrow> bool" where
  "agree l1 l2 \<longleftrightarrow>
     l_core l1 = l_core l2 \<and> l_trackingAccuracy l1 = l_trackingAccuracy l2
     \<and> l_movingAvgCount l1 = l_movingAvgCount l2"

definition agree_run ::
  "('x, 'e, 'tp, 'ir, 'w) run \<Rightarrow> ('x, 'e, 'tp, 'ir, 'w) run \<Rightarrow> bool" where
  "agree_run r1 r2 \<longleftrightarrow>
     agree (r_live r1) (r_live r2) \<and> r_aveGenerality r1 = r_aveGenerality r2"

text \<open>
  Two estimators agree when they differ at most in the timer, the iteration record and
  the snapshot (which holds timer values); two worlds agree when they have the same
  generators and the same files.
\<close>

definition agree_elcs ::
  "('x, 'e, 'tp, 'ir) elcs \<Rightarrow> ('x, 'e, 'tp, 'ir) elcs \<Rightarrow> bool" where
  "agree_elcs m1 m2 \<longleftrightarrow>
     params m1 = params m2 \<and> trackingObj m1 = trackingObj m2
     \<and> hasTrained m1 = hasTrained m2 \<and> env m1 = env m2 \<and> explorIter m1 = explorIter m2
     \<and> trackingAccuracy m1 = trackingAccuracy m2 \<and> movingAvgCount m1 = movingAvgCount m2
     \<and> population m1 = population m2 \<and> (timer m1 = None \<longleftrightarrow> timer m2 = None)"

definition agree_world :: "('x, 'w) world \<Rightarrow> ('x, 'w) world \<Rightarrow> bool" where
  "agree_world g1 g2 \<longleftrightarrow> g_rngs g1 = g_rngs g2 \<and> g_pickles g1 = g_pickles g2"

text \<open>One run: the constructor, and \<open>fit\<close> on the estimator it returns.\<close>

definition construct_then_fit ::
  "('x, 'e, 'tp, 'ir, 'w, 'pr) collab \<Rightarrow> builtins \<Rightarrow> 'ir \<Rightarrow> config
   \<Rightarrow> pyval list list \<Rightarrow> pyval list \<Rightarrow> ('x, 'w) world
   \<Rightarrow> exn + (exn + unit) \<times> ('x, 'e, 'tp, 'ir) elcs \<times> ('x, 'w) world" where
  "construct_then_fit C B ir0 c X y g =
     (case init B ir0 c (g_rngs g) of
        (Inl ex, rg) \<Rightarrow> Inl ex
      | (Inr m, rg) \<Rightarrow> Inr (fit C B X y (m, g\<lparr> g_rngs := rg \<rparr>)))"

text \<open>What a run produces: the exception of the constructor, or the result of \<open>fit\<close> and
  the population it leaves.\<close>

definition produced ::
  "exn + (exn + unit) \<times> ('x, 'e, 'tp, 'ir) elcs \<times> ('x, 'w) world
   \<Rightarrow> exn + (exn + unit) \<times> 'x ClassifierSet option" where
  "produced out =
     (case out of Inl ex \<Rightarrow> Inl ex | Inr (res, m, g) \<Rightarrow> Inr (res, population m))"

section \<open>Properties of the constructor\<close>

lemma run_checks_isl: "isl (run_checks cs) \<longleftrightarrow> (\<exists>c\<in>set cs. isl c)"
  by (induction cs) (auto split: sum.splits)

lemma raise_unless_isl [simp]: "isl (raise_unless ok msg) \<longleftrightarrow> \<not> ok"
  by (simp add: raise_unless_def)

lemma init_raises_iff:
  "isl (fst (init B ir0 c g)) \<longleftrightarrow>
     isl (run_checks (checks_before_seed B c))
     \<or> isl (fst (seed_randomSeed B (randomSeed c) g))
     \<or> isl (run_checks (checks_after_seed c))"
  by (auto simp: init_def split: sum.splits prod.splits)

lemma trunc_of_int [simp]: "trunc (of_int k) = k"
  by (simp add: trunc_def)

lemma checkIsInt_iff:
  "checkIsInt B v \<longleftrightarrow>
     (\<exists>n. v = PInt n \<and> \<bar>n\<bar> < float_max_int) \<or> (\<exists>b. v = PBool b)
     \<or> (\<exists>r. v = PFloat (Fin r) \<and> r = of_int (trunc r))"
proof (cases v)
  case (PFloat f)
  then show ?thesis by (cases f) (auto simp: checkIsInt_def)
qed (auto simp: checkIsInt_def split: option.splits sum.splits)

lemma checkIsFloat_iff:
  "checkIsFloat B v \<longleftrightarrow>
     (\<exists>n. v = PInt n \<and> \<bar>n\<bar> < float_max_int) \<or> (\<exists>b. v = PBool b)
     \<or> (\<exists>f. v = PFloat f) \<or> (\<exists>s f. v = PStr s \<and> float_of_str B s = Some f)"
  by (cases v) (auto simp: checkIsFloat_def split: option.splits)

lemma chk_nonneg_int_isl:
  "isl (chk_nonneg_int B v msg) \<longleftrightarrow> \<not> (checkIsInt B v \<and> py_lt v 0 = Inr False)"
  by (auto simp: chk_nonneg_int_def split: sum.splits)

lemma chk_nonneg_float_isl:
  "isl (chk_nonneg_float B v msg) \<longleftrightarrow> \<not> (checkIsFloat B v \<and> py_lt v 0 = Inr False)"
  by (auto simp: chk_nonneg_float_def split: sum.splits)

lemma chk_unit_float_isl:
  "isl (chk_unit_float B v msg) \<longleftrightarrow>
     \<not> (checkIsFloat B v \<and> py_lt v 0 = Inr False \<and> py_gt v 1 = Inr False)"
  by (auto simp: chk_unit_float_def split: sum.splits bool.splits)

lemma chk_bool_isl: "isl (chk_bool v msg) \<longleftrightarrow> \<not> is_bool v"
  by (simp add: chk_bool_def)

lemma chk_float_isl: "isl (chk_float B v msg) \<longleftrightarrow> \<not> checkIsFloat B v"
  by (simp add: chk_float_def)

lemma chk_selectionMethod_isl:
  "isl (chk_selectionMethod v) \<longleftrightarrow> v \<noteq> PStr ''tournament'' \<and> v \<noteq> PStr ''roulette''"
  by (simp add: chk_selectionMethod_def)

lemma before_seed_isl:
  "isl (run_checks (checks_before_seed B c)) \<longleftrightarrow>
     isl (chk_nonneg_int B (learningIterations c) ''learningIterations param must be nonnegative integer'')
   \<or> \<not> is_bool (trackAccuracyWhileFit c)
   \<or> isl (chk_nonneg_int B (N c) ''N param must be nonnegative integer'')
   \<or> isl (chk_unit_float B (p_spec c) ''p_spec param must be float from 0 - 1'')
   \<or> isl (chk_discreteAttributeLimit B (discreteAttributeLimit c))
   \<or> isl (chk_specifiedAttributes B (specifiedAttributes c))
   \<or> \<not> checkIsFloat B (nu c)
   \<or> isl (chk_unit_float B (chi c) ''chi param must be float from 0 - 1'')
   \<or> isl (chk_unit_float B (upsilon c) ''upsilon param must be float from 0 - 1'')
   \<or> isl (chk_nonneg_float B (theta_GA c) ''theta_GA param must be nonnegative float'')
   \<or> isl (chk_nonneg_int B (theta_del c) ''theta_del param must be nonnegative integer'')
   \<or> isl (chk_nonneg_int B (theta_sub c) ''theta_sub param must be nonnegative integer'')
   \<or> isl (chk_unit_float B (acc_sub c) ''acc_sub param must be float from 0 - 1'')
   \<or> \<not> checkIsFloat B (beta c) \<or> \<not> checkIsFloat B (delta c)
   \<or> \<not> checkIsFloat B (init_fit c) \<or> \<not> checkIsFloat B (fitnessReduction c)
   \<or> \<not> is_bool (doCorrectSetSubsumption c) \<or> \<not> is_bool (doGASubsumption c)
   \<or> isl (chk_selectionMethod (selectionMethod c))
   \<or> isl (chk_unit_float B (theta_sel c) ''theta_sel param must be float from 0 - 1'')"
  unfolding run_checks_isl checks_before_seed_def
  by (simp add: chk_bool_isl chk_float_isl disj_ac)

lemma init_raises_iff':
  "init_raises B c g \<longleftrightarrow>
     isl (run_checks (checks_before_seed B c))
     \<or> isl (fst (seed_randomSeed B (randomSeed c) g))
     \<or> isl (run_checks (checks_after_seed c))"
  by (simp add: init_raises_def init_raises_iff)

lemma finite_num_float: "finite_num v = Some r \<Longrightarrow> checkIsFloat B v"
  by (cases v rule: finite_num.cases) (auto simp: checkIsFloat_def split: if_splits)

lemma finite_num_lt: "finite_num v = Some r \<Longrightarrow> py_lt v k = Inr (r < of_int k)"
  by (cases v rule: finite_num.cases) (auto simp: py_lt_def split: if_splits)

lemma finite_num_gt: "finite_num v = Some r \<Longrightarrow> py_gt v k = Inr (of_int k < r)"
  by (cases v rule: finite_num.cases) (auto simp: py_gt_def split: if_splits)

lemma in_unit_ok: "in_unit v \<Longrightarrow> \<not> isl (chk_unit_float B v msg)"
  by (auto simp: in_unit_def chk_unit_float_isl finite_num_float finite_num_lt finite_num_gt
      split: option.splits)

lemma nonneg_int_ok: "nonneg_int v \<Longrightarrow> \<not> isl (chk_nonneg_int B v msg)"
  by (cases v) (auto simp: chk_nonneg_int_isl checkIsInt_iff py_lt_def)

lemma nonneg_int_checkIsInt: "nonneg_int v \<Longrightarrow> checkIsInt B v"
  by (cases v) (auto simp: checkIsInt_iff)

lemma nonneg_int_py_int: "nonneg_int v \<Longrightarrow> \<exists>k. py_int B v = Inr k \<and> 0 \<le> k"
  by (cases v) auto

lemma dal_ok:
  "v = PStr ''c'' \<or> v = PStr ''d'' \<or> nonneg_int v \<Longrightarrow> \<not> isl (chk_discreteAttributeLimit B v)"
  using nonneg_int_py_int[of v B] nonneg_int_checkIsInt[of v B]
  by (auto simp: chk_discreteAttributeLimit_def Let_def)

lemma spAttrs_list_ok: "list_all nonneg_int xs \<Longrightarrow> chk_spAttrs B xs = Inr ()"
proof (induction xs)
  case (Cons x xs)
  then show ?case
    using nonneg_int_py_int[of x B] nonneg_int_checkIsInt[of x B] by auto
qed simp

lemma spAttrs_ok: "spAttrs_ok a \<Longrightarrow> \<not> isl (chk_specifiedAttributes B a)"
  by (cases a) (auto simp: spAttrs_list_ok)

lemma seed_ok_ok: "seed_ok v \<Longrightarrow> \<not> isl (fst (seed_randomSeed B v g))"
  by (cases v) (auto simp: seed_randomSeed_def Let_def checkIsInt_iff float_max_int_def)

lemma below_zero_lt: "below_zero v \<Longrightarrow> py_lt v 0 = Inr True"
  by (auto simp: below_zero_def py_lt_def split: option.splits)

lemma above_one_gt: "above_one v \<Longrightarrow> py_gt v 1 = Inr True"
  by (auto simp: above_one_def py_gt_def split: option.splits)

lemma after_seed_isl:
  "isl (run_checks (checks_after_seed c)) \<longleftrightarrow>
     \<not> is_bool (matchForMissingness c) \<or> isl (chk_rebootFilename (rebootFilename c))"
  unfolding run_checks_isl checks_after_seed_def by (simp add: chk_bool_isl)

lemma in_range_accepted:
  assumes "in_range c"
  shows "\<not> init_raises B c g"
proof -
  have "\<not> isl (run_checks (checks_before_seed B c))"
    using assms unfolding before_seed_isl in_range_def
    by (auto simp: in_unit_ok nonneg_int_ok dal_ok spAttrs_ok chk_selectionMethod_isl
        chk_nonneg_float_isl finite_num_float finite_num_lt split: option.splits)
  moreover have "\<not> isl (fst (seed_randomSeed B (randomSeed c) g))"
    using assms by (simp add: in_range_def seed_ok_ok)
  moreover have "\<not> isl (run_checks (checks_after_seed c))"
    using assms unfolding after_seed_isl in_range_def by auto
  ultimately show ?thesis by (simp add: init_raises_iff')
qed

lemma selection_rejected:
  "selectionMethod c \<noteq> PStr ''tournament'' \<Longrightarrow> selectionMethod c \<noteq> PStr ''roulette''
   \<Longrightarrow> init_raises B c g"
  unfolding init_raises_iff' before_seed_isl by (simp add: chk_selectionMethod_isl)

lemma unit_rejected:
  assumes "below_zero v \<or> above_one v"
  shows "isl (chk_unit_float B v msg)"
  using assms below_zero_lt[of v] above_one_gt[of v] by (auto simp: chk_unit_float_isl)

lemma negative_int_rejected: "below_zero v \<Longrightarrow> isl (chk_nonneg_int B v msg)"
  using below_zero_lt[of v] by (auto simp: chk_nonneg_int_isl)

lemma negative_float_rejected: "below_zero v \<Longrightarrow> isl (chk_nonneg_float B v msg)"
  using below_zero_lt[of v] by (auto simp: chk_nonneg_float_isl)

text \<open>
  Claim C5, as the constructor has it. The constructor raises for every \<open>selectionMethod\<close>
  other than the two strings, for every \<open>p_spec\<close>, \<open>chi\<close>, \<open>upsilon\<close>, \<open>acc_sub\<close> or
  \<open>theta_sel\<close> that compares below 0 or above 1, for every \<open>learningIterations\<close>, \<open>N\<close>,
  \<open>theta_GA\<close>, \<open>theta_del\<close> or \<open>theta_sub\<close> that compares below 0, and for every
  non-boolean \<open>doCorrectSetSubsumption\<close>, \<open>doGASubsumption\<close>, \<open>trackAccuracyWhileFit\<close> or
  \<open>matchForMissingness\<close>; it raises nothing for a configuration that is \<open>in_range\<close>: numbers
  of the documented kinds and ranges that convert to a float, and a \<open>randomSeed\<close> that is
  \<open>none\<close> or an integer from 0 to \<open>2 ^ 32 - 1\<close>.
\<close>

theorem init_validation:
  "(selectionMethod c \<noteq> PStr ''tournament'' \<and> selectionMethod c \<noteq> PStr ''roulette''
      \<longrightarrow> init_raises B c g)
   \<and> ((\<exists>v \<in> {p_spec c, chi c, upsilon c, acc_sub c, theta_sel c}. below_zero v \<or> above_one v)
      \<longrightarrow> init_raises B c g)
   \<and> ((\<exists>v \<in> {learningIterations c, N c, theta_GA c, theta_del c, theta_sub c}. below_zero v)
      \<longrightarrow> init_raises B c g)
   \<and> ((\<exists>v \<in> {doCorrectSetSubsumption c, doGASubsumption c, trackAccuracyWhileFit c,
               matchForMissingness c}. \<not> is_bool v)
      \<longrightarrow> init_raises B c g)
   \<and> (in_range c \<longrightarrow> \<not> init_raises B c g)"
proof (intro conjI impI)
  show "init_raises B c g"
    if "selectionMethod c \<noteq> PStr ''tournament'' \<and> selectionMethod c \<noteq> PStr ''roulette''"
    using that selection_rejected by blast
  show "init_raises B c g"
    if "\<exists>v \<in> {p_spec c, chi c, upsilon c, acc_sub c, theta_sel c}. below_zero v \<or> above_one v"
    using that unfolding init_raises_iff' before_seed_isl
    by (auto simp: unit_rejected)
  show "init_raises B c g"
    if "\<exists>v \<in> {learningIterations c, N c, theta_GA c, theta_del c, theta_sub c}. below_zero v"
    using that unfolding init_raises_iff' before_seed_isl
    by (auto simp: negative_int_rejected negative_float_rejected)
  show "init_raises B c g"
    if "\<exists>v \<in> {doCorrectSetSubsumption c, doGASubsumption c, trackAccuracyWhileFit c,
               matchForMissingness c}. \<not> is_bool v"
    using that unfolding init_raises_iff' before_seed_isl after_seed_isl
    by auto
  show "\<not> init_raises B c g" if "in_range c"
    using that by (rule in_range_accepted)
qed

lemma in_range_default: "in_range default_config"
  by (simp add: in_range_def default_config_def in_unit_def float_max_int_def)

text \<open>
  Claim C5 as stated fails: every value of the default configuration is in its documented
  range, and so is the integer seed \<open>-1\<close>, yet the constructor raises, because
  \<open>np.random.seed\<close> refuses the seed inside the \<open>try\<close> block.
\<close>

theorem init_negative_seed_raises:
  "(fst (init no_parse () (default_config\<lparr>randomSeed := PInt (- 1)\<rparr>) unseeded)
          :: exn + (unit, unit, unit, unit) elcs)
     = Inl (Exception ''randomSeed param must be integer or none'')"
  by (simp add: init_def checks_before_seed_def default_config_def in_range_def in_unit_def
      chk_nonneg_int_def chk_bool_def chk_unit_float_def chk_float_def chk_nonneg_float_def
      chk_discreteAttributeLimit_def chk_selectionMethod_def checkIsInt_def checkIsFloat_def
      py_lt_def py_gt_def raise_unless_def seed_randomSeed_def float_max_int_def Let_def)

theorem init_validation_witness:
  "in_range default_config
   \<and> \<not> init_raises no_parse default_config unseeded
   \<and> init_raises no_parse (default_config\<lparr>selectionMethod := PStr ''rank''\<rparr>) unseeded
   \<and> init_raises no_parse (default_config\<lparr>chi := PFloat (Fin (3 / 2))\<rparr>) unseeded
   \<and> init_raises no_parse (default_config\<lparr>N := PInt (- 1)\<rparr>) unseeded
   \<and> init_raises no_parse (default_config\<lparr>doGASubsumption := PInt 1\<rparr>) unseeded"
proof -
  have "above_one (PFloat (Fin (3 / 2)))" by (simp add: above_one_def)
  moreover have "below_zero (PInt (- 1))" by (simp add: below_zero_def)
  ultimately show ?thesis
    using in_range_default
      init_validation [of default_config no_parse unseeded]
      init_validation [of "default_config\<lparr>selectionMethod := PStr ''rank''\<rparr>" no_parse unseeded]
      init_validation [of "default_config\<lparr>chi := PFloat (Fin (3 / 2))\<rparr>" no_parse unseeded]
      init_validation [of "default_config\<lparr>N := PInt (- 1)\<rparr>" no_parse unseeded]
      init_validation [of "default_config\<lparr>doGASubsumption := PInt 1\<rparr>" no_parse unseeded]
    by simp
qed

text \<open>
  Claim C10. \<open>checkIsInt\<close> accepts every float with zero fractional part: for a float \<open>f\<close>
  with \<open>f == int(f)\<close> and \<open>f >= 0\<close>, putting \<open>f\<close> in place of \<open>learningIterations\<close>, \<open>N\<close>,
  \<open>theta_del\<close> or \<open>theta_sub\<close> of a configuration the constructor accepts gives a
  configuration it accepts, although \<open>f\<close> is a float and not an integer.
\<close>

theorem integral_float_accepted:
  assumes "r = of_int (trunc r)" and "0 \<le> r" and "\<not> init_raises B c g"
  shows "checkIsInt B (PFloat (Fin r))
    \<and> (\<forall>n. PFloat (Fin r) \<noteq> PInt n)
    \<and> \<not> init_raises B (c\<lparr>learningIterations := PFloat (Fin r)\<rparr>) g
    \<and> \<not> init_raises B (c\<lparr>N := PFloat (Fin r)\<rparr>) g
    \<and> \<not> init_raises B (c\<lparr>theta_del := PFloat (Fin r)\<rparr>) g
    \<and> \<not> init_raises B (c\<lparr>theta_sub := PFloat (Fin r)\<rparr>) g"
proof -
  have int: "checkIsInt B (PFloat (Fin r))"
    using assms(1) by (simp add: checkIsInt_iff)
  have ok: "\<not> isl (chk_nonneg_int B (PFloat (Fin r)) msg)" for msg
    using int assms(2) by (simp add: chk_nonneg_int_isl py_lt_def)
  show ?thesis
    using assms(3) int ok
    unfolding init_raises_iff' before_seed_isl after_seed_isl
    by simp
qed

theorem integral_float_accepted_witness:
  "(5 :: rat) = of_int (trunc 5) \<and> (0 :: rat) \<le> 5
   \<and> \<not> init_raises no_parse default_config unseeded
   \<and> checkIsInt no_parse (PFloat (Fin 5))
   \<and> \<not> init_raises no_parse (default_config\<lparr>learningIterations := PFloat (Fin 5)\<rparr>) unseeded
   \<and> \<not> init_raises no_parse (default_config\<lparr>N := PFloat (Fin 5)\<rparr>) unseeded
   \<and> \<not> init_raises no_parse (default_config\<lparr>theta_del := PFloat (Fin 5)\<rparr>) unseeded
   \<and> \<not> init_raises no_parse (default_config\<lparr>theta_sub := PFloat (Fin 5)\<rparr>) unseeded"
proof -
  have a: "(5 :: rat) = of_int (trunc 5)" by (simp add: trunc_def)
  have b: "(0 :: rat) \<le> 5" by simp
  have c: "\<not> init_raises no_parse default_config unseeded"
    using in_range_default by (rule in_range_accepted)
  show ?thesis
    using a b c integral_float_accepted [OF a b c] by simp
qed

section \<open>The measure that \<open>score\<close> returns\<close>

lemma confusion_row:
  assumes "finite S" and "snd ` set zs \<subseteq> S"
  shows "(\<Sum>b\<in>S. length (filter (\<lambda>(t, p). t = a \<and> p = b) zs))
         = length (filter (\<lambda>(t, p). t = a) zs)"
  using assms(2)
proof (induction zs)
  case Nil
  then show ?case by simp
next
  case (Cons z zs)
  obtain t p where z: "z = (t, p)" by (cases z)
  from Cons.prems z have p: "p \<in> S" and rest: "snd ` set zs \<subseteq> S" by auto
  have "(\<Sum>b\<in>S. length (filter (\<lambda>(t, p). t = a \<and> p = b) (z # zs)))
        = (\<Sum>b\<in>S. (if t = a \<and> p = b then 1 else 0)
                    + length (filter (\<lambda>(t, p). t = a \<and> p = b) zs))"
    by (rule sum.cong) (auto simp: z)
  also have "\<dots> = (\<Sum>b\<in>S. if t = a \<and> p = b then 1 else 0)
                  + (\<Sum>b\<in>S. length (filter (\<lambda>(t, p). t = a \<and> p = b) zs))"
    by (rule sum.distrib)
  also have "(\<Sum>b\<in>S. if t = a \<and> p = b then 1 else 0) = (if t = a then 1 else (0::nat))"
  proof (cases "t = a")
    case True
    then have "(\<Sum>b\<in>S. if t = a \<and> p = b then 1 else 0) = (\<Sum>b\<in>S. if p = b then 1 else (0::nat))"
      by simp
    also have "\<dots> = 1" using assms(1) p by (simp add: sum.delta')
    finally show ?thesis using True by simp
  next
    case False
    then show ?thesis by simp
  qed
  finally show ?case using Cons.IH [OF rest] by (simp add: z)
qed

lemma filter_zip_fst:
  "length ts = length ps \<Longrightarrow>
   length (filter (\<lambda>(t, p). t = a) (zip ts ps)) = length (filter (\<lambda>t. t = a) ts)"
  by (induction ts ps rule: list_induct2) auto

lemma row_sum_count:
  assumes "length y_true = length y_pred"
  shows "row_sum y_true y_pred (sorted_list_of_set (set y_true \<union> set y_pred)) a
         = length (filter (\<lambda>t. t = a) y_true)"
proof -
  let ?S = "set y_true \<union> set y_pred"
  have fin: "finite ?S" by simp
  have sub: "snd ` set (zip y_true y_pred) \<subseteq> ?S"
    by (auto dest: set_zip_rightD)
  have "row_sum y_true y_pred (sorted_list_of_set ?S) a
        = (\<Sum>b\<in>?S. confusion y_true y_pred a b)"
    unfolding row_sum_def
    by (simp add: sum_list_distinct_conv_sum_set)
  also have "\<dots> = length (filter (\<lambda>(t, p). t = a) (zip y_true y_pred))"
    unfolding confusion_def by (rule confusion_row [OF fin sub])
  finally show ?thesis by (simp add: filter_zip_fst [OF assms])
qed

lemma count_pos: "filter (\<lambda>t. t = a) ts \<noteq> [] \<longleftrightarrow> a \<in> set ts"
  by (induction ts) auto

lemma balanced_accuracy_is_macro_recall:
  assumes "length y_true = length y_pred" and "y_true \<noteq> []"
  shows "balanced_accuracy_score y_true y_pred = Inr (macro_recall y_true y_pred)"
proof -
  let ?L = "sorted_list_of_set (set y_true \<union> set y_pred)"
  let ?kept = "filter (\<lambda>a. row_sum y_true y_pred ?L a \<noteq> 0) ?L"
  have kept: "?kept = filter (\<lambda>a. a \<in> set y_true) ?L"
    by (simp add: row_sum_count [OF assms(1)] count_pos)
  have dist: "distinct ?kept" by simp
  have set_kept: "set ?kept = set y_true"
    unfolding kept by auto
  have per: "map (\<lambda>a. of_nat (confusion y_true y_pred a a)
                       / of_nat (row_sum y_true y_pred ?L a)) ?kept
             = map (recall y_true y_pred) ?kept"
    by (simp add: row_sum_count [OF assms(1)] recall_def confusion_def)
  have sum: "sum_list (map (recall y_true y_pred) ?kept)
             = (\<Sum>a\<in>set y_true. recall y_true y_pred a)"
    using dist set_kept by (metis sum_list_distinct_conv_sum_set)
  have len: "length ?kept = card (set y_true)"
    using dist set_kept by (metis distinct_card)
  show ?thesis
    using assms
    unfolding balanced_accuracy_score_def Let_def macro_recall_def per
    by (simp only: sum len length_map if_False simp_thms)
qed

lemma measures_differ:
  "macro_recall [0, 1, 1, 1] [1, 1, 1, 1] = 1 / 2
   \<and> plain_accuracy [0, 1, 1, 1] [1, 1, 1, 1] = 3 / 4"
  by (simp add: macro_recall_def recall_def plain_accuracy_def)

text \<open>
  Claim C9. When \<open>predict(X)\<close> returns and the vector \<open>y\<close> and the predictions are class
  labels of the same positive number, \<open>score(X, y)\<close> returns the mean over the classes of
  \<open>y\<close> of the recall of \<open>predict(X)\<close> against \<open>y\<close>, in the state \<open>predict\<close> leaves. This
  is not the share of correct predictions: on labels 0, 1, 1, 1 predicted as 1, 1, 1, 1
  the first is 1/2 and the second 3/4.
\<close>

theorem score_is_balanced_accuracy:
  assumes "fst (predict C B X s) = Inr predList"
    and "labels y = Inr ts" and "labels predList = Inr ps"
    and "length ts = length ps" and "ts \<noteq> []"
  shows "score C B X y s = (Inr (macro_recall ts ps), snd (predict C B X s))
       \<and> macro_recall [0, 1, 1, 1] [1, 1, 1, 1] \<noteq> plain_accuracy [0, 1, 1, 1] [1, 1, 1, 1]"
proof -
  obtain s' where p: "predict C B X s = (Inr predList, s')"
    using assms(1) by (cases "predict C B X s") simp
  have "py_balanced_accuracy_score y predList = Inr (macro_recall ts ps)"
    using assms(2,3) balanced_accuracy_is_macro_recall [OF assms(4,5)]
    by (simp add: py_balanced_accuracy_score_def)
  then have "score C B X y s = (Inr (macro_recall ts ps), snd (predict C B X s))"
    using p by (simp add: score_def)
  moreover have
    "macro_recall [0, 1, 1, 1] [1, 1, 1, 1] \<noteq> plain_accuracy [0, 1, 1, 1] [1, 1, 1, 1]"
    using measures_differ by simp
  ultimately show ?thesis by blast
qed

lemma toy_predict:
  "fst (predict toy no_parse xor_X (fitted_estimator, toy_world))
   = Inr [PInt 1, PInt 1, PInt 1, PInt 1]"
  by (simp add: predict_def check_X_def xor_X_def load_def fitted_estimator_def estimator_def
      toy_world_def do_call_def do_prediction_def toy_def Let_def float_max_int_def
      split: prod.splits)

theorem score_is_balanced_accuracy_witness:
  "fst (predict toy no_parse xor_X (fitted_estimator, toy_world))
     = Inr [PInt 1, PInt 1, PInt 1, PInt 1]
   \<and> labels [PInt 0, PInt 1, PInt 1, PInt 1] = Inr [0, 1, 1, 1]
   \<and> labels [PInt 1, PInt 1, PInt 1, PInt 1] = Inr [1, 1, 1, 1]
   \<and> length [0, 1, 1, 1 :: int] = length [1, 1, 1, 1 :: int] \<and> [0, 1, 1, 1 :: int] \<noteq> []
   \<and> fst (score toy no_parse xor_X [PInt 0, PInt 1, PInt 1, PInt 1]
             (fitted_estimator, toy_world)) = Inr (1 / 2)"
proof -
  have a: "labels [PInt 0, PInt 1, PInt 1, PInt 1] = Inr [0, 1, 1, 1]" by simp
  have b: "labels [PInt 1, PInt 1, PInt 1, PInt 1] = Inr [1, 1, 1, 1]" by simp
  have c: "length [0, 1, 1, 1 :: int] = length [1, 1, 1, 1 :: int]" by simp
  have d: "[0, 1, 1, 1 :: int] \<noteq> []" by simp
  have "fst (score toy no_parse xor_X [PInt 0, PInt 1, PInt 1, PInt 1]
             (fitted_estimator, toy_world)) = Inr (macro_recall [0, 1, 1, 1] [1, 1, 1, 1])"
    using score_is_balanced_accuracy [OF toy_predict a b c d] by simp
  then show ?thesis
    using toy_predict a b c d measures_differ by simp
qed

section \<open>The stages of \<open>fit\<close>\<close>

text \<open>The ways through \<open>fit_train\<close> and through \<open>fit\<close>, one case for each outcome.\<close>

lemma fit_train_cases:
  assumes "fit_train C B f (m, g) = out"
  obtains (raise) ex where "out = (Inl ex, m, g)"
  | (skip) "out = fit_finish (m, g)"
  | (loop_raise) l li c e r ex m3 g3 where
      "load m g = Some l"
      "fit_loop C B (params m) f li c
         \<lparr> r_live = l, r_record = record_obj m, r_aveGenerality = 0 \<rparr> = (Some ex, e, r)"
      "store (r_live r) (m, g) = (m3, g3)"
      "out = (Inl ex, m3\<lparr> explorIter := Some (counter_obj e), record_obj := r_record r \<rparr>, g3)"
  | (loop_done) l li c e r m3 g3 where
      "load m g = Some l"
      "fit_loop C B (params m) f li c
         \<lparr> r_live = l, r_record = record_obj m, r_aveGenerality = 0 \<rparr> = (None, e, r)"
      "store (r_live r) (m, g) = (m3, g3)"
      "out = fit_finish (m3\<lparr> explorIter := Some (counter_obj e), record_obj := r_record r \<rparr>, g3)"
proof (cases "explorIter m")
  case None
  with assms have "out = (Inl AttributeError, m, g)" by (simp add: fit_train_def)
  then show ?thesis by (rule raise)
next
  case (Some e0)
  show ?thesis
  proof (cases "while_entry e0 (learningIterations (params m))")
    case (Raises ex)
    with assms Some have "out = (Inl ex, m, g)" by (simp add: fit_train_def)
    then show ?thesis by (rule raise)
  next
    case Skips
    with assms Some have "out = fit_finish (m, g)" by (simp add: fit_train_def)
    then show ?thesis by (rule skip)
  next
    case Beyond
    with assms Some have "out = (Inl NotModelled, m, g)" by (simp add: fit_train_def)
    then show ?thesis by (rule raise)
  next
    case (Enters c li)
    show ?thesis
    proof (cases "load m g")
      case None
      with assms Some Enters have "out = (Inl AttributeError, m, g)"
        by (simp add: fit_train_def)
      then show ?thesis by (rule raise)
    next
      case (Some l)
      obtain err e r where loop:
        "fit_loop C B (params m) f li c
           \<lparr> r_live = l, r_record = record_obj m, r_aveGenerality = 0 \<rparr> = (err, e, r)"
        by (metis prod_cases3)
      obtain m3 g3 where st: "store (r_live r) (m, g) = (m3, g3)"
        by (metis surj_pair)
      show ?thesis
      proof (cases err)
        case None
        with assms \<open>explorIter m = Some e0\<close> Enters Some loop st
        have "out = fit_finish
                (m3\<lparr> explorIter := Some (counter_obj e), record_obj := r_record r \<rparr>, g3)"
          by (simp add: fit_train_def)
        with Some loop st None show ?thesis by (auto intro: loop_done)
      next
        case (Some ex)
        with assms \<open>explorIter m = Some e0\<close> Enters \<open>load m g = Some l\<close> loop st
        have "out = (Inl ex, m3\<lparr> explorIter := Some (counter_obj e), record_obj := r_record r \<rparr>, g3)"
          by (simp add: fit_train_def)
        with \<open>load m g = Some l\<close> loop st Some show ?thesis by (auto intro: loop_raise)
      qed
    qed
  qed
qed

lemma fit_cases:
  assumes "fit C B X y (m, g) = out"
  obtains (trained) "hasTrained m"
      "out = (Inl (Exception ''Cannot train already trained model again''), m, g)"
  | (check) ex where "\<not> hasTrained m" "check_X_y B X y = Inl ex" "out = (Inl ex, m, g)"
  | (setup_raise) ex m1 g1 where "\<not> hasTrained m" "check_X_y B X y = Inr ()"
      "fit_setup C B X y (m, g) = (Inl ex, m1, g1)" "out = (Inl ex, m1, g1)"
  | (pop) f m1 g1 ex m2 g2 where "\<not> hasTrained m" "check_X_y B X y = Inr ()"
      "fit_setup C B X y (m, g) = (Inr f, m1, g1)"
      "fit_population C (m1, g1) = (Some ex, m2, g2)" "out = (Inl ex, m2, g2)"
  | (train) f m1 g1 m2 g2 where "\<not> hasTrained m" "check_X_y B X y = Inr ()"
      "fit_setup C B X y (m, g) = (Inr f, m1, g1)"
      "fit_population C (m1, g1) = (None, m2, g2)" "out = fit_train C B f (m2, g2)"
proof (cases "hasTrained m")
  case True
  with assms have "out = (Inl (Exception ''Cannot train already trained model again''), m, g)"
    by (simp add: fit_def)
  with True show ?thesis by (rule trained)
next
  case False
  show ?thesis
  proof (cases "check_X_y B X y")
    case (Inl ex)
    with assms False have "out = (Inl ex, m, g)" by (simp add: fit_def)
    with False Inl show ?thesis by (rule check)
  next
    case (Inr u)
    then have ok: "check_X_y B X y = Inr ()" by simp
    obtain a m1 g1 where su: "fit_setup C B X y (m, g) = (a, m1, g1)"
      by (metis prod_cases3)
    show ?thesis
    proof (cases a)
      case (Inl ex)
      with assms False ok su have "out = (Inl ex, m1, g1)" by (simp add: fit_def)
      with False ok su Inl show ?thesis by (auto intro: setup_raise)
    next
      case (Inr f)
      obtain r m2 g2 where po: "fit_population C (m1, g1) = (r, m2, g2)"
        by (metis prod_cases3)
      show ?thesis
      proof (cases r)
        case None
        with assms False ok su Inr po have "out = fit_train C B f (m2, g2)"
          by (simp add: fit_def)
        with False ok su Inr po None show ?thesis by (auto intro: train)
      next
        case (Some ex)
        with assms False ok su Inr po have "out = (Inl ex, m2, g2)"
          by (simp add: fit_def)
        with False ok su Inr po Some show ?thesis by (auto intro: pop)
      qed
    qed
  qed
qed

section \<open>Illegal states\<close>

lemma store_hasTrained: "store l (m, g) = (m', g') \<Longrightarrow> hasTrained m' = hasTrained m"
  by (auto simp: store_def)

lemma saveFinalMetrics_hasTrained:
  "saveFinalMetrics m = (r, m') \<Longrightarrow> hasTrained m' = hasTrained m"
  by (auto simp: saveFinalMetrics_def split: option.splits)

lemma rebootPopulation_hasTrained:
  "rebootPopulation C (m, g) = (r, m', g') \<Longrightarrow> hasTrained m' = hasTrained m"
  by (auto simp: rebootPopulation_def Let_def split: pyval.splits option.splits sum.splits)

lemma fit_setup_hasTrained:
  "fit_setup C B X y (m, g) = (f, m', g') \<Longrightarrow> hasTrained m' = hasTrained m"
  by (auto simp: fit_setup_def Let_def split: sum.splits)

lemma fit_population_hasTrained:
  "fit_population C (m, g) = (r, m', g') \<Longrightarrow> hasTrained m' = hasTrained m"
  by (auto simp: fit_population_def Let_def dest: rebootPopulation_hasTrained split: if_splits)

lemma fit_finish_raise_hasTrained:
  "fit_finish (m, g) = (Inl ex, m', g') \<Longrightarrow> hasTrained m' = hasTrained m"
  by (auto simp: fit_finish_def dest: saveFinalMetrics_hasTrained split: prod.splits option.splits)

lemma fit_train_raise_hasTrained:
  assumes "fit_train C B f (m, g) = (Inl ex, m', g')"
  shows "hasTrained m' = hasTrained m"
  using assms
proof (cases rule: fit_train_cases)
  case (raise ex)
  then show ?thesis by simp
next
  case skip
  then show ?thesis by (metis fit_finish_raise_hasTrained)
next
  case (loop_raise l li c e r ex m3 g3)
  from store_hasTrained [OF loop_raise(3)] loop_raise(4) show ?thesis by simp
next
  case (loop_done l li c e r m3 g3)
  from loop_done(4) [symmetric] have "hasTrained m'
      = hasTrained (m3\<lparr> explorIter := Some (counter_obj e), record_obj := r_record r \<rparr>)"
    by (rule fit_finish_raise_hasTrained)
  with store_hasTrained [OF loop_done(3)] show ?thesis by simp
qed

lemma fit_raise_hasTrained:
  assumes "fit C B X y (m, g) = (Inl ex, m', g')"
  shows "hasTrained m' = hasTrained m"
  using assms
proof (cases rule: fit_cases)
  case trained
  then show ?thesis by simp
next
  case (check ex)
  then show ?thesis by simp
next
  case (setup_raise ex m1 g1)
  with fit_setup_hasTrained [OF setup_raise(3)] show ?thesis by simp
next
  case (pop f m1 g1 ex m2 g2)
  with fit_setup_hasTrained [OF pop(3)] fit_population_hasTrained [OF pop(4)]
  show ?thesis by simp
next
  case (train f m1 g1 m2 g2)
  from train(5) [symmetric] have "hasTrained m' = hasTrained m2"
    by (rule fit_train_raise_hasTrained)
  with fit_setup_hasTrained [OF train(3)] fit_population_hasTrained [OF train(4)]
  show ?thesis by simp
qed

text \<open>
  Claim C4. \<open>fit\<close> on an estimator whose \<open>hasTrained\<close> is true raises and leaves the
  estimator, its population included, and the world as they were. Each of
  \<open>exportIterationTrackingData\<close>, \<open>exportFinalRulePopulation\<close>, \<open>getFinalAccuracy\<close> and
  \<open>getFinalInstanceCoverage\<close> raises, changing nothing, while \<open>hasTrained\<close> is false; and
  \<open>hasTrained\<close> stays false when \<open>fit\<close> raises, so it is false until a \<open>fit\<close> has completed.
\<close>

theorem illegal_state_raises:
  "(hasTrained m \<longrightarrow>
      fit C B X y (m, g)
        = (Inl (Exception ''Cannot train already trained model again''), m, g))
   \<and> (\<not> hasTrained m \<longrightarrow>
        exportIterationTrackingData C filename (m, g)
          = (Inl (Exception
              ''There is no tracking data to export, as the eLCS model has not been trained''), m, g)
      \<and> exportFinalRulePopulation C headerNames className filename DCAL (m, g)
          = (Inl (Exception
              ''There is no rule population to export, as the eLCS model has not been trained''), m, g)
      \<and> getFinalAccuracy C B (m, g)
          = (Inl (Exception
              ''There is no final training accuracy to return, as the XCS model has not been trained''), m, g)
      \<and> getFinalInstanceCoverage C (m, g)
          = (Inl (Exception
              ''There is no final instance coverage to return, as the eLCS model has not been trained''), m, g))
   \<and> (\<not> hasTrained m \<and> fit C B X y (m, g) = (Inl ex, m', g') \<longrightarrow> \<not> hasTrained m')"
proof (intro conjI impI)
  show "fit C B X y (m, g)
        = (Inl (Exception ''Cannot train already trained model again''), m, g)"
    if "hasTrained m"
    using that by (simp add: fit_def)
  show "\<not> hasTrained m'" if "\<not> hasTrained m \<and> fit C B X y (m, g) = (Inl ex, m', g')"
    using that fit_raise_hasTrained [of C B X y m g ex m' g'] by blast
qed (simp_all add: exportIterationTrackingData_def exportFinalRulePopulation_def
      getFinalAccuracy_def getFinalInstanceCoverage_def)

theorem illegal_state_raises_witness:
  "hasTrained ((estimator default_config)\<lparr> hasTrained := True \<rparr>)
   \<and> fit toy no_parse xor_X xor_y ((estimator default_config)\<lparr> hasTrained := True \<rparr>, toy_world)
       = (Inl (Exception ''Cannot train already trained model again''),
          (estimator default_config)\<lparr> hasTrained := True \<rparr>, toy_world)
   \<and> \<not> hasTrained (estimator default_config)
   \<and> getFinalAccuracy toy no_parse (estimator default_config, toy_world)
       = (Inl (Exception
           ''There is no final training accuracy to return, as the XCS model has not been trained''),
          estimator default_config, toy_world)
   \<and> fit toy no_parse [[PNone]] [] (estimator default_config, toy_world)
       = (Inl (Exception ''X and y must be fully numeric''), estimator default_config, toy_world)"
proof -
  have a: "hasTrained ((estimator default_config)\<lparr> hasTrained := True \<rparr>)" by simp
  have b: "\<not> hasTrained (estimator default_config)" by (simp add: estimator_def)
  have c: "fit toy no_parse [[PNone]] [] (estimator default_config, toy_world)
       = (Inl (Exception ''X and y must be fully numeric''), estimator default_config, toy_world)"
    using b by (simp add: fit_def check_X_y_def)
  note t1 = illegal_state_raises [where m = "(estimator default_config)\<lparr> hasTrained := True \<rparr>"
        and C = toy and B = no_parse and X = xor_X and y = xor_y and g = toy_world]
  note t2 = illegal_state_raises [where m = "estimator default_config" and C = toy
        and B = no_parse and g = toy_world]
  have p1: "fit toy no_parse xor_X xor_y ((estimator default_config)\<lparr> hasTrained := True \<rparr>, toy_world)
       = (Inl (Exception ''Cannot train already trained model again''),
          (estimator default_config)\<lparr> hasTrained := True \<rparr>, toy_world)"
    by (rule mp [OF conjunct1 [OF t1] a])
  have p2: "getFinalAccuracy toy no_parse (estimator default_config, toy_world)
       = (Inl (Exception
           ''There is no final training accuracy to return, as the XCS model has not been trained''),
          estimator default_config, toy_world)"
    using mp [OF conjunct1 [OF conjunct2 [OF t2]] b] by blast
  show ?thesis
    using a b c p1 p2 by blast
qed

section \<open>The input check of \<open>fit\<close>\<close>

lemma saveFinalMetrics_env: "saveFinalMetrics m = (r, m') \<Longrightarrow> env m' = env m"
  by (auto simp: saveFinalMetrics_def split: option.splits)

lemma rebootPopulation_env: "rebootPopulation C (m, g) = (r, m', g') \<Longrightarrow> env m' = env m"
  by (auto simp: rebootPopulation_def Let_def split: pyval.splits option.splits sum.splits)

lemma fit_setup_env: "fit_setup C B X y (m, g) = (f, m', g') \<Longrightarrow> env m' \<noteq> None"
  by (auto simp: fit_setup_def Let_def split: sum.splits)

lemma fit_population_env: "fit_population C (m, g) = (r, m', g') \<Longrightarrow> env m' = env m"
  by (auto simp: fit_population_def Let_def dest: rebootPopulation_env split: if_splits)

lemma fit_finish_env: "fit_finish (m, g) = (r, m', g') \<Longrightarrow> env m' = env m"
  by (auto simp: fit_finish_def dest: saveFinalMetrics_env split: prod.splits option.splits)

lemma store_env: "store l (m, g) = (m', g') \<Longrightarrow> env m' \<noteq> None"
  by (auto simp: store_def)

lemma fit_train_env:
  assumes "fit_train C B f (m, g) = (res, m', g')" and "env m \<noteq> None"
  shows "env m' \<noteq> None"
  using assms(1)
proof (cases rule: fit_train_cases)
  case (raise ex)
  with assms(2) show ?thesis by simp
next
  case skip
  from fit_finish_env [OF skip [symmetric]] assms(2) show ?thesis by simp
next
  case (loop_raise l li c e r ex m3 g3)
  from store_env [OF loop_raise(3)] loop_raise(4) show ?thesis by simp
next
  case (loop_done l li c e r m3 g3)
  from fit_finish_env [OF loop_done(4) [symmetric]] store_env [OF loop_done(3)]
  show ?thesis by simp
qed

lemma fit_creates_env:
  assumes "\<not> hasTrained m" and "check_X_y B X y = Inr ()"
  shows "env (fst (snd (fit C B X y (m, g)))) \<noteq> None"
proof -
  obtain res m' g' where out: "fit C B X y (m, g) = (res, m', g')"
    by (metis prod_cases3)
  from out have "env m' \<noteq> None"
  proof (cases rule: fit_cases)
    case trained
    with assms show ?thesis by simp
  next
    case (check ex)
    with assms show ?thesis by simp
  next
    case (setup_raise ex m1 g1)
    with fit_setup_env [OF setup_raise(3)] show ?thesis by simp
  next
    case (pop f m1 g1 ex m2 g2)
    with fit_setup_env [OF pop(3)] fit_population_env [OF pop(4)] show ?thesis by simp
  next
    case (train f m1 g1 m2 g2)
    have "env m2 \<noteq> None"
      using fit_setup_env [OF train(3)] fit_population_env [OF train(4)] by simp
    with train(5) [symmetric] show ?thesis by (rule fit_train_env)
  qed
  with out show ?thesis by simp
qed

text \<open>The parts of claim C3 that hold: a value of \<open>X\<close> that \<open>np.isnan\<close> or \<open>float\<close>
  refuses, or a value of \<open>y\<close> that \<open>float\<close> refuses, makes \<open>fit\<close> raise at entry and leaves
  the state as it was.\<close>

lemma check_row_raises:
  "v \<in> set row \<Longrightarrow> isl (np_isnan v) \<or> (np_isnan v = Inr False \<and> isl (py_float B v))
   \<Longrightarrow> isl (check_row B row)"
  by (induction row) (auto split: sum.splits bool.splits)

lemma check_rows_raises:
  "row \<in> set X \<Longrightarrow> isl (check_row B row) \<Longrightarrow> isl (check_rows B X)"
  by (induction X) (auto split: sum.splits)

lemma check_values_raises:
  "v \<in> set y \<Longrightarrow> isl (py_float B v) \<Longrightarrow> isl (check_values B y)"
  by (induction y) (auto split: sum.splits)

lemma check_X_y_raises:
  assumes "isl (check_rows B X) \<or> isl (check_values B y)"
  shows "check_X_y B X y = Inl (Exception ''X and y must be fully numeric'')"
  using assms by (auto simp: check_X_y_def split: sum.splits)

lemma fit_rejects_non_numeric:
  assumes "\<not> hasTrained m"
    and "(\<exists>row \<in> set X. \<exists>v \<in> set row.
            isl (np_isnan v) \<or> (np_isnan v = Inr False \<and> isl (py_float B v)))
         \<or> (\<exists>v \<in> set y. isl (py_float B v))"
  shows "fit C B X y (m, g) = (Inl (Exception ''X and y must be fully numeric''), m, g)"
proof -
  have "isl (check_rows B X) \<or> isl (check_values B y)"
    using assms(2)
  proof
    assume "\<exists>row \<in> set X. \<exists>v \<in> set row.
            isl (np_isnan v) \<or> (np_isnan v = Inr False \<and> isl (py_float B v))"
    then obtain row v where "row \<in> set X" "v \<in> set row"
      "isl (np_isnan v) \<or> (np_isnan v = Inr False \<and> isl (py_float B v))"
      by blast
    then have "isl (check_rows B X)"
      using check_rows_raises check_row_raises by blast
    then show ?thesis ..
  next
    assume "\<exists>v \<in> set y. isl (py_float B v)"
    then have "isl (check_values B y)"
      using check_values_raises by blast
    then show ?thesis ..
  qed
  then have "check_X_y B X y = Inl (Exception ''X and y must be fully numeric'')"
    by (rule check_X_y_raises)
  with assms(1) show ?thesis by (simp add: fit_def)
qed

text \<open>
  Claim C3 at the input \<open>X = [[0.0]]\<close>, \<open>y = [nan]\<close>: \<open>float(nan)\<close> does not raise, so the
  check at the head of \<open>fit\<close> lets a missing phenotype pass, and \<open>fit\<close> goes on to create
  the environment.
\<close>

theorem fit_accepts_nan_phenotype:
  "check_X_y B [[PFloat (Fin 0)]] [PFloat NaN] = Inr ()
   \<and> env (fst (snd (fit C B [[PFloat (Fin 0)]] [PFloat NaN] (m\<lparr> hasTrained := False \<rparr>, g))))
       \<noteq> None"
proof -
  have c: "check_X_y B [[PFloat (Fin 0)]] [PFloat NaN] = Inr ()"
    by (simp add: check_X_y_def)
  have "\<not> hasTrained (m\<lparr> hasTrained := False \<rparr>)" by simp
  from fit_creates_env [OF this c] c show ?thesis by blast
qed

section \<open>Snapshot and reboot: what is restored and what is recomputed\<close>

lemma foldl_numerosity:
  "foldl (\<lambda>n rule. n + numerosity rule) a rules = a + sum_list (map numerosity rules)"
  by (induction rules arbitrary: a) auto

lemma saveFinalMetrics_snapshot:
  assumes "saveFinalMetrics m0 = (None, m1)" and "finalMetrics m1 = Some snapshot"
  shows "\<exists>p0 t0. population m0 = Some p0 \<and> timer m0 = Some t0
           \<and> fm_learningIterations snapshot = learningIterations (params m0)
           \<and> fm_popSet snapshot = popSet p0
           \<and> fm_globalTime snapshot = globalTime t0
           \<and> fm_globalMatching snapshot = globalMatching t0
           \<and> fm_globalDeletion snapshot = globalDeletion t0
           \<and> fm_globalSubsumption snapshot = globalSubsumption t0
           \<and> fm_globalSelection snapshot = globalSelection t0
           \<and> fm_globalEvaluation snapshot = globalEvaluation t0"
  using assms by (auto simp: saveFinalMetrics_def split: option.splits)

lemma rebootPopulation_returns:
  assumes "rebootFilename (params m) = PStr name"
    and "g_pickles g name = Some snapshot"
    and "py_add (learningIterations (params m)) (fm_learningIterations snapshot) = Inr li"
    and "explorIter m = Some e"
    and "py_add e (fm_learningIterations snapshot) = Inr e'"
  shows "rebootPopulation C (m, g)
         = (None,
            m\<lparr> population := Some \<lparr> popSet = fm_popSet snapshot,
                  microPopSize = sum_list (map numerosity (fm_popSet snapshot)),
                  matchSet = [], correctSet = [] \<rparr>,
               timer := Some ((fst (newTimer C (g_outside g)))
                   \<lparr> globalAdd := Some (fm_globalTime snapshot),
                     globalMatching := fm_globalMatching snapshot,
                     globalDeletion := fm_globalDeletion snapshot,
                     globalSubsumption := fm_globalSubsumption snapshot,
                     globalGA := Some (fm_globalSelection snapshot),
                     globalEvaluation := fm_globalEvaluation snapshot \<rparr>),
               params := (params m)\<lparr> learningIterations := li \<rparr>,
               explorIter := Some e' \<rparr>,
            g\<lparr> g_outside := snd (newTimer C (g_outside g)) \<rparr>)"
  using assms
  by (simp add: rebootPopulation_def Let_def newClassifierSet_def foldl_numerosity)

text \<open>
  Claim C8, as stated, fails. A population saved with \<open>microPopSize = 999\<close> over two rules
  of numerosity 3 and 4 comes back with \<open>microPopSize = 7\<close>: the snapshot holds no
  \<open>microPopSize\<close>, and the reboot recomputes it. And the reboot does change something
  else: \<open>learningIterations\<close> goes from 10000 to 20000 and \<open>explorIter\<close> from 0 to 10000.
\<close>

theorem reboot_recomputes:
  "fst (saveFinalMetrics odd_estimator) = None
   \<and> g_pickles odd_world ''odd'' = finalMetrics (snd (saveFinalMetrics odd_estimator))
   \<and> map_option microPopSize (population odd_estimator) = Some 999
   \<and> learningIterations (params (rebooting_estimator ''odd'')) = PInt 10000
   \<and> explorIter (rebooting_estimator ''odd'') = Some (PInt 0)
   \<and> fst (rebootPopulation toy (rebooting_estimator ''odd'', odd_world)) = None
   \<and> map_option microPopSize
        (population (fst (snd (rebootPopulation toy (rebooting_estimator ''odd'', odd_world)))))
       = Some 7
   \<and> learningIterations
        (params (fst (snd (rebootPopulation toy (rebooting_estimator ''odd'', odd_world)))))
       = PInt 20000
   \<and> explorIter (fst (snd (rebootPopulation toy (rebooting_estimator ''odd'', odd_world))))
       = Some (PInt 10000)"
  by (simp add: rebootPopulation_def rebooting_estimator_def odd_world_def odd_estimator_def
      fitted_estimator_def estimator_def saveFinalMetrics_def toy_world_def toy_def
      toy_timer_def default_config_def newClassifierSet_def py_add_def Let_def)

text \<open>
  Claim C8, amended. Let the file that \<open>rebootFilename\<close> names hold a snapshot, let
  \<open>explorIter\<close> be set, and let the two additions of the snapshot's iteration count be
  defined. Then \<open>rebootPopulation\<close> returns, and the estimator is as before except for
  four attributes: the population is a new one with the \<open>popSet\<close> of the snapshot, with
  \<open>microPopSize\<close> recomputed as the sum of the numerosities over that \<open>popSet\<close> and with
  empty match and correct sets; the timer is a new one that carries the counters of the
  snapshot; \<open>learningIterations\<close> and \<open>explorIter\<close> are each increased by the iteration
  count of the snapshot. Outside the estimator only the clock is read. For a snapshot
  written by \<open>saveFinalMetrics\<close> the \<open>popSet\<close> is the one of the saved population, so that
  after the reboot the population holds the saved \<open>popSet\<close> and satisfies
  \<open>microPopSize = sum of numerosity over popSet\<close>, whatever \<open>microPopSize\<close> was saved.
\<close>

theorem reboot_frame:
  assumes "rebootFilename (params m) = PStr name"
    and "g_pickles g name = Some snapshot"
    and "py_add (learningIterations (params m)) (fm_learningIterations snapshot) = Inr li"
    and "explorIter m = Some e"
    and "py_add e (fm_learningIterations snapshot) = Inr e'"
  shows "rebootPopulation (C :: ('x, 'e, 'tp, 'ir, 'w, 'pr) collab) (m, g)
         = (None,
            m\<lparr> population := Some \<lparr> popSet = fm_popSet snapshot,
                  microPopSize = sum_list (map numerosity (fm_popSet snapshot)),
                  matchSet = [], correctSet = [] \<rparr>,
               timer := Some ((fst (newTimer C (g_outside g)))
                   \<lparr> globalAdd := Some (fm_globalTime snapshot),
                     globalMatching := fm_globalMatching snapshot,
                     globalDeletion := fm_globalDeletion snapshot,
                     globalSubsumption := fm_globalSubsumption snapshot,
                     globalGA := Some (fm_globalSelection snapshot),
                     globalEvaluation := fm_globalEvaluation snapshot \<rparr>),
               params := (params m)\<lparr> learningIterations := li \<rparr>,
               explorIter := Some e' \<rparr>,
            g\<lparr> g_outside := snd (newTimer C (g_outside g)) \<rparr>)
       \<and> (\<forall>(m0 :: ('x, 'e, 'tp, 'ir) elcs) m1.
            saveFinalMetrics m0 = (None, m1) \<and> finalMetrics m1 = Some snapshot \<longrightarrow>
            (\<exists>p0. population m0 = Some p0
               \<and> population (fst (snd (rebootPopulation C (m, g))))
                   = Some \<lparr> popSet = popSet p0,
                            microPopSize = sum_list (map numerosity (popSet p0)),
                            matchSet = [], correctSet = [] \<rparr>))"
proof (intro conjI allI impI)
  show r: "rebootPopulation C (m, g)
         = (None,
            m\<lparr> population := Some \<lparr> popSet = fm_popSet snapshot,
                  microPopSize = sum_list (map numerosity (fm_popSet snapshot)),
                  matchSet = [], correctSet = [] \<rparr>,
               timer := Some ((fst (newTimer C (g_outside g)))
                   \<lparr> globalAdd := Some (fm_globalTime snapshot),
                     globalMatching := fm_globalMatching snapshot,
                     globalDeletion := fm_globalDeletion snapshot,
                     globalSubsumption := fm_globalSubsumption snapshot,
                     globalGA := Some (fm_globalSelection snapshot),
                     globalEvaluation := fm_globalEvaluation snapshot \<rparr>),
               params := (params m)\<lparr> learningIterations := li \<rparr>,
               explorIter := Some e' \<rparr>,
            g\<lparr> g_outside := snd (newTimer C (g_outside g)) \<rparr>)"
    using assms by (rule rebootPopulation_returns)
  fix m0 m1 :: "('x, 'e, 'tp, 'ir) elcs"
  assume "saveFinalMetrics m0 = (None, m1) \<and> finalMetrics m1 = Some snapshot"
  then obtain p0 where "population m0 = Some p0" "fm_popSet snapshot = popSet p0"
    using saveFinalMetrics_snapshot by blast
  then show "\<exists>p0. population m0 = Some p0
               \<and> population (fst (snd (rebootPopulation C (m, g))))
                   = Some \<lparr> popSet = popSet p0,
                            microPopSize = sum_list (map numerosity (popSet p0)),
                            matchSet = [], correctSet = [] \<rparr>"
    by (simp add: r)
qed

lemma fitted_snapshot:
  "saveFinalMetrics fitted_estimator
   = (None, fitted_estimator\<lparr> finalMetrics := Some toy_snapshot \<rparr>)"
  by (simp add: saveFinalMetrics_def fitted_estimator_def estimator_def toy_snapshot_def
      toy_timer_def default_config_def)

theorem reboot_frame_witness:
  "rebootFilename (params (rebooting_estimator ''snap'')) = PStr ''snap''
   \<and> g_pickles snapshot_world ''snap'' = Some toy_snapshot
   \<and> py_add (learningIterations (params (rebooting_estimator ''snap'')))
        (fm_learningIterations toy_snapshot) = Inr (PInt 20000)
   \<and> explorIter (rebooting_estimator ''snap'') = Some (PInt 0)
   \<and> py_add (PInt 0) (fm_learningIterations toy_snapshot) = Inr (PInt 10000)
   \<and> saveFinalMetrics fitted_estimator
       = (None, fitted_estimator\<lparr> finalMetrics := Some toy_snapshot \<rparr>)
   \<and> fst (rebootPopulation toy (rebooting_estimator ''snap'', snapshot_world)) = None
   \<and> population (fst (snd (rebootPopulation toy (rebooting_estimator ''snap'', snapshot_world))))
       = Some \<lparr> popSet = [\<lparr> numerosity = 3, rule = () \<rparr>], microPopSize = 3,
                matchSet = [], correctSet = [] \<rparr>
   \<and> explorIter (fst (snd (rebootPopulation toy (rebooting_estimator ''snap'', snapshot_world))))
       = Some (PInt 10000)"
proof -
  have a: "rebootFilename (params (rebooting_estimator ''snap'')) = PStr ''snap''"
    by (simp add: rebooting_estimator_def estimator_def)
  have b: "g_pickles snapshot_world ''snap'' = Some toy_snapshot"
    by (simp add: snapshot_world_def fitted_snapshot)
  have c: "py_add (learningIterations (params (rebooting_estimator ''snap'')))
        (fm_learningIterations toy_snapshot) = Inr (PInt 20000)"
    by (simp add: rebooting_estimator_def estimator_def default_config_def toy_snapshot_def
        py_add_def)
  have d: "explorIter (rebooting_estimator ''snap'') = Some (PInt 0)"
    by (simp add: rebooting_estimator_def)
  have e: "py_add (PInt 0) (fm_learningIterations toy_snapshot) = Inr (PInt 10000)"
    by (simp add: toy_snapshot_def py_add_def)
  note t = reboot_frame [OF a b c d e, of toy]
  have f: "fst (rebootPopulation toy (rebooting_estimator ''snap'', snapshot_world)) = None"
    by (simp add: conjunct1 [OF t])
  have p: "population (fst (snd (rebootPopulation toy (rebooting_estimator ''snap'', snapshot_world))))
       = Some \<lparr> popSet = [\<lparr> numerosity = 3, rule = () \<rparr>], microPopSize = 3,
                matchSet = [], correctSet = [] \<rparr>"
    by (simp add: conjunct1 [OF t] toy_snapshot_def)
  have x: "explorIter (fst (snd (rebootPopulation toy (rebooting_estimator ''snap'', snapshot_world))))
       = Some (PInt 10000)"
    by (simp add: conjunct1 [OF t])
  from a b c d e fitted_snapshot f p x show ?thesis
    by blast
qed

section \<open>\<open>runIteration\<close> performs the iteration protocol\<close>

lemma do_call_calls [simp]: "l_calls (do_call C cfg c l) = l_calls l @ [c]"
  by (simp add: do_call_def)

lemma do_timer_calls [simp]: "l_calls (do_timer C t l) = l_calls l"
  by (simp add: do_timer_def)

lemma record_sizes_calls [simp]: "l_calls (record_sizes C l) = l_calls l"
  by (simp add: record_sizes_def)

lemma do_prediction_calls [simp]:
  "l_calls (snd (do_prediction C cfg l)) = l_calls l @ [NewPrediction]"
  by (simp add: do_prediction_def split: prod.splits)

lemma subsumption_step_calls:
  "l_calls (subsumption_step C cfg l)
   = l_calls l @ (if py_truth (doCorrectSetSubsumption cfg) then [DoCorrectSetSubsumption] else [])"
  by (simp add: subsumption_step_def)

lemma push_accuracy_calls: "push_accuracy v l = Inr l' \<Longrightarrow> l_calls l' = l_calls l"
  by (auto simp: push_accuracy_def split: sum.splits)

lemma track_accuracy_calls:
  "l_calls (snd (track_accuracy C B cfg y l)) = l_calls l @ [NewPrediction]"
proof -
  obtain pr l2 where p: "do_prediction C cfg (do_timer C StartTimeEvaluation l) = (pr, l2)"
    by (metis surj_pair)
  have l2: "l_calls l2 = l_calls l @ [NewPrediction]"
    using do_prediction_calls [of C cfg "do_timer C StartTimeEvaluation l"] p by simp
  show ?thesis
    using p l2
    by (auto simp: track_accuracy_def Let_def split: sum.splits dest: push_accuracy_calls)
qed

lemma do_timer_movingAvgCount [simp]: "l_movingAvgCount (do_timer C t l) = l_movingAvgCount l"
  by (simp add: do_timer_def)

lemma do_call_movingAvgCount [simp]: "l_movingAvgCount (do_call C cfg c l) = l_movingAvgCount l"
  by (simp add: do_call_def)

lemma do_prediction_movingAvgCount [simp]:
  "l_movingAvgCount (snd (do_prediction C cfg l)) = l_movingAvgCount l"
  by (simp add: do_prediction_def split: prod.splits)

lemma record_sizes_movingAvgCount [simp]:
  "l_movingAvgCount (record_sizes C l) = l_movingAvgCount l"
  by (simp add: record_sizes_def)

lemma subsumption_step_movingAvgCount [simp]:
  "l_movingAvgCount (subsumption_step C cfg l) = l_movingAvgCount l"
  by (simp add: subsumption_step_def)

lemma do_call_core [simp]: "l_core (do_call C cfg c l) = perform C cfg c (l_core l)"
  by (simp add: do_call_def)

lemma do_timer_core [simp]: "l_core (do_timer C t l) = l_core l"
  by (simp add: do_timer_def)

lemma record_sizes_core [simp]: "l_core (record_sizes C l) = with_sizes C (l_core l)"
  by (simp add: record_sizes_def)

lemma do_prediction_core [simp]:
  "l_core (snd (do_prediction C cfg l)) = snd (newPrediction C cfg (l_core l))"
  by (simp add: do_prediction_def split: prod.splits)

lemma do_prediction_fst [simp]:
  "fst (do_prediction C cfg l) = fst (newPrediction C cfg (l_core l))"
  by (simp add: do_prediction_def split: prod.splits)

lemma subsumption_step_core:
  "l_core (subsumption_step C cfg l)
   = (if py_truth (doCorrectSetSubsumption cfg)
      then perform C cfg DoCorrectSetSubsumption else (\<lambda>c. c)) (l_core l)"
  by (simp add: subsumption_step_def)

lemma do_call_window [simp]: "l_trackingAccuracy (do_call C cfg c l) = l_trackingAccuracy l"
  by (simp add: do_call_def)

lemma do_timer_window [simp]: "l_trackingAccuracy (do_timer C t l) = l_trackingAccuracy l"
  by (simp add: do_timer_def)

lemma record_sizes_window [simp]:
  "l_trackingAccuracy (record_sizes C l) = l_trackingAccuracy l"
  by (simp add: record_sizes_def)

lemma do_prediction_window [simp]:
  "l_trackingAccuracy (snd (do_prediction C cfg l)) = l_trackingAccuracy l"
  by (simp add: do_prediction_def split: prod.splits)

lemma subsumption_step_window [simp]:
  "l_trackingAccuracy (subsumption_step C cfg l) = l_trackingAccuracy l"
  by (simp add: subsumption_step_def)

text \<open>The accuracy block, on the learning state and the window.\<close>

lemma track_accuracy_effect:
  "(fst (track_accuracy C B cfg y l), l_core (snd (track_accuracy C B cfg y l)),
    l_trackingAccuracy (snd (track_accuracy C B cfg y l)))
   = (case newPrediction C cfg (l_core l) of
        (prediction, c2) \<Rightarrow>
          (case accuracy_sample C B y prediction c2 of
             Inl ex \<Rightarrow> (Some ex, c2, l_trackingAccuracy l)
           | Inr v \<Rightarrow>
               (case window_push v (l_movingAvgCount l) (l_trackingAccuracy l) of
                  Inl ex \<Rightarrow> (Some ex, c2, l_trackingAccuracy l)
                | Inr acc' \<Rightarrow> (None, c2, acc'))))"
proof -
  let ?l1 = "do_timer C StartTimeEvaluation l"
  obtain pr l2 where p: "do_prediction C cfg ?l1 = (pr, l2)"
    by (metis surj_pair)
  have pr: "pr = fst (newPrediction C cfg (l_core l))"
    using do_prediction_fst [of C cfg ?l1] p by simp
  have c2: "l_core l2 = snd (newPrediction C cfg (l_core l))"
    using do_prediction_core [of C cfg ?l1] p by simp
  have w2: "l_trackingAccuracy l2 = l_trackingAccuracy l"
    using do_prediction_window [of C cfg ?l1] p by simp
  have m2: "l_movingAvgCount l2 = l_movingAvgCount l"
    using do_prediction_movingAvgCount [of C cfg ?l1] p by simp
  show ?thesis
    using p pr c2 w2 m2
    by (auto simp: track_accuracy_def Let_def push_accuracy_def
        split: sum.splits prod.splits)
qed

lemma track_accuracy_movingAvgCount:
  "l_movingAvgCount (snd (track_accuracy C B cfg y l)) = l_movingAvgCount l"
proof -
  let ?l1 = "do_timer C StartTimeEvaluation l"
  obtain pr l2 where p: "do_prediction C cfg ?l1 = (pr, l2)"
    by (metis surj_pair)
  have m2: "l_movingAvgCount l2 = l_movingAvgCount l"
    using do_prediction_movingAvgCount [of C cfg ?l1] p by simp
  show ?thesis
    using p m2
    by (auto simp: track_accuracy_def Let_def push_accuracy_def split: sum.splits)
qed

text \<open>
  \<open>runIteration\<close> does to the learning state and the accuracy window what the iteration
  of the spec does, and raises when it raises.
\<close>

lemma runIteration_effect:
  "(fst (runIteration C B cfg sp it l), l_core (snd (runIteration C B cfg sp it l)),
    l_trackingAccuracy (snd (runIteration C B cfg sp it l)))
   = iteration C B cfg (l_movingAvgCount l) sp it (l_core l, l_trackingAccuracy l)"
proof -
  let ?l2 = "do_call C cfg (MakeMatchSet sp it)
               (l\<lparr> l_core := (l_core l)\<lparr> c_trackingObj := resetAll \<rparr> \<rparr>)"
  have c2: "l_core ?l2 = matched C cfg sp it (l_core l)"
    by (simp add: matched_def)
  have w2: "l_trackingAccuracy ?l2 = l_trackingAccuracy l" by simp
  have m2: "l_movingAvgCount ?l2 = l_movingAvgCount l" by simp
  show ?thesis
  proof (cases "py_truth (trackAccuracyWhileFit cfg)")
    case False
    then show ?thesis
      by (simp add: runIteration_def iteration_def after_protocol_def Let_def
          subsumption_step_core matched_def)
  next
    case True
    obtain err l3 where t: "track_accuracy C B cfg (snd sp) ?l2 = (err, l3)"
      by (metis surj_pair)
    have e: "(err, l_core l3, l_trackingAccuracy l3)
       = (case newPrediction C cfg (matched C cfg sp it (l_core l)) of
            (prediction, c2) \<Rightarrow>
              (case accuracy_sample C B (snd sp) prediction c2 of
                 Inl ex \<Rightarrow> (Some ex, c2, l_trackingAccuracy l)
               | Inr v \<Rightarrow>
                   (case window_push v (l_movingAvgCount l) (l_trackingAccuracy l) of
                      Inl ex \<Rightarrow> (Some ex, c2, l_trackingAccuracy l)
                    | Inr acc' \<Rightarrow> (None, c2, acc'))))"
      using track_accuracy_effect [of C B cfg "snd sp" ?l2]
      unfolding t c2 w2 m2 fst_conv snd_conv .
    show ?thesis
    proof (cases err)
      case None
      with e True t show ?thesis
        by (auto simp: runIteration_def iteration_def after_protocol_def Let_def
            subsumption_step_core split: prod.splits sum.splits)
    next
      case (Some ex)
      with e True t show ?thesis
        by (auto simp: runIteration_def iteration_def Let_def split: prod.splits sum.splits)
    qed
  qed
qed

lemma runIteration_movingAvgCount:
  "l_movingAvgCount (snd (runIteration C B cfg sp it l)) = l_movingAvgCount l"
proof -
  let ?l2 = "do_call C cfg (MakeMatchSet sp it)
               (l\<lparr> l_core := (l_core l)\<lparr> c_trackingObj := resetAll \<rparr> \<rparr>)"
  have m2: "l_movingAvgCount ?l2 = l_movingAvgCount l" by simp
  obtain err l3 where t: "track_accuracy C B cfg (snd sp) ?l2 = (err, l3)"
    by (metis surj_pair)
  have m3: "l_movingAvgCount l3 = l_movingAvgCount l"
    using track_accuracy_movingAvgCount [of C B cfg "snd sp" ?l2] t m2 by simp
  show ?thesis
    using t m3 m2
    by (cases err; cases "py_truth (trackAccuracyWhileFit cfg)")
       (simp_all add: runIteration_def Let_def)
qed

lemma runIteration_trace:
  "(fst (runIteration C B cfg sp it l) = None \<longrightarrow>
      l_calls (snd (runIteration C B cfg sp it l)) = l_calls l @ protocol cfg sp it)
   \<and> (fst (runIteration C B cfg sp it l) \<noteq> None \<longrightarrow>
        l_calls (snd (runIteration C B cfg sp it l))
        = l_calls l @ [MakeMatchSet sp it, NewPrediction])"
proof -
  let ?l2 = "do_call C cfg (MakeMatchSet sp it)
               (l\<lparr> l_core := (l_core l)\<lparr> c_trackingObj := resetAll \<rparr> \<rparr>)"
  have l2: "l_calls ?l2 = l_calls l @ [MakeMatchSet sp it]" by simp
  show ?thesis
  proof (cases "py_truth (trackAccuracyWhileFit cfg)")
    case False
    then show ?thesis
      by (simp add: runIteration_def Let_def protocol_def subsumption_step_calls)
  next
    case True
    obtain err l3 where t: "track_accuracy C B cfg (snd sp) ?l2 = (err, l3)"
      by (metis surj_pair)
    have l3: "l_calls l3 = l_calls l @ [MakeMatchSet sp it, NewPrediction]"
      using track_accuracy_calls [of C B cfg "snd sp" ?l2] t l2 by simp
    show ?thesis
    proof (cases err)
      case None
      with True t l3 show ?thesis
        by (simp add: runIteration_def Let_def protocol_def subsumption_step_calls)
    next
      case (Some ex)
      with True t l3 show ?thesis
        by (auto simp: runIteration_def Let_def)
    qed
  qed
qed

lemma iteration_untracked:
  assumes "\<not> py_truth (trackAccuracyWhileFit cfg)"
  shows "iteration C B cfg mov sp it (c, acc)
         = (None, after_protocol C cfg sp it (matched C cfg sp it c), acc)"
  using assms by (simp add: iteration_def Let_def)



section \<open>\<open>predict\<close> and \<open>predict_proba\<close>, row by row\<close>

lemma row_core:
  "l_core (do_call C cfg ClearSets
            (snd (do_prediction C cfg (do_call C cfg (MakeEvalMatchSet state) l))))
   = after_eval_row C cfg (l_core l) state"
  by (simp add: after_eval_row_def)

lemma row_calls:
  "l_calls (do_call C cfg ClearSets
             (snd (do_prediction C cfg (do_call C cfg (MakeEvalMatchSet state) l))))
   = l_calls l @ [MakeEvalMatchSet state, NewPrediction, ClearSets]"
  by simp

lemma predict_rows_Cons:
  "predict_rows C cfg (state # rest) l
   = (getDecision C (eval_row C cfg (l_core l) state)
        # fst (predict_rows C cfg rest
                 (do_call C cfg ClearSets
                    (snd (do_prediction C cfg (do_call C cfg (MakeEvalMatchSet state) l))))),
      snd (predict_rows C cfg rest
             (do_call C cfg ClearSets
                (snd (do_prediction C cfg (do_call C cfg (MakeEvalMatchSet state) l))))))"
proof -
  obtain pr l2 where p: "do_prediction C cfg (do_call C cfg (MakeEvalMatchSet state) l) = (pr, l2)"
    by (metis surj_pair)
  have "pr = eval_row C cfg (l_core l) state"
    using do_prediction_fst [of C cfg "do_call C cfg (MakeEvalMatchSet state) l"] p
    by (simp add: eval_row_def)
  with p show ?thesis
    by (simp add: Let_def split: prod.splits)
qed

lemma predict_rows_core:
  "l_core (snd (predict_rows C cfg X l)) = foldl (after_eval_row C cfg) (l_core l) X"
  by (induction X arbitrary: l)
    (simp_all add: predict_rows_Cons row_core del: predict_rows.simps(2) do_call_core)

lemma predict_rows_calls:
  "l_calls (snd (predict_rows C cfg X l)) = l_calls l @ eval_protocol X"
  by (induction X arbitrary: l)
    (simp_all add: predict_rows_Cons eval_protocol_def del: predict_rows.simps(2))

lemma predict_rows_length: "length (fst (predict_rows C cfg X l)) = length X"
  by (induction X arbitrary: l) (simp_all add: predict_rows_Cons del: predict_rows.simps(2))

lemma predict_rows_nth:
  "i < length X \<Longrightarrow>
   fst (predict_rows C cfg X l) ! i
   = getDecision C (eval_row C cfg (foldl (after_eval_row C cfg) (l_core l) (take i X)) (X ! i))"
proof (induction X arbitrary: l i)
  case Nil
  then show ?case by simp
next
  case (Cons state rest)
  show ?case
  proof (cases i)
    case 0
    then show ?thesis by (simp add: predict_rows_Cons del: predict_rows.simps(2))
  next
    case (Suc j)
    with Cons.prems have "j < length rest" by simp
    from Cons.IH [OF this] Suc show ?thesis
      by (simp add: predict_rows_Cons row_core del: predict_rows.simps(2) do_call_core)
  qed
qed

lemma predict_rows_map:
  "fst (predict_rows C cfg X l)
   = map (\<lambda>i. getDecision C
                (eval_row C cfg (foldl (after_eval_row C cfg) (l_core l) (take i X)) (X ! i)))
       [0 ..< length X]"
  by (rule nth_equalityI) (simp_all add: predict_rows_length predict_rows_nth)

lemma predict_proba_rows_Cons:
  "predict_proba_rows C cfg (state # rest) l
   = (getProbabilities C (eval_row C cfg (l_core l) state)
        # fst (predict_proba_rows C cfg rest
                 (do_call C cfg ClearSets
                    (snd (do_prediction C cfg (do_call C cfg (MakeEvalMatchSet state) l))))),
      snd (predict_proba_rows C cfg rest
             (do_call C cfg ClearSets
                (snd (do_prediction C cfg (do_call C cfg (MakeEvalMatchSet state) l))))))"
proof -
  obtain pr l2 where p: "do_prediction C cfg (do_call C cfg (MakeEvalMatchSet state) l) = (pr, l2)"
    by (metis surj_pair)
  have "pr = eval_row C cfg (l_core l) state"
    using do_prediction_fst [of C cfg "do_call C cfg (MakeEvalMatchSet state) l"] p
    by (simp add: eval_row_def)
  with p show ?thesis
    by (simp add: Let_def split: prod.splits)
qed

lemma predict_proba_rows_core:
  "l_core (snd (predict_proba_rows C cfg X l)) = foldl (after_eval_row C cfg) (l_core l) X"
  by (induction X arbitrary: l)
    (simp_all add: predict_proba_rows_Cons row_core
      del: predict_proba_rows.simps(2) do_call_core)

lemma predict_proba_rows_calls:
  "l_calls (snd (predict_proba_rows C cfg X l)) = l_calls l @ eval_protocol X"
  by (induction X arbitrary: l)
    (simp_all add: predict_proba_rows_Cons eval_protocol_def del: predict_proba_rows.simps(2))

lemma predict_proba_rows_length: "length (fst (predict_proba_rows C cfg X l)) = length X"
  by (induction X arbitrary: l)
    (simp_all add: predict_proba_rows_Cons del: predict_proba_rows.simps(2))

lemma predict_proba_rows_nth:
  "i < length X \<Longrightarrow>
   fst (predict_proba_rows C cfg X l) ! i
   = getProbabilities C
       (eval_row C cfg (foldl (after_eval_row C cfg) (l_core l) (take i X)) (X ! i))"
proof (induction X arbitrary: l i)
  case Nil
  then show ?case by simp
next
  case (Cons state rest)
  show ?case
  proof (cases i)
    case 0
    then show ?thesis by (simp add: predict_proba_rows_Cons del: predict_proba_rows.simps(2))
  next
    case (Suc j)
    with Cons.prems have "j < length rest" by simp
    from Cons.IH [OF this] Suc show ?thesis
      by (simp add: predict_proba_rows_Cons row_core
          del: predict_proba_rows.simps(2) do_call_core)
  qed
qed

lemma predict_proba_rows_map:
  "fst (predict_proba_rows C cfg X l)
   = map (\<lambda>i. getProbabilities C
                (eval_row C cfg (foldl (after_eval_row C cfg) (l_core l) (take i X)) (X ! i)))
       [0 ..< length X]"
  by (rule nth_equalityI) (simp_all add: predict_proba_rows_length predict_proba_rows_nth)

lemma load_calls: "load m g = Some l \<Longrightarrow> l_calls l = g_calls g"
  by (auto simp: load_def split: option.splits)

lemma load_population: "load m g = Some l \<Longrightarrow> population m = Some (c_population (l_core l))"
  by (auto simp: load_def split: option.splits)

lemma store_calls: "g_calls (snd (store l s)) = l_calls l"
  by (cases s) (simp add: store_def)

lemma store_population: "population (fst (store l s)) = Some (c_population (l_core l))"
  by (cases s) (simp add: store_def)

lemma predict_loaded:
  assumes "check_X B X = Inr ()" and "load m g = Some l"
  shows "fst (predict C B X (m, g)) = Inr (fst (predict_rows C (params m) X l))"
    and "g_calls (snd (snd (predict C B X (m, g)))) = g_calls g @ eval_protocol X"
    and "population (fst (snd (predict C B X (m, g))))
         = Some (c_population (foldl (after_eval_row C (params m)) (l_core l) X))"
proof -
  show "fst (predict C B X (m, g)) = Inr (fst (predict_rows C (params m) X l))"
    using assms by (cases "X = []") (auto simp: predict_def split: prod.splits)
  have s: "snd (predict C B X (m, g)) = store (snd (predict_rows C (params m) X l)) (m, g)"
    if "X \<noteq> []"
    using assms that by (auto simp: predict_def split: prod.splits)
  show "g_calls (snd (snd (predict C B X (m, g)))) = g_calls g @ eval_protocol X"
  proof (cases "X = []")
    case True
    with assms show ?thesis by (simp add: predict_def eval_protocol_def)
  next
    case False
    from s [OF False] show ?thesis
      using load_calls [OF assms(2)] by (simp add: store_calls predict_rows_calls)
  qed
  show "population (fst (snd (predict C B X (m, g))))
         = Some (c_population (foldl (after_eval_row C (params m)) (l_core l) X))"
  proof (cases "X = []")
    case True
    with assms load_population [OF assms(2)] show ?thesis by (simp add: predict_def)
  next
    case False
    from s [OF False] show ?thesis
      by (simp add: store_population predict_rows_core)
  qed
qed

lemma predict_proba_loaded:
  assumes "check_X B X = Inr ()" and "load m g = Some l"
  shows "fst (predict_proba C B X (m, g)) = Inr (fst (predict_proba_rows C (params m) X l))"
    and "g_calls (snd (snd (predict_proba C B X (m, g)))) = g_calls g @ eval_protocol X"
    and "population (fst (snd (predict_proba C B X (m, g))))
         = Some (c_population (foldl (after_eval_row C (params m)) (l_core l) X))"
proof -
  show "fst (predict_proba C B X (m, g)) = Inr (fst (predict_proba_rows C (params m) X l))"
    using assms by (cases "X = []") (auto simp: predict_proba_def split: prod.splits)
  have s: "snd (predict_proba C B X (m, g))
           = store (snd (predict_proba_rows C (params m) X l)) (m, g)"
    if "X \<noteq> []"
    using assms that by (auto simp: predict_proba_def split: prod.splits)
  show "g_calls (snd (snd (predict_proba C B X (m, g)))) = g_calls g @ eval_protocol X"
  proof (cases "X = []")
    case True
    with assms show ?thesis by (simp add: predict_proba_def eval_protocol_def)
  next
    case False
    from s [OF False] show ?thesis
      using load_calls [OF assms(2)] by (simp add: store_calls predict_proba_rows_calls)
  qed
  show "population (fst (snd (predict_proba C B X (m, g))))
         = Some (c_population (foldl (after_eval_row C (params m)) (l_core l) X))"
  proof (cases "X = []")
    case True
    with assms load_population [OF assms(2)] show ?thesis by (simp add: predict_proba_def)
  next
    case False
    from s [OF False] show ?thesis
      by (simp add: store_population predict_proba_rows_core)
  qed
qed

text \<open>When a row leaves the learning state as it found it, so do all rows.\<close>

lemma restored_foldl:
  "eval_restores C cfg c \<Longrightarrow> foldl (after_eval_row C cfg) c X = c"
  by (induction X) (simp_all add: eval_restores_def)

lemma map_index: "map (\<lambda>i. f (X ! i)) [0 ..< length X] = map f X"
  by (rule nth_equalityI) simp_all


lemma load_fitted: "load fitted_estimator toy_world = Some toy_live"
  by (simp add: load_def fitted_estimator_def estimator_def toy_world_def toy_live_def)

lemma check_xor: "check_X no_parse xor_X = Inr ()"
  by (simp add: check_X_def xor_X_def float_max_int_def)

lemma toy_restores: "eval_restores toy (params fitted_estimator) (l_core toy_live)"
  by (simp add: eval_restores_def after_eval_row_def toy_def toy_live_def)


section \<open>The training loop of \<open>fit\<close>\<close>

lemma mean_accuracy_ok: "\<exists>a. mean_accuracy acc = Inr a"
  by (cases "foldl fl_add (Fin 0) acc") (auto simp: mean_accuracy_def)

text \<open>One pass of the loop body, on the learning state and the accuracy window.\<close>

lemma fit_iteration_effect:
  assumes "f \<noteq> 0"
  shows "(fst (fit_iteration C B cfg f e r),
          l_core (r_live (snd (fit_iteration C B cfg f e r))),
          l_trackingAccuracy (r_live (snd (fit_iteration C B cfg f e r))))
         = training_pass C B cfg (l_movingAvgCount (r_live r)) (counter_obj e)
             (l_core (r_live r), l_trackingAccuracy (r_live r))"
proof -
  let ?l0 = "(r_live r)\<lparr> l_calls := l_calls (r_live r) @ [GetTrainInstance] \<rparr>"
  let ?sp = "getTrainInstance C (c_env (l_core (r_live r)))"
  let ?it = "iteration C B cfg (l_movingAvgCount (r_live r)) ?sp (counter_obj e)
               (l_core (r_live r), l_trackingAccuracy (r_live r))"
  obtain err l1 where ri: "runIteration C B cfg ?sp (counter_obj e) ?l0 = (err, l1)"
    by (metis surj_pair)
  have e: "?it = (err, l_core l1, l_trackingAccuracy l1)"
    using runIteration_effect [of C B cfg ?sp "counter_obj e" ?l0] ri by simp
  show ?thesis
  proof (cases err)
    case (Some ex)
    with ri have "fit_iteration C B cfg f e r = (Some ex, r\<lparr> r_live := l1 \<rparr>)"
      by (simp add: fit_iteration_def Let_def)
    with e Some show ?thesis
      by (simp add: training_pass_def)
  next
    case None
    obtain a where a: "mean_accuracy (l_trackingAccuracy l1) = Inr a"
      using mean_accuracy_ok by blast
    from None ri a assms
    have "fst (fit_iteration C B cfg f e r) = None
        \<and> l_core (r_live (snd (fit_iteration C B cfg f e r)))
            = perform C cfg NewInstance (l_core l1)
        \<and> l_trackingAccuracy (r_live (snd (fit_iteration C B cfg f e r)))
            = l_trackingAccuracy l1"
      by (simp add: fit_iteration_def Let_def)
    with e None show ?thesis
      by (simp add: training_pass_def)
  qed
qed

lemma fit_iteration_movingAvgCount:
  "l_movingAvgCount (r_live (snd (fit_iteration C B cfg f e r))) = l_movingAvgCount (r_live r)"
proof -
  let ?l0 = "(r_live r)\<lparr> l_calls := l_calls (r_live r) @ [GetTrainInstance] \<rparr>"
  let ?sp = "getTrainInstance C (c_env (l_core (r_live r)))"
  obtain err l1 where ri: "runIteration C B cfg ?sp (counter_obj e) ?l0 = (err, l1)"
    by (metis surj_pair)
  have m: "l_movingAvgCount l1 = l_movingAvgCount (r_live r)"
    using runIteration_movingAvgCount [of C B cfg ?sp "counter_obj e" ?l0] ri by simp
  obtain a where a: "mean_accuracy (l_trackingAccuracy l1) = Inr a"
    using mean_accuracy_ok by blast
  from ri m a show ?thesis
    by (cases err) (simp_all add: fit_iteration_def Let_def)
qed

text \<open>The loop from an integer counter \<open>e\<close> to an integer bound \<open>b\<close>.\<close>

lemma fit_loop_int:
  assumes "f \<noteq> 0"
  shows "(fst (fit_loop C B cfg f (of_int b) (IntC e) r),
          l_core (r_live (snd (snd (fit_loop C B cfg f (of_int b) (IntC e) r)))),
          l_trackingAccuracy (r_live (snd (snd (fit_loop C B cfg f (of_int b) (IntC e) r)))))
         = training_passes C B cfg (l_movingAvgCount (r_live r)) (nat (b - e)) e
             (l_core (r_live r), l_trackingAccuracy (r_live r))
       \<and> (fst (fit_loop C B cfg f (of_int b) (IntC e) r) = None \<longrightarrow>
            fst (snd (fit_loop C B cfg f (of_int b) (IntC e) r)) = IntC (max e b))"
proof (induction "nat (b - e)" arbitrary: e r)
  case 0
  then have "\<not> e < b" by simp
  then have "fit_loop C B cfg f (of_int b) (IntC e) r = (None, IntC e, r)"
    by (simp add: fit_loop.simps [of C B cfg f "of_int b" "IntC e" r])
  with 0 \<open>\<not> e < b\<close> show ?case by (simp add: max_def)
next
  case (Suc j)
  then have lt: "e < b" and j: "j = nat (b - (e + 1))" and n: "nat (b - e) = Suc j"
    by simp_all
  obtain err r' where fi: "fit_iteration C B cfg f (IntC e) r = (err, r')"
    by (metis surj_pair)
  have p: "training_pass C B cfg (l_movingAvgCount (r_live r)) (PInt e)
             (l_core (r_live r), l_trackingAccuracy (r_live r))
           = (err, l_core (r_live r'), l_trackingAccuracy (r_live r'))"
    using fit_iteration_effect [OF assms, of C B cfg "IntC e" r] fi by simp
  have m: "l_movingAvgCount (r_live r') = l_movingAvgCount (r_live r)"
    using fit_iteration_movingAvgCount [of C B cfg f "IntC e" r] fi by simp
  show ?case
  proof (cases err)
    case (Some ex)
    with fi lt have "fit_loop C B cfg f (of_int b) (IntC e) r = (Some ex, IntC e, r')"
      by (simp add: fit_loop.simps [of C B cfg f "of_int b" "IntC e" r])
    with p Some n show ?thesis by simp
  next
    case None
    with fi lt have u: "fit_loop C B cfg f (of_int b) (IntC e) r
        = fit_loop C B cfg f (of_int b) (IntC (e + 1)) r'"
      by (simp add: fit_loop.simps [of C B cfg f "of_int b" "IntC e" r])
    from lt have mx: "max (e + 1) b = max e b" by simp
    from j have j': "nat (b - (e + 1)) = j" by simp
    from Suc.hyps(1) [OF j, of r'] p None n m mx j' show ?thesis
      unfolding u by simp
  qed
qed


lemma trunc_nonneg: "0 \<le> r \<Longrightarrow> 0 \<le> trunc r"
  by (simp add: trunc_def)

lemma fit_setup_int:
  assumes "learningIterations (params m) = PInt n" and "0 \<le> n" and "n < 20 * float_max_int"
  shows "fit_setup C B X y (m, g)
         = (Inr (min (numTrainInstances C (fst (newEnv C X y (params m) (g_rngs g))))
                     (trunc (of_int n / 20) + 1)),
            m\<lparr> env := Some (fst (newEnv C X y (params m) (g_rngs g))),
               explorIter := Some (PInt 0), trackingAccuracy := Some [],
               movingAvgCount := Some 50 \<rparr>,
            g\<lparr> g_rngs := snd (newEnv C X y (params m) (g_rngs g)) \<rparr>)"
  using assms by (simp add: fit_setup_def Let_def int_div_20_plus_1_def)

lemma freq_nonzero:
  assumes "0 \<le> n" and "k \<noteq> 0"
  shows "min k (trunc (of_int n / 20) + 1) \<noteq> 0"
proof -
  have "0 \<le> trunc (of_int n / 20)"
    using assms(1) by (intro trunc_nonneg) simp
  with assms(2) show ?thesis by (simp add: min_def)
qed

lemma fit_population_start:
  assumes "training_start (params m1) (g_pickles g1) = Some (k, p0)"
    and "learningIterations (params m1) = PInt n"
    and "explorIter m1 = Some (PInt 0)"
  shows "\<exists>t w. fit_population C (m1, g1)
           = (None,
              m1\<lparr> population := Some p0, timer := Some t,
                  params := (params m1)\<lparr> learningIterations := PInt (n + k) \<rparr>,
                  explorIter := Some (PInt k) \<rparr>,
              g1\<lparr> g_outside := w \<rparr>)"
proof (cases "rebootFilename (params m1) = PNone")
  case True
  with assms(1) have k: "k = 0" and p: "p0 = newClassifierSet"
    by (simp_all add: training_start_def newClassifierSet_def)
  have "(params m1)\<lparr> learningIterations := PInt (n + k) \<rparr> = params m1"
    using assms(2) k by simp
  then have eq: "m1\<lparr> population := Some p0, timer := Some (fst (newTimer C (g_outside g1))),
                  params := (params m1)\<lparr> learningIterations := PInt (n + k) \<rparr>,
                  explorIter := Some (PInt k) \<rparr>
       = m1\<lparr> timer := Some (fst (newTimer C (g_outside g1))),
             population := Some newClassifierSet \<rparr>"
    using assms(3) k p by simp
  have "fit_population C (m1, g1)
        = (None,
           m1\<lparr> timer := Some (fst (newTimer C (g_outside g1))),
               population := Some newClassifierSet \<rparr>,
           g1\<lparr> g_outside := snd (newTimer C (g_outside g1)) \<rparr>)"
    using True by (simp add: fit_population_def Let_def)
  then have "fit_population C (m1, g1)
        = (None,
           m1\<lparr> population := Some p0, timer := Some (fst (newTimer C (g_outside g1))),
               params := (params m1)\<lparr> learningIterations := PInt (n + k) \<rparr>,
               explorIter := Some (PInt k) \<rparr>,
           g1\<lparr> g_outside := snd (newTimer C (g_outside g1)) \<rparr>)"
    by (simp only: eq)
  then show ?thesis by blast
next
  case False
  with assms(1) obtain name snapshot where
    name: "rebootFilename (params m1) = PStr name"
    and fl: "g_pickles g1 name = Some snapshot"
    and cnt: "fm_learningIterations snapshot = PInt k"
    and p: "p0 = \<lparr> popSet = fm_popSet snapshot,
                    microPopSize = sum_list (map numerosity (fm_popSet snapshot)),
                    matchSet = [], correctSet = [] \<rparr>"
    by (auto simp: training_start_def split: pyval.splits option.splits)
  have li: "py_add (learningIterations (params m1)) (fm_learningIterations snapshot)
            = Inr (PInt (n + k))"
    using assms(2) cnt by (simp add: py_add_def)
  have e: "py_add (PInt 0) (fm_learningIterations snapshot) = Inr (PInt k)"
    using cnt by (simp add: py_add_def)
  have "fit_population C (m1, g1) = rebootPopulation C (m1, g1)"
    using False by (simp add: fit_population_def)
  with rebootPopulation_returns [OF name fl li assms(3) e, of C] p
  have "fit_population C (m1, g1)
        = (None,
           m1\<lparr> population := Some p0,
               timer := Some ((fst (newTimer C (g_outside g1)))
                   \<lparr> globalAdd := Some (fm_globalTime snapshot),
                     globalMatching := fm_globalMatching snapshot,
                     globalDeletion := fm_globalDeletion snapshot,
                     globalSubsumption := fm_globalSubsumption snapshot,
                     globalGA := Some (fm_globalSelection snapshot),
                     globalEvaluation := fm_globalEvaluation snapshot \<rparr>),
               params := (params m1)\<lparr> learningIterations := PInt (n + k) \<rparr>,
               explorIter := Some (PInt k) \<rparr>,
           g1\<lparr> g_outside := snd (newTimer C (g_outside g1)) \<rparr>)"
    by simp
  then show ?thesis by blast
qed

lemma fit_finish_ok:
  assumes "timer m = Some t" and "population m = Some p"
  shows "fst (fit_finish (m, g)) = Inr ()"
    and "hasTrained (fst (snd (fit_finish (m, g))))"
    and "explorIter (fst (snd (fit_finish (m, g)))) = explorIter m"
    and "population (fst (snd (fit_finish (m, g)))) = population m"
    and "env (fst (snd (fit_finish (m, g)))) = env m"
    and "trackingObj (fst (snd (fit_finish (m, g)))) = trackingObj m"
    and "trackingAccuracy (fst (snd (fit_finish (m, g)))) = trackingAccuracy m"
    and "snd (snd (fit_finish (m, g))) = g"
  using assms by (simp_all add: fit_finish_def saveFinalMetrics_def)

lemma load_fields:
  assumes "load m g = Some l"
  shows "population m = Some (c_population (l_core l))"
    and "env m = Some (c_env (l_core l))"
    and "trackingObj m = c_trackingObj (l_core l)"
    and "g_rngs g = c_rngs (l_core l)"
    and "trackingAccuracy m = Some (l_trackingAccuracy l)"
    and "movingAvgCount m = Some (l_movingAvgCount l)"
    and "\<exists>t. timer m = Some t"
  using assms by (auto simp: load_def split: option.splits)

lemma store_fields:
  assumes "store l (m, g) = (m', g')"
  shows "population m' = Some (c_population (l_core l))"
    and "env m' = Some (c_env (l_core l))"
    and "trackingObj m' = c_trackingObj (l_core l)"
    and "g_rngs g' = c_rngs (l_core l)"
    and "trackingAccuracy m' = Some (l_trackingAccuracy l)"
    and "timer m' = Some (fst (l_clock l))"
    and "hasTrained m' = hasTrained m"
  using assms by (auto simp: store_def)

lemma while_entry_int:
  "while_entry (PInt k) (PInt b)
   = (if k < b then Enters (IntC k) (of_int b) else Skips)"
  by (simp add: while_entry_def)

text \<open>
  The loop and what follows it, for an integer counter \<open>k\<close> and the integer bound
  \<open>n + k\<close>: the result and the final state, from the \<open>n\<close> passes of the spec.
\<close>

lemma fit_train_int:
  assumes f: "f \<noteq> 0" and e: "explorIter m2 = Some (PInt k)"
    and li: "learningIterations (params m2) = PInt (n + k)" and n: "0 \<le> n"
    and ld: "load m2 g2 = Some l"
    and run: "training_passes C B (params m2) (l_movingAvgCount l) (nat n) k
                (l_core l, l_trackingAccuracy l) = (err, c, acc)"
  shows "fst (fit_train C B f (m2, g2)) = (case err of None \<Rightarrow> Inr () | Some ex \<Rightarrow> Inl ex)
       \<and> hasTrained (fst (snd (fit_train C B f (m2, g2)))) = (err = None \<or> hasTrained m2)
       \<and> (err = None \<longrightarrow>
            explorIter (fst (snd (fit_train C B f (m2, g2)))) = Some (PInt (k + n)))
       \<and> population (fst (snd (fit_train C B f (m2, g2)))) = Some (c_population c)
       \<and> env (fst (snd (fit_train C B f (m2, g2)))) = Some (c_env c)
       \<and> trackingObj (fst (snd (fit_train C B f (m2, g2)))) = c_trackingObj c
       \<and> g_rngs (snd (snd (fit_train C B f (m2, g2)))) = c_rngs c
       \<and> trackingAccuracy (fst (snd (fit_train C B f (m2, g2)))) = Some acc"
proof (cases "n = 0")
  case True
  with run have r: "err = None" "c = l_core l" "acc = l_trackingAccuracy l"
    by simp_all
  have "while_entry (PInt k) (PInt (n + k)) = Skips"
    using True by (simp add: while_entry_int)
  with e li have t: "fit_train C B f (m2, g2) = fit_finish (m2, g2)"
    by (simp add: fit_train_def)
  from load_fields [OF ld] obtain tm where tm: "timer m2 = Some tm" by blast
  note ff = fit_finish_ok [OF tm load_fields(1) [OF ld], of g2]
  from ff load_fields(1-5) [OF ld] e True r show ?thesis
    unfolding t by simp
next
  case False
  with n have pos: "k < n + k" by simp
  let ?r0 = "\<lparr> r_live = l, r_record = record_obj m2, r_aveGenerality = 0 \<rparr>"
  obtain err' e' r' where loop:
    "fit_loop C B (params m2) f (of_int (n + k)) (IntC k) ?r0 = (err', e', r')"
    by (metis prod_cases3)
  from fit_loop_int [OF f, of C B "params m2" "n + k" k ?r0] loop run
  have same: "err' = err" "l_core (r_live r') = c" "l_trackingAccuracy (r_live r') = acc"
    and fin: "err' = None \<longrightarrow> e' = IntC (max k (n + k))"
    by simp_all
  obtain m3 g3 where st: "store (r_live r') (m2, g2) = (m3, g3)"
    by (metis surj_pair)
  note sf = store_fields [OF st]
  let ?m4 = "m3\<lparr> explorIter := Some (counter_obj e'), record_obj := r_record r' \<rparr>"
  have we: "while_entry (PInt k) (PInt (n + k)) = Enters (IntC k) (of_int (n + k))"
    using pos by (simp add: while_entry_int)
  show ?thesis
  proof (cases err)
    case None
    with same have "err' = None" by simp
    with e li we ld loop st have t: "fit_train C B f (m2, g2) = fit_finish (?m4, g3)"
      by (simp add: fit_train_def)
    have tm: "timer ?m4 = Some (fst (l_clock (r_live r')))" using sf(6) by simp
    have pp: "population ?m4 = Some (c_population (l_core (r_live r')))" using sf(1) by simp
    note ff = fit_finish_ok [OF tm pp, of g3]
    from fin \<open>err' = None\<close> n have e': "counter_obj e' = PInt (k + n)"
      by (simp add: max_def add.commute)
    from ff sf same None e' show ?thesis
      unfolding t by simp
  next
    case (Some ex)
    with same have "err' = Some ex" by simp
    with e li we ld loop st have t: "fit_train C B f (m2, g2) = (Inl ex, ?m4, g3)"
      by (simp add: fit_train_def)
    from sf same Some show ?thesis
      unfolding t by simp
  qed
qed

lemma iteration_untracked_fst:
  "\<not> py_truth (trackAccuracyWhileFit cfg) \<Longrightarrow> fst (iteration C B cfg mov sp it s) = None"
  by (cases s) (simp add: iteration_untracked)

lemma training_pass_untracked:
  "\<not> py_truth (trackAccuracyWhileFit cfg) \<Longrightarrow> fst (training_pass C B cfg mov it s) = None"
  using iteration_untracked_fst [of cfg C B mov "getTrainInstance C (c_env (fst s))" it s]
  by (auto simp: training_pass_def split: prod.splits option.splits)

lemma training_passes_untracked:
  "\<not> py_truth (trackAccuracyWhileFit cfg) \<Longrightarrow> fst (training_passes C B cfg mov n e s) = None"
proof (induction n arbitrary: e s)
  case 0
  then show ?case by simp
next
  case (Suc n)
  obtain err s' where p: "training_pass C B cfg mov (PInt e) s = (err, s')"
    by (metis surj_pair)
  with training_pass_untracked [OF Suc.prems, of C B mov "PInt e" s] have "err = None"
    by simp
  with p Suc.IH [OF Suc.prems, of "e + 1" s'] show ?case
    by simp
qed


lemma check_xor_y: "check_X_y no_parse xor_X xor_y = Inr ()"
  by (simp add: check_X_y_def xor_X_def xor_y_def float_max_int_def)

lemma toy_perform [simp]: "perform toy = toy_perform"
  by (simp add: toy_def)

lemma toy_pass_population:
  assumes "\<not> py_truth (trackAccuracyWhileFit cfg)" and "\<not> py_truth (doCorrectSetSubsumption cfg)"
  shows "fst (training_pass toy B cfg mov it (c, acc)) = None"
    and "c_population (fst (snd (training_pass toy B cfg mov it (c, acc))))
         = toy_grow (c_population c)"
    and "snd (snd (training_pass toy B cfg mov it (c, acc))) = acc"
  using assms
  by (simp_all add: training_pass_def iteration_untracked matched_def after_protocol_def
      with_sizes_def toy_grow_def Let_def split: list.splits)

lemma toy_passes_population:
  assumes "\<not> py_truth (trackAccuracyWhileFit cfg)" and "\<not> py_truth (doCorrectSetSubsumption cfg)"
  shows "c_population (fst (snd (training_passes toy B cfg mov n e (c, acc))))
         = (toy_grow ^^ n) (c_population c)"
proof (induction n arbitrary: e c)
  case 0
  then show ?case by simp
next
  case (Suc n)
  obtain c' acc' where p: "training_pass toy B cfg mov (PInt e) (c, acc) = (None, c', acc')"
    using toy_pass_population(1) [OF assms, of B mov "PInt e" c acc]
    by (metis prod.collapse)
  from toy_pass_population(2,3) [OF assms, of B mov "PInt e" c acc] p
  have c': "c_population c' = toy_grow (c_population c)" and "acc' = acc"
    by simp_all
  with p Suc.IH [of "e + 1" c'] show ?case
    by (simp add: funpow_swap1)
qed


lemma toy_training_run:
  "c_population (fst (snd (training_run toy no_parse xor_X xor_y
       (estimator (default_config\<lparr> learningIterations := PInt 2 \<rparr>)) toy_world 2 0
       \<lparr> popSet = [], microPopSize = 0, matchSet = [], correctSet = [] \<rparr>)))
   = \<lparr> popSet = [\<lparr> numerosity = 3, rule = () \<rparr>], microPopSize = 3,
       matchSet = [], correctSet = [] \<rparr>"
proof -
  let ?cfg = "(params (estimator (default_config\<lparr> learningIterations := PInt 2 \<rparr>)))
                \<lparr> learningIterations := PInt (2 + 0) \<rparr>"
  have a: "\<not> py_truth (trackAccuracyWhileFit ?cfg)"
    by (simp add: estimator_def default_config_def)
  have b: "\<not> py_truth (doCorrectSetSubsumption ?cfg)"
    by (simp add: estimator_def default_config_def)
  have n: "nat 2 = Suc (Suc 0)" by simp
  show ?thesis
    unfolding training_run_def Let_def toy_passes_population [OF a b] n
    by (simp add: toy_grow_def)
qed


section \<open>Runs that differ in time only\<close>

lemma agree_refl [simp]: "agree l l"
  by (simp add: agree_def)

lemma agree_do_call: "agree l1 l2 \<Longrightarrow> agree (do_call C cfg c l1) (do_call C cfg c l2)"
  by (simp add: agree_def do_call_def)

lemma agree_do_timer_left: "agree (do_timer C t l1) l2 \<longleftrightarrow> agree l1 l2"
  by (simp add: agree_def do_timer_def)

lemma agree_do_timer_right: "agree l1 (do_timer C t l2) \<longleftrightarrow> agree l1 l2"
  by (simp add: agree_def do_timer_def)

lemma agree_calls_left: "agree (l1\<lparr> l_calls := cs \<rparr>) l2 \<longleftrightarrow> agree l1 l2"
  by (simp add: agree_def)

lemma agree_calls_right: "agree l1 (l2\<lparr> l_calls := cs \<rparr>) \<longleftrightarrow> agree l1 l2"
  by (simp add: agree_def)

text \<open>
  What \<open>runIteration\<close> raises and what it does to the learning state and the accuracy
  window depends on these alone, not on the clock.
\<close>

lemma agree_runIteration:
  assumes "agree l1 l2"
  shows "fst (runIteration C B cfg sp it l1) = fst (runIteration C B cfg sp it l2)
       \<and> agree (snd (runIteration C B cfg sp it l1)) (snd (runIteration C B cfg sp it l2))"
proof -
  from assms have eq: "l_core l1 = l_core l2" "l_trackingAccuracy l1 = l_trackingAccuracy l2"
    "l_movingAvgCount l1 = l_movingAvgCount l2"
    by (simp_all add: agree_def)
  have "(fst (runIteration C B cfg sp it l1), l_core (snd (runIteration C B cfg sp it l1)),
         l_trackingAccuracy (snd (runIteration C B cfg sp it l1)))
        = (fst (runIteration C B cfg sp it l2), l_core (snd (runIteration C B cfg sp it l2)),
           l_trackingAccuracy (snd (runIteration C B cfg sp it l2)))"
    unfolding runIteration_effect eq ..
  then show ?thesis
    using eq(3) by (simp add: agree_def runIteration_movingAvgCount)
qed

lemma agree_mean:
  "agree l1 l2 \<Longrightarrow> mean_accuracy (l_trackingAccuracy l1) = mean_accuracy (l_trackingAccuracy l2)"
  by (simp add: agree_def)

lemma agree_fit_iteration:
  assumes "agree_run r1 r2"
  shows "fst (fit_iteration C B cfg f e r1) = fst (fit_iteration C B cfg f e r2)
       \<and> agree_run (snd (fit_iteration C B cfg f e r1)) (snd (fit_iteration C B cfg f e r2))"
proof -
  let ?a1 = "(r_live r1)\<lparr> l_calls := l_calls (r_live r1) @ [GetTrainInstance] \<rparr>"
  let ?a2 = "(r_live r2)\<lparr> l_calls := l_calls (r_live r2) @ [GetTrainInstance] \<rparr>"
  from assms have live: "agree (r_live r1) (r_live r2)"
    and gen: "r_aveGenerality r1 = r_aveGenerality r2"
    by (simp_all add: agree_run_def)
  have a: "agree ?a1 ?a2"
    using live by (simp add: agree_calls_left agree_calls_right)
  have env: "c_env (l_core ?a1) = c_env (l_core ?a2)"
    using live by (simp add: agree_def)
  let ?sp = "getTrainInstance C (c_env (l_core ?a1))"
  obtain e1 b1 where i1: "runIteration C B cfg ?sp (counter_obj e) ?a1 = (e1, b1)"
    by (metis surj_pair)
  obtain e2 b2 where i2: "runIteration C B cfg ?sp (counter_obj e) ?a2 = (e2, b2)"
    by (metis surj_pair)
  from agree_runIteration [OF a, of C B cfg ?sp "counter_obj e"] i1 i2
  have ee: "e2 = e1" and b: "agree b1 b2" by simp_all
  from i2 ee env
  have i2': "runIteration C B cfg (getTrainInstance C (c_env (l_core ?a2))) (counter_obj e) ?a2
             = (e1, b2)"
    by simp
  show ?thesis
  proof (cases e1)
    case (Some ex)
    with i1 i2' b gen show ?thesis
      by (simp add: fit_iteration_def Let_def agree_run_def)
  next
    case None
    let ?c1 = "do_timer C StartTimeEvaluation b1" and ?c2 = "do_timer C StartTimeEvaluation b2"
    have c: "agree ?c1 ?c2"
      using b by (simp add: agree_do_timer_left agree_do_timer_right)
    show ?thesis
    proof (cases "f = 0")
      case True
      with None i1 i2' c gen show ?thesis
        by (simp add: fit_iteration_def Let_def agree_run_def)
    next
      case False
      let ?hit = "counter_hit e f"
      let ?d1 = "if ?hit then ?c1\<lparr> l_calls := l_calls ?c1 @ [GetAveGenerality] \<rparr> else ?c1"
      let ?d2 = "if ?hit then ?c2\<lparr> l_calls := l_calls ?c2 @ [GetAveGenerality] \<rparr> else ?c2"
      have d: "agree ?d1 ?d2"
        using c by (simp add: agree_calls_left agree_calls_right)
      have core: "l_core ?c1 = l_core ?c2" using c by (simp add: agree_def)
      have mean: "mean_accuracy (l_trackingAccuracy ?d1) = mean_accuracy (l_trackingAccuracy ?d2)"
        using d by (rule agree_mean)
      obtain acc where acc: "mean_accuracy (l_trackingAccuracy ?d2) = Inr acc"
        using mean_accuracy_ok by blast
      have fin: "agree (do_call C cfg NewInstance
                          (do_timer C StopTimeEvaluation (do_timer C UpdateGlobalTime ?d1)))
                       (do_call C cfg NewInstance
                          (do_timer C StopTimeEvaluation (do_timer C UpdateGlobalTime ?d2)))"
        using d by (intro agree_do_call iffD2 [OF agree_do_timer_left]
            iffD2 [OF agree_do_timer_right])
      show ?thesis
        using None False i1 i2' gen core mean acc fin
        by (simp add: fit_iteration_def Let_def agree_run_def)
    qed
  qed
qed

lemma agree_fit_loop:
  assumes "agree_run r1 r2"
  shows "fst (fit_loop C B cfg f li e r1) = fst (fit_loop C B cfg f li e r2)
       \<and> fst (snd (fit_loop C B cfg f li e r1)) = fst (snd (fit_loop C B cfg f li e r2))
       \<and> agree_run (snd (snd (fit_loop C B cfg f li e r1)))
                   (snd (snd (fit_loop C B cfg f li e r2)))"
  using assms
proof (induction C B cfg f li e r1 arbitrary: r2 rule: fit_loop.induct)
  case (1 C B cfg f li e r1)
  show ?case
  proof (cases "counter_value e < li")
    case False
    with "1.prems" show ?thesis
      by (simp add: fit_loop.simps [of C B cfg f li e])
  next
    case True
    obtain e1 a1 where i1: "fit_iteration C B cfg f e r1 = (e1, a1)" by (metis surj_pair)
    obtain e2 a2 where i2: "fit_iteration C B cfg f e r2 = (e2, a2)" by (metis surj_pair)
    from agree_fit_iteration [OF "1.prems", of C B cfg f e] i1 i2
    have ee: "e2 = e1" and a: "agree_run a1 a2" by simp_all
    show ?thesis
    proof (cases e1)
      case None
      from "1.IH" [OF True i1 [symmetric] None a] True i1 i2 ee None show ?thesis
        by (simp add: fit_loop.simps [of C B cfg f li e])
    next
      case (Some ex)
      with True i1 i2 ee a show ?thesis
        by (simp add: fit_loop.simps [of C B cfg f li e])
    qed
  qed
qed

lemma agree_fit_setup:
  assumes "agree_world g1 g2"
  shows "fst (fit_setup C B X y (m, g1)) = fst (fit_setup C B X y (m, g2))
       \<and> fst (snd (fit_setup C B X y (m, g1))) = fst (snd (fit_setup C B X y (m, g2)))
       \<and> agree_world (snd (snd (fit_setup C B X y (m, g1))))
                     (snd (snd (fit_setup C B X y (m, g2))))"
  using assms by (simp add: fit_setup_def Let_def agree_world_def split: sum.splits)

lemma agree_elcs_refl [simp]: "agree_elcs m m"
  by (simp add: agree_elcs_def)

lemma agree_rebootPopulation:
  assumes "agree_elcs m1 m2" and "agree_world g1 g2"
  shows "fst (rebootPopulation C (m1, g1)) = fst (rebootPopulation C (m2, g2))
       \<and> agree_elcs (fst (snd (rebootPopulation C (m1, g1))))
                    (fst (snd (rebootPopulation C (m2, g2))))
       \<and> agree_world (snd (snd (rebootPopulation C (m1, g1))))
                     (snd (snd (rebootPopulation C (m2, g2))))"
proof -
  from assms have eq: "params m2 = params m1" "explorIter m2 = explorIter m1"
    "g_pickles g2 = g_pickles g1"
    by (simp_all add: agree_elcs_def agree_world_def)
  show ?thesis
  proof (cases "rebootFilename (params m1)")
    case (PStr name)
    show ?thesis
    proof (cases "g_pickles g1 name")
      case None
      with PStr assms eq show ?thesis
        by (simp add: rebootPopulation_def)
    next
      case (Some rawData)
      show ?thesis
      proof (cases "py_add (learningIterations (params m1)) (fm_learningIterations rawData)")
        case (Inl ex)
        with Some PStr assms eq show ?thesis
          by (simp add: rebootPopulation_def Let_def agree_elcs_def agree_world_def)
      next
        case (Inr li)
        show ?thesis
        proof (cases "explorIter m1")
          case None
          with Inr Some PStr assms eq show ?thesis
            by (simp add: rebootPopulation_def Let_def agree_elcs_def agree_world_def)
        next
          case (Some e)
          with Inr \<open>g_pickles g1 name = Some rawData\<close> PStr assms eq show ?thesis
            by (cases "py_add e (fm_learningIterations rawData)")
              (simp_all add: rebootPopulation_def Let_def agree_elcs_def agree_world_def)
        qed
      qed
    qed
  qed (insert assms eq, simp_all add: rebootPopulation_def)
qed

lemma agree_fit_population:
  assumes "agree_elcs m1 m2" and "agree_world g1 g2"
  shows "fst (fit_population C (m1, g1)) = fst (fit_population C (m2, g2))
       \<and> agree_elcs (fst (snd (fit_population C (m1, g1))))
                    (fst (snd (fit_population C (m2, g2))))
       \<and> agree_world (snd (snd (fit_population C (m1, g1))))
                     (snd (snd (fit_population C (m2, g2))))"
proof (cases "rebootFilename (params m1) = PNone")
  case True
  moreover from assms have "params m2 = params m1" by (simp add: agree_elcs_def)
  ultimately show ?thesis
    using assms by (simp add: fit_population_def Let_def agree_elcs_def agree_world_def)
next
  case False
  moreover from assms have "params m2 = params m1" by (simp add: agree_elcs_def)
  ultimately show ?thesis
    using agree_rebootPopulation [OF assms, of C] by (simp add: fit_population_def)
qed

lemma agree_load:
  assumes "agree_elcs m1 m2" and "agree_world g1 g2"
  shows "(load m1 g1 = None \<and> load m2 g2 = None)
       \<or> (\<exists>l1 l2. load m1 g1 = Some l1 \<and> load m2 g2 = Some l2 \<and> agree l1 l2)"
  using assms
  by (auto simp: load_def agree_elcs_def agree_world_def agree_def split: option.splits)

lemma agree_store:
  assumes "agree l1 l2" and "agree_elcs m1 m2" and "agree_world g1 g2"
  shows "agree_elcs (fst (store l1 (m1, g1))) (fst (store l2 (m2, g2)))
       \<and> agree_world (snd (store l1 (m1, g1))) (snd (store l2 (m2, g2)))"
  using assms by (simp add: store_def agree_def agree_elcs_def agree_world_def)

lemma agree_fit_finish:
  assumes "agree_elcs m1 m2"
  shows "fst (fit_finish (m1, g1)) = fst (fit_finish (m2, g2))
       \<and> agree_elcs (fst (snd (fit_finish (m1, g1)))) (fst (snd (fit_finish (m2, g2))))"
  using assms
  by (auto simp: fit_finish_def saveFinalMetrics_def agree_elcs_def split: option.splits)

lemma agree_fit_train:
  assumes "agree_elcs m1 m2" and "agree_world g1 g2"
  shows "fst (fit_train C B f (m1, g1)) = fst (fit_train C B f (m2, g2))
       \<and> agree_elcs (fst (snd (fit_train C B f (m1, g1))))
                    (fst (snd (fit_train C B f (m2, g2))))"
proof -
  from assms(1) have eq: "params m2 = params m1" "explorIter m2 = explorIter m1"
    by (simp_all add: agree_elcs_def)
  show ?thesis
  proof (cases "explorIter m1")
    case None
    with eq assms(1) show ?thesis by (simp add: fit_train_def)
  next
    case (Some e0)
    show ?thesis
    proof (cases "while_entry e0 (learningIterations (params m1))")
      case (Raises ex)
      with Some eq assms(1) show ?thesis by (simp add: fit_train_def)
    next
      case Beyond
      with Some eq assms(1) show ?thesis by (simp add: fit_train_def)
    next
      case Skips
      with Some eq agree_fit_finish [OF assms(1), of g1 g2] show ?thesis
        by (simp add: fit_train_def)
    next
      case (Enters c li)
      from agree_load [OF assms] show ?thesis
      proof
        assume "load m1 g1 = None \<and> load m2 g2 = None"
        with Some Enters eq assms(1) show ?thesis by (simp add: fit_train_def)
      next
        assume "\<exists>l1 l2. load m1 g1 = Some l1 \<and> load m2 g2 = Some l2 \<and> agree l1 l2"
        then obtain l1 l2 where ld: "load m1 g1 = Some l1" "load m2 g2 = Some l2"
          and l: "agree l1 l2" by blast
        let ?r1 = "\<lparr> r_live = l1, r_record = record_obj m1, r_aveGenerality = 0 \<rparr>"
        let ?r2 = "\<lparr> r_live = l2, r_record = record_obj m2, r_aveGenerality = 0 \<rparr>"
        have r: "agree_run ?r1 ?r2" using l by (simp add: agree_run_def)
        obtain err e a1 where o1: "fit_loop C B (params m1) f li c ?r1 = (err, e, a1)"
          by (metis prod_cases3)
        obtain err2 e2 a2 where o2: "fit_loop C B (params m1) f li c ?r2 = (err2, e2, a2)"
          by (metis prod_cases3)
        from agree_fit_loop [OF r, of C B "params m1" f li c] o1 o2
        have same: "err2 = err" "e2 = e" and a: "agree_run a1 a2" by simp_all
        from a have al: "agree (r_live a1) (r_live a2)" by (simp add: agree_run_def)
        obtain m3 g3 where s1: "store (r_live a1) (m1, g1) = (m3, g3)" by (metis surj_pair)
        obtain m3' g3' where s2: "store (r_live a2) (m2, g2) = (m3', g3')" by (metis surj_pair)
        from agree_store [OF al assms] s1 s2 have m3: "agree_elcs m3 m3'" by simp
        let ?m4 = "m3\<lparr> explorIter := Some (counter_obj e), record_obj := r_record a1 \<rparr>"
        let ?m4' = "m3'\<lparr> explorIter := Some (counter_obj e), record_obj := r_record a2 \<rparr>"
        have m4: "agree_elcs ?m4 ?m4'" using m3 by (simp add: agree_elcs_def)
        have t1: "fit_train C B f (m1, g1)
                  = (case err of Some ex \<Rightarrow> (Inl ex, ?m4, g3) | None \<Rightarrow> fit_finish (?m4, g3))"
          using ld Some Enters o1 s1 by (cases err) (simp_all add: fit_train_def Let_def)
        have t2: "fit_train C B f (m2, g2)
                  = (case err of Some ex \<Rightarrow> (Inl ex, ?m4', g3') | None \<Rightarrow> fit_finish (?m4', g3'))"
          using ld Some Enters eq o2 same s2
          by (cases err) (simp_all add: fit_train_def Let_def)
        show ?thesis
          unfolding t1 t2
          using m4 agree_fit_finish [OF m4, of g3 g3'] by (cases err) simp_all
      qed
    qed
  qed
qed

lemma agree_fit:
  assumes "agree_world g1 g2"
  shows "fst (fit C B X y (m, g1)) = fst (fit C B X y (m, g2))
       \<and> agree_elcs (fst (snd (fit C B X y (m, g1)))) (fst (snd (fit C B X y (m, g2))))"
proof (cases "hasTrained m")
  case True
  then show ?thesis by (simp add: fit_def)
next
  case False
  show ?thesis
  proof (cases "check_X_y B X y")
    case (Inl ex)
    with False show ?thesis by (simp add: fit_def)
  next
    case (Inr u)
    obtain f m1 h1 where u1: "fit_setup C B X y (m, g1) = (f, m1, h1)" by (metis prod_cases3)
    obtain f' m1' h2 where u2: "fit_setup C B X y (m, g2) = (f', m1', h2)"
      by (metis prod_cases3)
    from agree_fit_setup [OF assms, of C B X y m] u1 u2
    have same: "f' = f" "m1' = m1" and h: "agree_world h1 h2" by simp_all
    show ?thesis
    proof (cases f)
      case (Inl ex)
      with False \<open>check_X_y B X y = Inr u\<close> u1 u2 same show ?thesis
        by (simp add: fit_def)
    next
      case (Inr k)
      obtain err m2 k1 where p1: "fit_population C (m1, h1) = (err, m2, k1)"
        by (metis prod_cases3)
      obtain err' m2' k2 where p2: "fit_population C (m1, h2) = (err', m2', k2)"
        by (metis prod_cases3)
      from agree_fit_population [OF agree_elcs_refl h, of C m1] p1 p2
      have e: "err' = err" and m2: "agree_elcs m2 m2'" and kk: "agree_world k1 k2"
        by simp_all
      have t1: "fit C B X y (m, g1)
                = (case err of Some ex \<Rightarrow> (Inl ex, m2, k1) | None \<Rightarrow> fit_train C B k (m2, k1))"
        using False \<open>check_X_y B X y = Inr u\<close> u1 Inr p1 by (cases err) (simp_all add: fit_def)
      have t2: "fit C B X y (m, g2)
                = (case err of Some ex \<Rightarrow> (Inl ex, m2', k2) | None \<Rightarrow> fit_train C B k (m2', k2))"
        using False \<open>check_X_y B X y = Inr u\<close> u2 same Inr p2 e
        by (cases err) (simp_all add: fit_def)
      show ?thesis
        unfolding t1 t2
        using m2 agree_fit_train [OF m2 kk, of C B k] by (cases err) simp_all
    qed
  qed
qed

lemma seed_randomSeed_given:
  assumes "v \<noteq> PStr ''none''"
  shows "fst (seed_randomSeed B v r1) = fst (seed_randomSeed B v r2)
       \<and> (\<not> isl (fst (seed_randomSeed B v r1)) \<longrightarrow>
            snd (seed_randomSeed B v r1) = snd (seed_randomSeed B v r2))"
  using assms by (auto simp: seed_randomSeed_def Let_def split: sum.splits)

lemma init_seeded:
  assumes "randomSeed c \<noteq> PStr ''none''"
  shows "fst (init B ir0 c r1) = fst (init B ir0 c r2)
       \<and> (\<not> isl (fst (init B ir0 c r1)) \<longrightarrow> snd (init B ir0 c r1) = snd (init B ir0 c r2))"
proof (cases "run_checks (checks_before_seed B c)")
  case (Inl ex)
  then show ?thesis by (simp add: init_def)
next
  case (Inr u)
  obtain s1 q1 where a1: "seed_randomSeed B (randomSeed c) r1 = (s1, q1)" by (metis surj_pair)
  obtain s2 q2 where a2: "seed_randomSeed B (randomSeed c) r2 = (s2, q2)" by (metis surj_pair)
  from seed_randomSeed_given [OF assms, of B r1 r2] a1 a2
  have s: "s2 = s1" and q: "\<not> isl s1 \<longrightarrow> q2 = q1" by simp_all
  show ?thesis
  proof (cases s1)
    case (Inl ex)
    with Inr a1 a2 s show ?thesis by (simp add: init_def)
  next
    case (Inr u')
    with \<open>run_checks (checks_before_seed B c) = Inr u\<close> a1 a2 s q show ?thesis
      by (cases "run_checks (checks_after_seed c)") (simp_all add: init_def)
  qed
qed

lemma in_range_init:
  assumes "in_range c"
  shows "\<not> isl (fst (init B ir0 c g))"
proof -
  have "\<not> isl (run_checks (checks_before_seed B c))"
    using assms unfolding before_seed_isl in_range_def
    by (auto simp: in_unit_ok nonneg_int_ok dal_ok spAttrs_ok chk_selectionMethod_isl
        chk_nonneg_float_isl finite_num_float finite_num_lt split: option.splits)
  moreover have "\<not> isl (fst (seed_randomSeed B (randomSeed c) g))"
    using assms by (simp add: in_range_def seed_ok_ok)
  moreover have "\<not> isl (run_checks (checks_after_seed c))"
    using assms unfolding after_seed_isl in_range_def by auto
  ultimately show ?thesis by (simp add: init_raises_iff)
qed

text \<open>
  Claim C7. Take a configuration whose \<open>randomSeed\<close> is not \<open>none\<close>, and two worlds that
  hold the same files but may differ in everything else: the states of the two global
  generators, the clock, what was called before. Construct-then-fit on the same
  configuration, \<open>X\<close> and \<open>y\<close> produces the same in both: the same exception of the
  constructor, or the same result of \<open>fit\<close> and the same population, \<open>popSet\<close> included.
\<close>

theorem training_deterministic:
  assumes "randomSeed c \<noteq> PStr ''none''" and "g_pickles g1 = g_pickles g2"
  shows "produced (construct_then_fit (C :: ('x, 'e, 'tp, 'ir, 'w, 'pr) collab) B ir0 c X y g1)
         = produced (construct_then_fit C B ir0 c X y g2)"
proof -
  let ?init = "\<lambda>r. (init B ir0 c r :: (exn + ('x, 'e, 'tp, 'ir) elcs) \<times> rngs)"
  obtain a1 q1 where i1: "?init (g_rngs g1) = (a1, q1)" by (metis surj_pair)
  obtain a2 q2 where i2: "?init (g_rngs g2) = (a2, q2)" by (metis surj_pair)
  have "fst (?init (g_rngs g1)) = fst (?init (g_rngs g2))
      \<and> (\<not> isl (fst (?init (g_rngs g1))) \<longrightarrow> snd (?init (g_rngs g1)) = snd (?init (g_rngs g2)))"
    using assms(1) by (rule init_seeded)
  with i1 i2 have a: "a2 = a1" and q: "\<not> isl a1 \<longrightarrow> q2 = q1" by simp_all
  show ?thesis
  proof (cases a1)
    case (Inl ex)
    with i1 i2 a show ?thesis by (simp add: construct_then_fit_def)
  next
    case (Inr m)
    with q have qq: "q2 = q1" by simp
    have w: "agree_world (g1\<lparr> g_rngs := q1 \<rparr>) (g2\<lparr> g_rngs := q1 \<rparr>)"
      using assms(2) by (simp add: agree_world_def)
    obtain r1 m1 h1 where f1: "fit C B X y (m, g1\<lparr> g_rngs := q1 \<rparr>) = (r1, m1, h1)"
      by (metis prod_cases3)
    obtain r2 m2 h2 where f2: "fit C B X y (m, g2\<lparr> g_rngs := q1 \<rparr>) = (r2, m2, h2)"
      by (metis prod_cases3)
    from agree_fit [OF w, of C B X y m] f1 f2
    have "r2 = r1" and "population m2 = population m1"
      by (simp_all add: agree_elcs_def)
    with Inr i1 i2 a qq f1 f2 show ?thesis
      by (simp add: construct_then_fit_def produced_def)
  qed
qed

theorem training_deterministic_witness:
  "randomSeed (default_config\<lparr> randomSeed := PInt 1 \<rparr>) \<noteq> PStr ''none''
   \<and> g_pickles toy_world = g_pickles other_world
   \<and> g_rngs toy_world \<noteq> g_rngs other_world \<and> g_outside toy_world \<noteq> g_outside other_world
   \<and> \<not> isl (construct_then_fit toy no_parse 0 (default_config\<lparr> randomSeed := PInt 1 \<rparr>)
              xor_X xor_y toy_world)
   \<and> produced (construct_then_fit toy no_parse 0 (default_config\<lparr> randomSeed := PInt 1 \<rparr>)
                xor_X xor_y toy_world)
     = produced (construct_then_fit toy no_parse 0 (default_config\<lparr> randomSeed := PInt 1 \<rparr>)
                  xor_X xor_y other_world)"
proof -
  let ?c = "default_config\<lparr> randomSeed := PInt 1 \<rparr>"
  have a: "randomSeed ?c \<noteq> PStr ''none''" by simp
  have b: "g_pickles toy_world = g_pickles other_world" by (simp add: other_world_def)
  have d: "g_rngs toy_world \<noteq> g_rngs other_world"
    "g_outside toy_world \<noteq> g_outside other_world"
    by (simp_all add: other_world_def toy_world_def unseeded_def)
  have "in_range ?c"
    using in_range_default by (simp add: in_range_def)
  then have "\<not> isl (fst (init no_parse (0::nat) ?c (g_rngs toy_world)
      :: (exn + (unit, (pyval list \<times> pyval) list \<times> nat, unit, nat) elcs) \<times> rngs))"
    by (rule in_range_init)
  then have e: "\<not> isl (construct_then_fit toy no_parse 0 ?c xor_X xor_y toy_world)"
    by (auto simp: construct_then_fit_def split: prod.splits sum.splits)
  from a b d e training_deterministic [OF a b, of toy no_parse 0 xor_X xor_y]
  show ?thesis by blast
qed

section \<open>\<open>fit\<close> stays within the model\<close>

text \<open>
  No run of \<open>fit\<close> ends in the branch \<open>Beyond\<close> of \<open>while_entry\<close>: the marker \<open>NotModelled\<close>
  is never the outcome of \<open>fit\<close>.
\<close>

lemma py_float_exn: "py_float B v = Inl ex \<Longrightarrow> ex \<noteq> NotModelled"
  by (cases v) (auto split: if_splits option.splits)

lemma as_float_exn: "as_float v = Inl ex \<Longrightarrow> ex \<noteq> NotModelled"
  by (cases v) (auto split: if_splits)

lemma py_int_exn: "py_int B v = Inl ex \<Longrightarrow> ex \<noteq> NotModelled"
proof (cases v)
  case (PFloat f)
  then show "py_int B v = Inl ex \<Longrightarrow> ex \<noteq> NotModelled" by (cases f) auto
qed (auto split: option.splits)

lemma fl_div_exn: "fl_div a b = Inl ex \<Longrightarrow> ex \<noteq> NotModelled"
  by (cases b; cases a) (auto split: if_splits)

lemma py_sub_exn: "py_sub a b = Inl ex \<Longrightarrow> ex \<noteq> NotModelled"
  by (auto simp: py_sub_def split: option.splits sum.splits dest: as_float_exn)

lemma py_add_exn: "py_add a b = Inl ex \<Longrightarrow> ex \<noteq> NotModelled"
  by (auto simp: py_add_def split: option.splits sum.splits pyval.splits dest: as_float_exn)

lemma index_exn: "index xs i = Inl ex \<Longrightarrow> ex \<noteq> NotModelled"
  by (auto simp: index_def split: if_splits)

lemma accuracyEstimate_exn: "accuracyEstimate B p y ps = Inl ex \<Longrightarrow> ex \<noteq> NotModelled"
  by (auto simp: accuracyEstimate_def Let_def split: sum.splits
      dest: py_float_exn as_float_exn index_exn py_sub_exn fl_div_exn)

lemma accuracy_sample_exn: "accuracy_sample C B y pr c = Inl ex \<Longrightarrow> ex \<noteq> NotModelled"
  by (auto simp: accuracy_sample_def Let_def split: if_splits dest: accuracyEstimate_exn)

lemma window_push_exn: "window_push v mov acc = Inl ex \<Longrightarrow> ex \<noteq> NotModelled"
  by (auto simp: window_push_def split: if_splits list.splits)

lemma iteration_exn: "fst (iteration C B cfg mov sp it s) \<noteq> Some NotModelled"
  by (cases s)
    (auto simp: iteration_def Let_def split: prod.splits sum.splits
      dest: accuracy_sample_exn window_push_exn)

lemma runIteration_exn: "fst (runIteration C B cfg sp it l) \<noteq> Some NotModelled"
  using runIteration_effect [of C B cfg sp it l]
    iteration_exn [of C B cfg "l_movingAvgCount l" sp it "(l_core l, l_trackingAccuracy l)"]
  by (metis fst_conv)

lemma fit_iteration_exn: "fst (fit_iteration C B cfg f e r) \<noteq> Some NotModelled"
proof -
  let ?l0 = "(r_live r)\<lparr> l_calls := l_calls (r_live r) @ [GetTrainInstance] \<rparr>"
  let ?sp = "getTrainInstance C (c_env (l_core (r_live r)))"
  obtain err l1 where ri: "runIteration C B cfg ?sp (counter_obj e) ?l0 = (err, l1)"
    by (metis surj_pair)
  have n: "err \<noteq> Some NotModelled"
    using runIteration_exn [of C B cfg ?sp "counter_obj e" ?l0] ri by simp
  obtain a where a: "mean_accuracy (l_trackingAccuracy l1) = Inr a"
    using mean_accuracy_ok by blast
  from ri n a show ?thesis
    by (cases err) (simp_all add: fit_iteration_def Let_def)
qed

lemma fit_loop_exn: "fst (fit_loop C B cfg f li e r) \<noteq> Some NotModelled"
proof (induction C B cfg f li e r rule: fit_loop.induct)
  case (1 C B cfg f li e r)
  show ?case
  proof (cases "counter_value e < li")
    case False
    then show ?thesis by (simp add: fit_loop.simps [of C B cfg f li e])
  next
    case True
    obtain err r' where i: "fit_iteration C B cfg f e r = (err, r')" by (metis surj_pair)
    show ?thesis
    proof (cases err)
      case None
      from "1.IH" [OF True i [symmetric] None] True i None show ?thesis
        by (simp add: fit_loop.simps [of C B cfg f li e])
    next
      case (Some ex)
      with fit_iteration_exn [of C B cfg f e r] i True show ?thesis
        by (simp add: fit_loop.simps [of C B cfg f li e])
    qed
  qed
qed

lemma fit_finish_exn: "fst (fit_finish s) \<noteq> Inl NotModelled"
  by (cases s) (auto simp: fit_finish_def saveFinalMetrics_def split: option.splits)

lemma rebootPopulation_exn: "fst (rebootPopulation C s) \<noteq> Some NotModelled"
  by (cases s)
    (auto simp: rebootPopulation_def Let_def split: pyval.splits option.splits sum.splits
      dest: py_add_exn)

lemma fit_population_exn: "fst (fit_population C s) \<noteq> Some NotModelled"
  using rebootPopulation_exn [of C s]
  by (cases s) (auto simp: fit_population_def Let_def)

lemma div_by_20_exn: "div_by_20 v = Inl ex \<Longrightarrow> ex \<noteq> NotModelled"
  by (cases v) (auto split: if_splits dest: fl_div_exn)

lemma fit_setup_exn: "fst (fit_setup C B X y s) \<noteq> Inl NotModelled"
  by (cases s)
    (auto simp: fit_setup_def Let_def int_div_20_plus_1_def split: sum.splits
      dest: div_by_20_exn py_int_exn)

text \<open>A \<open>learningIterations\<close> that passes \<open>int(self.learningIterations/20)\<close> is a finite number.\<close>

lemma div_by_20_finite:
  assumes "int_div_20_plus_1 B v = Inr k"
  shows "\<exists>r. py_num v = Some (Fin r)"
proof (cases v)
  case (PFloat f)
  with assms show ?thesis
    by (cases f) (auto simp: int_div_20_plus_1_def split: sum.splits)
qed (insert assms, auto simp: int_div_20_plus_1_def split: sum.splits if_splits)

lemma while_entry_fresh:
  assumes "py_num li = Some (Fin r)"
  shows "while_entry (PInt 0) li \<noteq> Beyond"
  using assms by (simp add: while_entry_def)

lemma while_entry_after_add:
  assumes "py_num li = Some (Fin r)"
    and "py_add li raw = Inr li2" and "py_add (PInt 0) raw = Inr e2"
  shows "while_entry e2 li2 \<noteq> Beyond"
proof (cases raw)
  case (PInt k)
  with assms show ?thesis
    by (cases li) (auto simp: py_add_def while_entry_def split: if_splits)
next
  case (PBool b)
  with assms show ?thesis
    by (cases li) (auto simp: py_add_def while_entry_def split: if_splits)
next
  case (PFloat f)
  with assms show ?thesis
    by (cases li; cases f) (auto simp: py_add_def while_entry_def split: if_splits)
next
  case (PStr s)
  with assms show ?thesis by (simp add: py_add_def)
next
  case PNone
  with assms show ?thesis by (simp add: py_add_def)
qed

lemma fit_train_exn:
  assumes "\<exists>e. explorIter m = Some e \<and> while_entry e (learningIterations (params m)) \<noteq> Beyond"
  shows "fst (fit_train C B f (m, g)) \<noteq> Inl NotModelled"
proof -
  from assms obtain e where e: "explorIter m = Some e"
    and w: "while_entry e (learningIterations (params m)) \<noteq> Beyond"
    by blast
  show ?thesis
  proof (cases "while_entry e (learningIterations (params m))")
    case (Raises ex)
    have "ex = TypeError"
      using Raises by (auto simp: while_entry_def split: option.splits if_splits prod.splits pyfloat.splits)
    with Raises e show ?thesis by (simp add: fit_train_def)
  next
    case Skips
    with e fit_finish_exn [of "(m, g)"] show ?thesis by (simp add: fit_train_def)
  next
    case Beyond
    with w show ?thesis by simp
  next
    case (Enters c li)
    show ?thesis
    proof (cases "load m g")
      case None
      with e Enters show ?thesis by (simp add: fit_train_def)
    next
      case (Some l)
      let ?r0 = "\<lparr> r_live = l, r_record = record_obj m, r_aveGenerality = 0 \<rparr>"
      obtain err e' r' where loop: "fit_loop C B (params m) f li c ?r0 = (err, e', r')"
        by (metis prod_cases3)
      have n: "err \<noteq> Some NotModelled"
        using fit_loop_exn [of C B "params m" f li c ?r0] loop by simp
      obtain m3 g3 where st: "store (r_live r') (m, g) = (m3, g3)" by (metis surj_pair)
      from e Enters Some loop st n
        fit_finish_exn [of "(m3\<lparr> explorIter := Some (counter_obj e'),
                                   record_obj := r_record r' \<rparr>, g3)"]
      show ?thesis
        by (cases err) (simp_all add: fit_train_def)
    qed
  qed
qed

lemma fit_modelled: "fst (fit C B X y s) \<noteq> Inl NotModelled"
proof -
  obtain m g where s: "s = (m, g)" by (metis surj_pair)
  obtain out where out: "fit C B X y (m, g) = out" by simp
  from out have "fst out \<noteq> Inl NotModelled"
  proof (cases rule: fit_cases)
    case trained
    then show ?thesis by simp
  next
    case (check ex)
    then show ?thesis by (auto simp: check_X_y_def split: sum.splits)
  next
    case (setup_raise ex m1 g1)
    with fit_setup_exn [of C B X y "(m, g)"] show ?thesis by simp
  next
    case (pop f m1 g1 ex m2 g2)
    with fit_population_exn [of C "(m1, g1)"] show ?thesis by simp
  next
    case (train f m1 g1 m2 g2)
    from train(3) obtain r where
      li: "py_num (learningIterations (params m1)) = Some (Fin r)"
      and e1: "explorIter m1 = Some (PInt 0)"
      using div_by_20_finite [of B "learningIterations (params m)"]
      by (auto simp: fit_setup_def Let_def split: sum.splits)
    have "\<exists>e. explorIter m2 = Some e
             \<and> while_entry e (learningIterations (params m2)) \<noteq> Beyond"
    proof (cases "rebootFilename (params m1) = PNone")
      case True
      with train(4) li e1 while_entry_fresh [OF li] show ?thesis
        by (auto simp: fit_population_def Let_def)
    next
      case False
      with train(4) have rb: "rebootPopulation C (m1, g1) = (None, m2, g2)"
        by (simp add: fit_population_def)
      then obtain raw li2 e2 where
        "py_add (learningIterations (params m1)) raw = Inr li2"
        "py_add (PInt 0) raw = Inr e2"
        "explorIter m2 = Some e2" "learningIterations (params m2) = li2"
        using e1
        by (auto simp: rebootPopulation_def Let_def
            split: pyval.splits option.splits sum.splits)
      with while_entry_after_add [OF li] show ?thesis by auto
    qed
    then have "fst (fit_train C B f (m2, g2)) \<noteq> Inl NotModelled"
      by (rule fit_train_exn)
    with train(5) show ?thesis by simp
  qed
  with out s show ?thesis by simp
qed

end
